theory Spec2Isabelle
  imports Complex_Main "HOL-Library.Word" "HOL-Library.Multiset"
begin

section \<open>JavaScript values used by the course catalog scripts\<close>

text \<open>
  A JavaScript string is the sequence of its UTF-16 code units. String literals of the
  scripts that consist of ASCII characters are written \<open>lit ''...''\<close>.
\<close>

type_synonym jsstring = "16 word list"

definition lit :: "string \<Rightarrow> jsstring" where
  "lit s = map (\<lambda>c. of_nat (of_char c)) s"

text \<open>
  Reading an array element: \<open>xs[i]\<close> is \<open>undefined\<close> (here \<open>None\<close>) outside the array.
\<close>

definition array_get :: "'a list \<Rightarrow> nat \<Rightarrow> 'a option" where
  "array_get xs i = (if i < length xs then Some (xs ! i) else None)"

section \<open>Domain icons (index.js and home.js)\<close>

text \<open>The icon pool of index.js.\<close>

definition domainIcons :: "jsstring list" where
  "domainIcons = map lit
     [''fa-brain'', ''fa-robot'', ''fa-atom'', ''fa-chart-line'', ''fa-cubes'',
      ''fa-microscope'', ''fa-dna'', ''fa-laptop-code'', ''fa-layer-group'', ''fa-flask'',
      ''fa-rocket'', ''fa-satellite-dish'', ''fa-shield-alt'', ''fa-vr-cardboard'',
      ''fa-magnet'']"

text \<open>
  The loop \<open>for (let i = 0; i < domain.length; i++) sum += domain.charCodeAt(i)\<close>,
  with the loop variable and the accumulator \<open>sum\<close> (here \<open>acc\<close>) as arguments. The accumulator is a
  JavaScript number; the sum of the code units of a string stays far below \<open>2^53\<close>
  (a string has fewer than \<open>2^32\<close> code units in every engine), so the additions are
  exact and the accumulator is a natural number.
\<close>

function charCodeLoop :: "jsstring \<Rightarrow> nat \<Rightarrow> nat \<Rightarrow> nat" where
  "charCodeLoop domain i acc =
     (if i < length domain then charCodeLoop domain (i + 1) (acc + unat (domain ! i))
      else acc)"
  by pat_completeness auto
termination
  by (relation "measure (\<lambda>(domain, i, acc). length domain - i)") auto

declare charCodeLoop.simps [simp del]

definition getIconForDomain :: "jsstring \<Rightarrow> jsstring option" where
  "getIconForDomain domain =
     array_get domainIcons (charCodeLoop domain 0 0 mod length domainIcons)"

text \<open>The icon pool and the helper that home.js declares for itself.\<close>

definition domainIcons_home :: "jsstring list" where
  "domainIcons_home = map lit
     [''fa-brain'', ''fa-robot'', ''fa-atom'', ''fa-chart-line'', ''fa-cubes'',
      ''fa-microscope'', ''fa-dna'', ''fa-laptop-code'', ''fa-layer-group'', ''fa-flask'',
      ''fa-rocket'', ''fa-satellite-dish'', ''fa-shield-alt'', ''fa-vr-cardboard'',
      ''fa-magnet'']"

function charCodeLoop_home :: "jsstring \<Rightarrow> nat \<Rightarrow> nat \<Rightarrow> nat" where
  "charCodeLoop_home domain i acc =
     (if i < length domain then charCodeLoop_home domain (i + 1) (acc + unat (domain ! i))
      else acc)"
  by pat_completeness auto
termination
  by (relation "measure (\<lambda>(domain, i, acc). length domain - i)") auto

declare charCodeLoop_home.simps [simp del]

definition getIconForDomain_home :: "jsstring \<Rightarrow> jsstring option" where
  "getIconForDomain_home domain =
     array_get domainIcons_home (charCodeLoop_home domain 0 0 mod length domainIcons_home)"

section \<open>Theme persistence (theme.js)\<close>

text \<open>
  The state the theme functions touch: the class tokens of the root element (a token
  list holds each token at most once, in insertion order) and the local storage of the
  origin, a map from keys to values in which \<open>getItem\<close> of an absent key is \<open>null\<close>
  (here \<open>None\<close>).
\<close>

record theme_state =
  classList :: "jsstring list"
  localStorage :: "jsstring \<Rightarrow> jsstring option"

definition classList_contains :: "jsstring \<Rightarrow> jsstring list \<Rightarrow> bool" where
  "classList_contains tok cl = (tok \<in> set cl)"

definition classList_add :: "jsstring \<Rightarrow> jsstring list \<Rightarrow> jsstring list" where
  "classList_add tok cl = (if classList_contains tok cl then cl else cl @ [tok])"

definition classList_remove :: "jsstring \<Rightarrow> jsstring list \<Rightarrow> jsstring list" where
  "classList_remove tok cl = filter (\<lambda>t. t \<noteq> tok) cl"

text \<open>\<open>toggle\<close> returns the new token list and whether the token is present afterwards.\<close>

definition classList_toggle :: "jsstring \<Rightarrow> jsstring list \<Rightarrow> jsstring list \<times> bool" where
  "classList_toggle tok cl =
     (if classList_contains tok cl then (classList_remove tok cl, False)
      else (classList_add tok cl, True))"

definition applySavedTheme :: "theme_state \<Rightarrow> theme_state" where
  "applySavedTheme s =
     (let saved = localStorage s (lit ''theme'') in
      if saved = Some (lit ''dark'')
      then s\<lparr>classList := classList_add (lit ''dark'') (classList s)\<rparr>
      else s\<lparr>classList := classList_remove (lit ''dark'') (classList s)\<rparr>)"

definition toggleDarkMode :: "theme_state \<Rightarrow> theme_state" where
  "toggleDarkMode s =
     (let (cl, isDark) = classList_toggle (lit ''dark'') (classList s) in
      s\<lparr>classList := cl,
        localStorage := (localStorage s)
          (lit ''theme'' := Some (if isDark then lit ''dark'' else lit ''light''))\<rparr>)"

section \<open>Built-ins of the JavaScript runtime\<close>

text \<open>
  The scripts call string functions of the runtime whose results depend on the Unicode
  tables and on the locale of the browser: \<open>toLowerCase\<close>, \<open>trim\<close>, \<open>localeCompare\<close>,
  \<open>parseFloat\<close> (\<open>None\<close> is \<open>NaN\<close>) and \<open>encodeURIComponent\<close>. They are not code
  of the repository; every function below that calls one of them takes the runtime as
  its first argument, and the theorems hold for every runtime unless they say otherwise.

  Two more results depend on the machine. Numbers are doubles, and \<open>times x y\<close> is the
  product \<open>x * y\<close> as the machine rounds it. An object literal inherits the properties
  of \<open>Object.prototype\<close> (\<open>constructor\<close>, \<open>toString\<close>, ...), which are functions;
  \<open>prototypeText k\<close> is the string that the inherited property \<open>k\<close> converts to, and
  \<open>None\<close> when there is no such property. The accessor \<open>__proto__\<close> is not one of them
  and is dealt with where objects are used.
\<close>

record runtime =
  toLowerCase :: "jsstring \<Rightarrow> jsstring"
  trim :: "jsstring \<Rightarrow> jsstring"
  localeCompare :: "jsstring \<Rightarrow> jsstring \<Rightarrow> int"
  parseFloat :: "jsstring \<Rightarrow> rat option"
  encodeURIComponent :: "jsstring \<Rightarrow> jsstring"
  times :: "rat \<Rightarrow> rat \<Rightarrow> rat"
  prototypeText :: "jsstring \<Rightarrow> jsstring option"

text \<open>\<open>s.includes(t)\<close> on strings: \<open>t\<close> occurs in \<open>s\<close> as a contiguous run.\<close>

fun str_includes :: "jsstring \<Rightarrow> jsstring \<Rightarrow> bool" where
  "str_includes [] t = (t = [])"
| "str_includes (c # s) t = (take (length t) (c # s) = t \<or> str_includes s t)"

text \<open>
  \<open>xs.slice(start, end)\<close>: a negative index counts from the end of the array, and both
  indices are clamped to the array.
\<close>

definition slice :: "'a list \<Rightarrow> int \<Rightarrow> int \<Rightarrow> 'a list" where
  "slice xs start fin =
     (let len = int (length xs);
          k = (if start < 0 then max (len + start) 0 else min start len);
          final = (if fin < 0 then max (len + fin) 0 else min fin len)
      in take (nat (final - k)) (drop (nat k) xs))"

text \<open>The decimal rendering of a non-negative integer in a template string.\<close>

definition digit :: "nat \<Rightarrow> 16 word" where
  "digit d = of_nat (48 + d)"

function decimal :: "nat \<Rightarrow> jsstring" where
  "decimal n = (if n < 10 then [digit n] else decimal (n div 10) @ [digit (n mod 10)])"
  by pat_completeness auto
termination
  by (relation "measure (\<lambda>n. n)") auto

declare decimal.simps [simp del]

text \<open>
  \<open>xs.sort(cmp)\<close> orders the elements by the comparator and is stable: elements that
  compare equal keep their order. For a comparator that is a consistent ordering this
  fixes the result, which is what inserting the elements from the right gives.
  The comparator returns a number; the element \<open>x\<close> stays in front of \<open>y\<close> unless
  \<open>cmp x y > 0\<close>.
\<close>

fun insert_by :: "('a \<Rightarrow> 'a \<Rightarrow> rat) \<Rightarrow> 'a \<Rightarrow> 'a list \<Rightarrow> 'a list" where
  "insert_by cmp x [] = [x]"
| "insert_by cmp x (y # ys) =
     (if cmp x y \<le> 0 then x # y # ys else y # insert_by cmp x ys)"

definition sort_by :: "('a \<Rightarrow> 'a \<Rightarrow> rat) \<Rightarrow> 'a list \<Rightarrow> 'a list" where
  "sort_by cmp xs = foldr (insert_by cmp) xs []"

text \<open>
  \<open>Array.from(new Set(xs))\<close>: the distinct elements of \<open>xs\<close> in the order of their first
  occurrence.
\<close>

definition set_from :: "'a list \<Rightarrow> 'a list" where
  "set_from xs = rev (remdups (rev xs))"

text \<open>
  The order of strings by their code units: what \<open><\<close> on strings and the \<open>sort()\<close>
  without a comparator use.
\<close>

fun code_unit_compare :: "jsstring \<Rightarrow> jsstring \<Rightarrow> int" where
  "code_unit_compare [] [] = 0"
| "code_unit_compare [] (b # bs) = - 1"
| "code_unit_compare (a # as) [] = 1"
| "code_unit_compare (a # as) (b # bs) =
     (if a < b then - 1 else if b < a then 1 else code_unit_compare as bs)"


text \<open>
  \<open>Object.keys(counts)\<close> for an object \<open>counts = {}\<close> after assignments
  \<open>counts[k] = ...\<close> for the keys \<open>ks\<close> in turn. An assignment to \<open>__proto__\<close> calls the
  inherited setter, which ignores a value that is not an object, and the values assigned
  here are numbers and strings: that key is never stored. The stored keys come back with
  the array indices first, in ascending order, and then the other keys in the order of
  their first assignment. An array index is the decimal form of a number below
  \<open>2^32 - 1\<close>.
\<close>

definition index_of :: "jsstring \<Rightarrow> nat option" where
  "index_of k =
     (if k \<noteq> [] \<and> list_all (\<lambda>c. 48 \<le> c \<and> c \<le> 57) k \<and> (hd k \<noteq> 48 \<or> length k = 1)
      then (let n = foldl (\<lambda>a c. 10 * a + (unat c - 48)) 0 k
            in if n < 4294967295 then Some n else None)
      else None)"

definition object_keys :: "jsstring list \<Rightarrow> jsstring list" where
  "object_keys ks =
     (let own = filter (\<lambda>k. k \<noteq> lit ''__proto__'') (set_from ks)
      in sort_by (\<lambda>a b. of_nat (the (index_of a)) - of_nat (the (index_of b)))
           (filter (\<lambda>k. index_of k \<noteq> None) own)
         @ filter (\<lambda>k. index_of k = None) own)"

section \<open>Course records and the array store\<close>

text \<open>
  A course record of \<open>coursesData\<close>, with the properties that filtering, sorting and
  counting read. No function of the scripts assigns to a property of a course, so the
  records are values.
\<close>

record course =
  title :: jsstring
  track :: jsstring
  level :: jsstring
  domains :: "jsstring list"
  tools :: "jsstring list"
  rating :: rat
  students :: rat
  weeks :: rat

text \<open>
  Arrays of courses are objects: \<open>sort\<close> reorders an array in place and every variable
  holding the array sees the new order. The store maps an address (an index into the
  store) to the array that lives there. \<open>filter\<close> and the spread \<open>[...xs]\<close> allocate a
  new array; \<open>sort\<close> writes to the array it is called on.
\<close>

type_synonym store = "course list list"

definition deref :: "store \<Rightarrow> nat \<Rightarrow> course list" where
  "deref h a = (if a < length h then h ! a else [])"

definition array_filter :: "(course \<Rightarrow> bool) \<Rightarrow> store \<Rightarrow> nat \<Rightarrow> store \<times> nat" where
  "array_filter P h a = (h @ [filter P (deref h a)], length h)"

definition array_spread :: "store \<Rightarrow> nat \<Rightarrow> store \<times> nat" where
  "array_spread h a = (h @ [deref h a], length h)"

definition array_sort :: "(course \<Rightarrow> course \<Rightarrow> rat) \<Rightarrow> store \<Rightarrow> nat \<Rightarrow> store" where
  "array_sort cmp h a = (if a < length h then h[a := sort_by cmp (h ! a)] else h)"

section \<open>Page elements\<close>

text \<open>
  An \<open>option\<close> element of a \<open>select\<close>: its value, its label, and whether it is disabled
  and selected. A \<open>select\<close> element is the list of its options. Its \<open>value\<close> is the value
  of the first selected option, or the empty string when none is selected; assigning to
  \<open>value\<close> deselects every option and then selects the first option with that value.
\<close>

record opt =
  opt_value :: jsstring
  opt_text :: jsstring
  opt_disabled :: bool
  opt_selected :: bool

definition selectedOptions :: "opt list \<Rightarrow> opt list" where
  "selectedOptions sel = filter opt_selected sel"

definition select_value :: "opt list \<Rightarrow> jsstring" where
  "select_value sel = (case selectedOptions sel of [] \<Rightarrow> [] | x # _ \<Rightarrow> opt_value x)"

fun select_first :: "jsstring \<Rightarrow> opt list \<Rightarrow> opt list" where
  "select_first v [] = []"
| "select_first v (x # xs) =
     (if opt_value x = v then x\<lparr>opt_selected := True\<rparr> # xs else x # select_first v xs)"

definition set_select_value :: "jsstring \<Rightarrow> opt list \<Rightarrow> opt list" where
  "set_select_value v sel = select_first v (map (\<lambda>x. x\<lparr>opt_selected := False\<rparr>) sel)"

text \<open>
  What the containers of the page hold. A course card is built from one course and
  shows nothing else, so it is represented by that course.
\<close>

datatype node = Card course | NoResults

record container =
  className :: jsstring
  children :: "node list"

datatype chip = Chip jsstring jsstring jsstring | ClearAll

datatype button = LoadMoreBtn

datatype pager_item = PrevBtn bool | PageBtn int bool | Ellipsis | NextBtn bool

datatype page_no = PageNo int | EllipsisStart | EllipsisEnd

datatype category_card = CategoryCard jsstring "jsstring option"

datatype category_button = ShowLess | ShowMore

text \<open>
  The globals and the elements of the course pages. index.js (the home page) and
  listing.js (the listing page) declare the same globals and look up the same elements;
  the rating and duration selects and the pagination controls belong to the listing
  page, the load-more container, the categories and the featured courses to the home
  page. An element that the scripts use without testing it first is a plain field; an
  element that they test before every use is optional, \<open>None\<close> when the page has no
  such element. \<open>searchInput\<close> and \<open>sortBySelect\<close> stand for the value of the element,
  \<open>resultsCount\<close> for its text.
\<close>

record page =
  heap :: store
  courses :: nat
  filteredCourses :: nat
  currentView :: jsstring
  currentPage :: int
  categoriesPage :: int
  searchInput :: jsstring
  trackFilter :: "opt list"
  domainFilter :: "opt list"
  toolFilter :: "opt list"
  levelFilter :: "opt list"
  ratingFilter :: "opt list option"
  durationFilter :: "opt list option"
  sortBySelect :: jsstring
  coursesContainer :: container
  resultsCount :: jsstring
  activeFiltersDiv :: "chip list option"
  loadMoreContainer :: "button list option"
  paginationControls :: "pager_item list option"
  featuredCoursesContainer :: "node list option"
  categoriesContainer :: "category_card list option"
  categoriesLoadMoreContainer :: "category_button list option"

definition createCourseCard :: "course \<Rightarrow> node" where
  "createCourseCard c = Card c"

text \<open>The grid classes chosen from the number of cards, as every page computes them.\<close>

definition colsClass :: "nat \<Rightarrow> jsstring" where
  "colsClass cnt =
     (if cnt \<le> 1 then lit ''grid-cols-1''
      else if cnt = 2 then lit ''grid-cols-1 sm:grid-cols-2 md:grid-cols-2 lg:grid-cols-2''
      else if cnt = 3 then lit ''grid-cols-1 sm:grid-cols-2 md:grid-cols-3''
      else lit ''grid-cols-1 sm:grid-cols-2 md:grid-cols-3 lg:grid-cols-4'')"

definition gridClass :: "jsstring \<Rightarrow> nat \<Rightarrow> jsstring" where
  "gridClass view cnt =
     (if view = lit ''grid''
      then lit ''grid '' @ colsClass cnt @ lit '' gap-4 justify-center mx-auto''
      else lit ''space-y-4'')"

definition resultsText :: "nat \<Rightarrow> jsstring" where
  "resultsText n =
     decimal n @ lit '' course'' @ (if n \<noteq> 1 then lit ''s'' else []) @ lit '' found''"

text \<open>The comparator of \<open>filteredCourses.sort\<close>, the same in index.js and listing.js.\<close>

definition compareCourses :: "runtime \<Rightarrow> jsstring \<Rightarrow> course \<Rightarrow> course \<Rightarrow> rat" where
  "compareCourses rt sortBy a b =
     (if sortBy = lit ''rating'' then rating b - rating a
      else if sortBy = lit ''students'' then students b - students a
      else if sortBy = lit ''duration'' then weeks a - weeks b
      else of_int (localeCompare rt (title a) (title b)))"

section \<open>The home page (index.js)\<close>

definition itemsPerPage :: int where
  "itemsPerPage = 12"

definition categoriesPerPage :: int where
  "categoriesPerPage = 8"

text \<open>The callback of \<open>courses.filter\<close> in \<open>applyFilters\<close>.\<close>

definition keepCourse ::
  "runtime \<Rightarrow> jsstring \<Rightarrow> jsstring \<Rightarrow> jsstring \<Rightarrow> jsstring \<Rightarrow> jsstring \<Rightarrow> course \<Rightarrow> bool" where
  "keepCourse rt searchTerm selectedTrack selectedDomain selectedTool selectedLevel c =
     (if searchTerm \<noteq> [] \<and> \<not> str_includes (toLowerCase rt (title c)) searchTerm then False
      else if selectedTrack \<noteq> [] \<and> track c \<noteq> selectedTrack then False
      else if selectedDomain \<noteq> [] \<and> selectedDomain \<notin> set (domains c) then False
      else if selectedTool \<noteq> [] \<and> selectedTool \<notin> set (tools c) then False
      else if selectedLevel \<noteq> [] \<and> level c \<noteq> selectedLevel then False
      else True)"

definition renderCourses :: "page \<Rightarrow> page" where
  "renderCourses s =
     (let fc = deref (heap s) (filteredCourses s);
          totalToShow = currentPage s * itemsPerPage;
          coursesToShow = slice fc 0 totalToShow;
          cls = gridClass (currentView s) (length coursesToShow)
      in if length fc = 0
         then s\<lparr>resultsCount := resultsText (length fc),
                coursesContainer := \<lparr>className = cls, children = [NoResults]\<rparr>,
                loadMoreContainer := map_option (\<lambda>_. []) (loadMoreContainer s)\<rparr>
         else s\<lparr>resultsCount := resultsText (length fc),
                coursesContainer :=
                  \<lparr>className = cls, children = map createCourseCard coursesToShow\<rparr>,
                loadMoreContainer :=
                  map_option
                    (\<lambda>_. if length fc > length coursesToShow then [LoadMoreBtn] else [])
                    (loadMoreContainer s)\<rparr>)"

text \<open>
  The helper \<open>countFor\<close> of \<open>updateFilterCounts\<close>. Its arguments are strings or \<open>null\<close>
  (\<open>currentDomain || null\<close>); \<open>null\<close> and the empty string are both falsy, and
  \<open>rejects v bad\<close> is the test \<open>v && bad(v)\<close>.
\<close>

definition or_null :: "jsstring \<Rightarrow> jsstring option" where
  "or_null v = (if v = [] then None else Some v)"

definition rejects :: "jsstring option \<Rightarrow> (jsstring \<Rightarrow> bool) \<Rightarrow> bool" where
  "rejects v bad = (case v of None \<Rightarrow> False | Some x \<Rightarrow> x \<noteq> [] \<and> bad x)"

definition countFor ::
  "runtime \<Rightarrow> course list \<Rightarrow> jsstring \<Rightarrow> jsstring option \<Rightarrow> jsstring option
   \<Rightarrow> jsstring option \<Rightarrow> jsstring option \<Rightarrow> nat" where
  "countFor rt cs searchTerm trk dmn tol lvl =
     foldl (\<lambda>acc c.
        if searchTerm \<noteq> [] \<and> \<not> str_includes (toLowerCase rt (title c)) searchTerm then acc
        else if rejects trk (\<lambda>t. track c \<noteq> t) then acc
        else if rejects dmn (\<lambda>d. d \<notin> set (domains c)) then acc
        else if rejects tol (\<lambda>t. t \<notin> set (tools c)) then acc
        else if rejects lvl (\<lambda>l. level c \<noteq> l) then acc
        else acc + 1) 0 cs"

definition countLabel :: "jsstring \<Rightarrow> nat \<Rightarrow> jsstring" where
  "countLabel val cnt = val @ lit '' ('' @ decimal cnt @ lit '')''"

text \<open>
  The body of each \<open>forEach\<close> over the options of a select: the option without a value
  gets its fixed label and is enabled, every other option gets its count.
\<close>

definition updateOption :: "jsstring \<Rightarrow> (jsstring \<Rightarrow> nat) \<Rightarrow> opt \<Rightarrow> opt" where
  "updateOption allLabel countOf x =
     (let val = opt_value x in
      if val = [] then x\<lparr>opt_text := allLabel, opt_disabled := False\<rparr>
      else let cnt = countOf val in
           x\<lparr>opt_text := countLabel val cnt, opt_disabled := (cnt = 0)\<rparr>)"

definition countDomain ::
  "runtime \<Rightarrow> course list \<Rightarrow> jsstring \<Rightarrow> jsstring \<Rightarrow> jsstring \<Rightarrow> jsstring \<Rightarrow> jsstring \<Rightarrow> nat" where
  "countDomain rt cs searchTerm currentTrack currentTool currentLevel val =
     foldl (\<lambda>acc c.
        if searchTerm \<noteq> [] \<and> \<not> str_includes (toLowerCase rt (title c)) searchTerm then acc
        else if currentTrack \<noteq> [] \<and> track c \<noteq> currentTrack then acc
        else if val \<notin> set (domains c) then acc
        else if currentTool \<noteq> [] \<and> currentTool \<notin> set (tools c) then acc
        else if currentLevel \<noteq> [] \<and> level c \<noteq> currentLevel then acc
        else acc + 1) 0 cs"

definition countTool ::
  "runtime \<Rightarrow> course list \<Rightarrow> jsstring \<Rightarrow> jsstring \<Rightarrow> jsstring \<Rightarrow> jsstring \<Rightarrow> jsstring \<Rightarrow> nat" where
  "countTool rt cs searchTerm currentTrack currentDomain currentLevel val =
     foldl (\<lambda>acc c.
        if searchTerm \<noteq> [] \<and> \<not> str_includes (toLowerCase rt (title c)) searchTerm then acc
        else if currentTrack \<noteq> [] \<and> track c \<noteq> currentTrack then acc
        else if currentDomain \<noteq> [] \<and> currentDomain \<notin> set (domains c) then acc
        else if val \<notin> set (tools c) then acc
        else if currentLevel \<noteq> [] \<and> level c \<noteq> currentLevel then acc
        else acc + 1) 0 cs"

definition countLevel ::
  "runtime \<Rightarrow> course list \<Rightarrow> jsstring \<Rightarrow> jsstring \<Rightarrow> jsstring \<Rightarrow> jsstring \<Rightarrow> jsstring \<Rightarrow> nat" where
  "countLevel rt cs searchTerm currentTrack currentDomain currentTool val =
     foldl (\<lambda>acc c.
        if searchTerm \<noteq> [] \<and> \<not> str_includes (toLowerCase rt (title c)) searchTerm then acc
        else if currentTrack \<noteq> [] \<and> track c \<noteq> currentTrack then acc
        else if currentDomain \<noteq> [] \<and> currentDomain \<notin> set (domains c) then acc
        else if currentTool \<noteq> [] \<and> currentTool \<notin> set (tools c) then acc
        else if level c \<noteq> val then acc
        else acc + 1) 0 cs"

definition updateFilterCounts :: "runtime \<Rightarrow> page \<Rightarrow> page" where
  "updateFilterCounts rt s =
     (let cs = deref (heap s) (courses s) in
      if length cs = 0 then s
      else
        let searchTerm = toLowerCase rt (trim rt (searchInput s));
            currentTrack = select_value (trackFilter s);
            currentDomain = select_value (domainFilter s);
            currentTool = select_value (toolFilter s);
            currentLevel = select_value (levelFilter s)
        in s\<lparr>trackFilter :=
                map (updateOption (lit ''All Tracks'')
                      (\<lambda>val. countFor rt cs searchTerm (Some val) (or_null currentDomain)
                                (or_null currentTool) (or_null currentLevel)))
                    (trackFilter s),
              domainFilter :=
                map (updateOption (lit ''All Domains'')
                      (countDomain rt cs searchTerm currentTrack currentTool currentLevel))
                    (domainFilter s),
              toolFilter :=
                map (updateOption (lit ''All Tools'')
                      (countTool rt cs searchTerm currentTrack currentDomain currentLevel))
                    (toolFilter s),
              levelFilter :=
                map (updateOption (lit ''All Levels'')
                      (countLevel rt cs searchTerm currentTrack currentDomain currentTool))
                    (levelFilter s)\<rparr>)"

definition createChip :: "jsstring \<Rightarrow> jsstring \<Rightarrow> jsstring \<Rightarrow> chip" where
  "createChip label type val = Chip label type val"

definition withClearAll :: "chip list \<Rightarrow> chip list" where
  "withClearAll chips = (if length chips > 1 then chips @ [ClearAll] else chips)"

definition updateActiveFilters :: "runtime \<Rightarrow> page \<Rightarrow> page" where
  "updateActiveFilters rt s =
     (case activeFiltersDiv s of
        None \<Rightarrow> s
      | Some _ \<Rightarrow>
          let searchTerm = trim rt (searchInput s);
              trackVal = select_value (trackFilter s);
              domainVal = select_value (domainFilter s);
              toolVal = select_value (toolFilter s);
              levelVal = select_value (levelFilter s);
              chips =
                (if searchTerm \<noteq> [] then [createChip searchTerm (lit ''search'') searchTerm]
                 else [])
                @ (if trackVal \<noteq> [] then [createChip trackVal (lit ''track'') trackVal] else [])
                @ (if domainVal \<noteq> [] then [createChip domainVal (lit ''domain'') domainVal]
                   else [])
                @ (if toolVal \<noteq> [] then [createChip toolVal (lit ''tool'') toolVal] else [])
                @ (if levelVal \<noteq> [] then [createChip levelVal (lit ''level'') levelVal] else [])
          in s\<lparr>activeFiltersDiv := Some (withClearAll chips)\<rparr>)"

definition applyFilters :: "runtime \<Rightarrow> page \<Rightarrow> page" where
  "applyFilters rt s =
     (let searchTerm = toLowerCase rt (trim rt (searchInput s));
          selectedTrack = select_value (trackFilter s);
          selectedDomain = select_value (domainFilter s);
          selectedTool = select_value (toolFilter s);
          selectedLevel = select_value (levelFilter s);
          sortBy = sortBySelect s;
          (h1, a) = array_filter
                      (keepCourse rt searchTerm selectedTrack selectedDomain selectedTool
                         selectedLevel)
                      (heap s) (courses s);
          h2 = array_sort (compareCourses rt sortBy) h1 a;
          s1 = s\<lparr>heap := h2, filteredCourses := a, currentPage := 1\<rparr>
      in updateActiveFilters rt (updateFilterCounts rt (renderCourses s1)))"

text \<open>
  \<open>removeFilter\<close> is what a click on a chip runs, with the type and the value that
  \<open>createChip\<close> stored on the chip.
\<close>

definition removeFilter :: "runtime \<Rightarrow> jsstring \<Rightarrow> jsstring \<Rightarrow> page \<Rightarrow> page" where
  "removeFilter rt type val s =
     applyFilters rt
       (if type = lit ''search'' then s\<lparr>searchInput := []\<rparr>
        else if type = lit ''track'' then s\<lparr>trackFilter := set_select_value [] (trackFilter s)\<rparr>
        else if type = lit ''domain''
          then s\<lparr>domainFilter := set_select_value [] (domainFilter s)\<rparr>
        else if type = lit ''tool'' then s\<lparr>toolFilter := set_select_value [] (toolFilter s)\<rparr>
        else if type = lit ''level'' then s\<lparr>levelFilter := set_select_value [] (levelFilter s)\<rparr>
        else s)"

definition clearAllFilters :: "runtime \<Rightarrow> page \<Rightarrow> page" where
  "clearAllFilters rt s =
     applyFilters rt
       (s\<lparr>searchInput := [],
          trackFilter := set_select_value [] (trackFilter s),
          domainFilter := set_select_value [] (domainFilter s),
          toolFilter := set_select_value [] (toolFilter s),
          levelFilter := set_select_value [] (levelFilter s)\<rparr>)"

fun click_chip :: "runtime \<Rightarrow> chip \<Rightarrow> page \<Rightarrow> page" where
  "click_chip rt (Chip label type val) s = removeFilter rt type val s"
| "click_chip rt ClearAll s = clearAllFilters rt s"

text \<open>
  The click listener that \<open>init\<close> puts on the load-more container, for a click on the
  button with the id \<open>loadMoreBtn\<close>.
\<close>

definition click_loadMoreBtn :: "page \<Rightarrow> page" where
  "click_loadMoreBtn s = renderCourses (s\<lparr>currentPage := currentPage s + 1\<rparr>)"

text \<open>
  \<open>renderFeaturedCourses\<close> sorts a copy of the course array by rating times students
  and shows the first six. The products are rounded by the machine; the difference of
  two doubles has the sign of their exact difference.
\<close>

definition compareFeatured :: "runtime \<Rightarrow> course \<Rightarrow> course \<Rightarrow> rat" where
  "compareFeatured rt a b = times rt (rating b) (students b) - times rt (rating a) (students a)"

definition renderFeaturedCourses :: "runtime \<Rightarrow> page \<Rightarrow> page" where
  "renderFeaturedCourses rt s =
     (case featuredCoursesContainer s of
        None \<Rightarrow> s
      | Some _ \<Rightarrow>
          let (h1, sortedCourses) = array_spread (heap s) (courses s);
              h2 = array_sort (compareFeatured rt) h1 sortedCourses;
              topCourses = slice (deref h2 sortedCourses) 0 6
          in s\<lparr>heap := h2,
                featuredCoursesContainer := Some (map createCourseCard topCourses)\<rparr>)"

text \<open>
  \<open>renderCategories\<close> tallies the courses per domain, sorts the domain names with
  \<open>localeCompare\<close> and shows one card per name up to the current page of categories.
  The keys of the tally are the keys of the object \<open>domainCounts\<close>.
\<close>

definition renderCategories :: "runtime \<Rightarrow> page \<Rightarrow> page" where
  "renderCategories rt s =
     (case categoriesContainer s of
        None \<Rightarrow> s
      | Some _ \<Rightarrow>
          let cs = deref (heap s) (courses s);
              sorted = sort_by (\<lambda>a b. of_int (localeCompare rt a b))
                         (object_keys (concat (map domains cs)));
              visibleCount = min (categoriesPerPage * categoriesPage s) (int (length sorted));
              categoriesToShow = slice sorted 0 visibleCount
          in s\<lparr>categoriesContainer :=
                  Some (map (\<lambda>d. CategoryCard d (getIconForDomain d)) categoriesToShow),
                categoriesLoadMoreContainer :=
                  map_option
                    (\<lambda>_. if int (length sorted) > categoriesPerPage
                         then (if categoriesPerPage * categoriesPage s \<ge> int (length sorted)
                               then [ShowLess] else [ShowMore])
                         else [])
                    (categoriesLoadMoreContainer s)\<rparr>)"

section \<open>The listing page (listing.js)\<close>

text \<open>
  On the listing page the four facet selects are multiple selects: the script reads
  their \<open>selectedOptions\<close> and drops the empty value of the "All" option.
\<close>

definition coursesPerPage :: int where
  "coursesPerPage = 6"

definition selectedValues :: "opt list \<Rightarrow> jsstring list" where
  "selectedValues sel = filter (\<lambda>v. v \<noteq> []) (map opt_value (selectedOptions sel))"

text \<open>
  \<open>ratingFilter ? parseFloat(ratingFilter.value || '0') : 0\<close> and
  \<open>durationFilter ? durationFilter.value : 'all'\<close>.
\<close>

definition ratingThresholdOf :: "runtime \<Rightarrow> page \<Rightarrow> rat option" where
  "ratingThresholdOf rt s =
     (case ratingFilter s of
        None \<Rightarrow> Some 0
      | Some sel \<Rightarrow>
          parseFloat rt (if select_value sel = [] then lit ''0'' else select_value sel))"

definition durationCategoryOf :: "page \<Rightarrow> jsstring" where
  "durationCategoryOf s =
     (case durationFilter s of None \<Rightarrow> lit ''all'' | Some sel \<Rightarrow> select_value sel)"

text \<open>\<open>!isNaN(t) && t > 0 && course.rating < t\<close>.\<close>

definition belowThreshold :: "rat option \<Rightarrow> course \<Rightarrow> bool" where
  "belowThreshold ratingThreshold c =
     (case ratingThreshold of None \<Rightarrow> False | Some t \<Rightarrow> t > 0 \<and> rating c < t)"

text \<open>\<open>course.domains.some(d => selectedDomains.includes(d))\<close>.\<close>

definition some_in :: "jsstring list \<Rightarrow> jsstring list \<Rightarrow> bool" where
  "some_in xs selection = list_ex (\<lambda>d. d \<in> set selection) xs"

text \<open>The callback of \<open>courses.filter\<close> in \<open>applyFilters\<close> of listing.js.\<close>

definition keepCourse_listing ::
  "runtime \<Rightarrow> jsstring \<Rightarrow> jsstring list \<Rightarrow> jsstring list \<Rightarrow> jsstring list \<Rightarrow> jsstring list
   \<Rightarrow> rat option \<Rightarrow> jsstring \<Rightarrow> course \<Rightarrow> bool" where
  "keepCourse_listing rt searchTerm selectedTracks selectedDomains selectedTools
      selectedLevels ratingThreshold durationCategory c =
     (if searchTerm \<noteq> [] \<and> \<not> str_includes (toLowerCase rt (title c)) searchTerm then False
      else if length selectedTracks > 0 \<and> track c \<notin> set selectedTracks then False
      else if length selectedDomains > 0 \<and> \<not> some_in (domains c) selectedDomains then False
      else if length selectedTools > 0 \<and> \<not> some_in (tools c) selectedTools then False
      else if length selectedLevels > 0 \<and> level c \<notin> set selectedLevels then False
      else if belowThreshold ratingThreshold c then False
      else if durationCategory \<noteq> [] \<and> durationCategory \<noteq> lit ''all''
      then (let w = weeks c in
            if durationCategory = lit ''short'' \<and> \<not> (w < 4) then False
            else if durationCategory = lit ''medium'' \<and> \<not> (w \<ge> 4 \<and> w \<le> 8) then False
            else if durationCategory = lit ''long'' \<and> \<not> (w > 8) then False
            else True)
      else True)"

text \<open>
  \<open>Math.ceil(filteredCourses.length / coursesPerPage)\<close>. The quotient of an array length
  by 6 is computed in floating point, and its rounding never reaches the next integer,
  so the ceiling is the ceiling of the exact quotient.
\<close>

definition totalPagesOf :: "nat \<Rightarrow> int" where
  "totalPagesOf n = \<lceil>(of_nat n :: rat) / of_int coursesPerPage\<rceil>"

definition pagesToShow :: "int \<Rightarrow> int \<Rightarrow> page_no list" where
  "pagesToShow totalPages cp =
     (if totalPages \<le> 7 then map PageNo [1..totalPages]
      else [PageNo 1]
           @ (if cp > 3 then [EllipsisStart] else [])
           @ map PageNo [max 2 (cp - 1)..min (totalPages - 1) (cp + 1)]
           @ (if cp < totalPages - 2 then [EllipsisEnd] else [])
           @ [PageNo totalPages])"

fun pagerItem :: "int \<Rightarrow> page_no \<Rightarrow> pager_item" where
  "pagerItem cp EllipsisStart = Ellipsis"
| "pagerItem cp EllipsisEnd = Ellipsis"
| "pagerItem cp (PageNo i) = PageBtn i (i = cp)"

definition renderPagination :: "page \<Rightarrow> page" where
  "renderPagination s =
     (case paginationControls s of
        None \<Rightarrow> s
      | Some _ \<Rightarrow>
          let totalPages = totalPagesOf (length (deref (heap s) (filteredCourses s))) in
          if totalPages \<le> 1 then s\<lparr>paginationControls := Some []\<rparr>
          else s\<lparr>paginationControls :=
                   Some ([PrevBtn (currentPage s = 1)]
                         @ map (pagerItem (currentPage s)) (pagesToShow totalPages (currentPage s))
                         @ [NextBtn (currentPage s = totalPages)])\<rparr>)"

definition renderCourses_listing :: "page \<Rightarrow> page" where
  "renderCourses_listing s =
     (let fc = deref (heap s) (filteredCourses s);
          startIndex = (currentPage s - 1) * coursesPerPage;
          endIndex = startIndex + coursesPerPage;
          coursesToShow = slice fc startIndex endIndex;
          cls = gridClass (currentView s) (length coursesToShow)
      in if length fc = 0
         then s\<lparr>resultsCount := resultsText (length fc),
                coursesContainer := \<lparr>className = cls, children = [NoResults]\<rparr>,
                paginationControls := map_option (\<lambda>_. []) (paginationControls s)\<rparr>
         else renderPagination
                (s\<lparr>resultsCount := resultsText (length fc),
                   coursesContainer :=
                     \<lparr>className = cls, children = map createCourseCard coursesToShow\<rparr>\<rparr>))"

text \<open>The helpers of \<open>updateFilterCounts\<close> in listing.js.\<close>

definition passesRatingDuration :: "rat option \<Rightarrow> jsstring \<Rightarrow> course \<Rightarrow> bool" where
  "passesRatingDuration ratingThreshold durationCategory c =
     (if belowThreshold ratingThreshold c then False
      else if durationCategory \<noteq> [] \<and> durationCategory \<noteq> lit ''all''
      then (let w = weeks c in
            if durationCategory = lit ''short'' \<and> \<not> (w < 4) then False
            else if durationCategory = lit ''medium'' \<and> \<not> (w \<ge> 4 \<and> w \<le> 8) then False
            else if durationCategory = lit ''long'' \<and> \<not> (w > 8) then False
            else True)
      else True)"

definition countByTrack ::
  "course list \<Rightarrow> jsstring list \<Rightarrow> jsstring list \<Rightarrow> jsstring list \<Rightarrow> jsstring list
   \<Rightarrow> jsstring \<Rightarrow> nat" where
  "countByTrack baseFiltered selectedTracks selectedDomains selectedTools selectedLevels trk =
     foldl (\<lambda>acc c.
        if length selectedDomains > 0 \<and> \<not> some_in (domains c) selectedDomains then acc
        else if length selectedTools > 0 \<and> \<not> some_in (tools c) selectedTools then acc
        else if length selectedLevels > 0 \<and> level c \<notin> set selectedLevels then acc
        else if track c = trk \<or> track c \<in> set selectedTracks then acc + 1
        else acc) 0 baseFiltered"

definition countByDomain ::
  "course list \<Rightarrow> jsstring list \<Rightarrow> jsstring list \<Rightarrow> jsstring list \<Rightarrow> jsstring list
   \<Rightarrow> jsstring \<Rightarrow> nat" where
  "countByDomain baseFiltered selectedTracks selectedDomains selectedTools selectedLevels dmn =
     foldl (\<lambda>acc c.
        if length selectedTracks > 0 \<and> track c \<notin> set selectedTracks then acc
        else if length selectedTools > 0 \<and> \<not> some_in (tools c) selectedTools then acc
        else if length selectedLevels > 0 \<and> level c \<notin> set selectedLevels then acc
        else if dmn \<in> set (domains c) \<or> some_in (domains c) selectedDomains then acc + 1
        else acc) 0 baseFiltered"

definition countByTool ::
  "course list \<Rightarrow> jsstring list \<Rightarrow> jsstring list \<Rightarrow> jsstring list \<Rightarrow> jsstring list
   \<Rightarrow> jsstring \<Rightarrow> nat" where
  "countByTool baseFiltered selectedTracks selectedDomains selectedTools selectedLevels tol =
     foldl (\<lambda>acc c.
        if length selectedTracks > 0 \<and> track c \<notin> set selectedTracks then acc
        else if length selectedDomains > 0 \<and> \<not> some_in (domains c) selectedDomains then acc
        else if length selectedLevels > 0 \<and> level c \<notin> set selectedLevels then acc
        else if tol \<in> set (tools c) \<or> some_in (tools c) selectedTools then acc + 1
        else acc) 0 baseFiltered"

definition countByLevel ::
  "course list \<Rightarrow> jsstring list \<Rightarrow> jsstring list \<Rightarrow> jsstring list \<Rightarrow> jsstring list
   \<Rightarrow> jsstring \<Rightarrow> nat" where
  "countByLevel baseFiltered selectedTracks selectedDomains selectedTools selectedLevels lvl =
     foldl (\<lambda>acc c.
        if length selectedTracks > 0 \<and> track c \<notin> set selectedTracks then acc
        else if length selectedDomains > 0 \<and> \<not> some_in (domains c) selectedDomains then acc
        else if length selectedTools > 0 \<and> \<not> some_in (tools c) selectedTools then acc
        else if level c = lvl \<or> level c \<in> set selectedLevels then acc + 1
        else acc) 0 baseFiltered"

text \<open>
  \<open>baseFiltered\<close> is a local array that is only read, so it is kept as a value.
\<close>

definition updateFilterCounts_listing :: "runtime \<Rightarrow> page \<Rightarrow> page" where
  "updateFilterCounts_listing rt s =
     (let cs = deref (heap s) (courses s) in
      if length cs = 0 then s
      else
        let term = toLowerCase rt (trim rt (searchInput s));
            selectedTracks = selectedValues (trackFilter s);
            selectedDomains = selectedValues (domainFilter s);
            selectedTools = selectedValues (toolFilter s);
            selectedLevels = selectedValues (levelFilter s);
            ratingThreshold = ratingThresholdOf rt s;
            durationCategory = durationCategoryOf s;
            baseFiltered =
              filter (\<lambda>c. if term \<noteq> [] \<and> \<not> str_includes (toLowerCase rt (title c)) term
                           then False
                           else passesRatingDuration ratingThreshold durationCategory c) cs
        in s\<lparr>trackFilter :=
                map (updateOption (lit ''All Tracks'')
                      (countByTrack baseFiltered selectedTracks selectedDomains selectedTools
                         selectedLevels))
                    (trackFilter s),
              domainFilter :=
                map (updateOption (lit ''All Domains'')
                      (countByDomain baseFiltered selectedTracks selectedDomains selectedTools
                         selectedLevels))
                    (domainFilter s),
              toolFilter :=
                map (updateOption (lit ''All Tools'')
                      (countByTool baseFiltered selectedTracks selectedDomains selectedTools
                         selectedLevels))
                    (toolFilter s),
              levelFilter :=
                map (updateOption (lit ''All Levels'')
                      (countByLevel baseFiltered selectedTracks selectedDomains selectedTools
                         selectedLevels))
                    (levelFilter s)\<rparr>)"

text \<open>
  The chip labels of the rating and duration selections contain the characters
  U+2265 (greater-than or equal) and U+2013 (en dash).
\<close>

definition ratingLabel :: "jsstring \<Rightarrow> jsstring" where
  "ratingLabel ratingVal = lit ''Rating '' @ [0x2265] @ lit '' '' @ ratingVal"

definition durLabel :: "jsstring \<Rightarrow> jsstring" where
  "durLabel durationVal =
     (if durationVal = lit ''short'' then lit ''< 4 weeks''
      else if durationVal = lit ''medium'' then lit ''4'' @ [0x2013] @ lit ''8 weeks''
      else if durationVal = lit ''long'' then lit ''> 8 weeks''
      else durationVal)"

definition updateActiveFilters_listing :: "runtime \<Rightarrow> page \<Rightarrow> page" where
  "updateActiveFilters_listing rt s =
     (case activeFiltersDiv s of
        None \<Rightarrow> s
      | Some _ \<Rightarrow>
          let searchTerm = trim rt (searchInput s);
              selectedTracks = selectedValues (trackFilter s);
              selectedDomains = selectedValues (domainFilter s);
              selectedTools = selectedValues (toolFilter s);
              selectedLevels = selectedValues (levelFilter s);
              ratingVal = (case ratingFilter s of None \<Rightarrow> lit ''0''
                           | Some sel \<Rightarrow> select_value sel);
              durationVal = (case durationFilter s of None \<Rightarrow> lit ''all''
                             | Some sel \<Rightarrow> select_value sel);
              chips =
                (if searchTerm \<noteq> [] then [createChip searchTerm (lit ''search'') searchTerm]
                 else [])
                @ map (\<lambda>t. createChip t (lit ''track'') t) selectedTracks
                @ map (\<lambda>d. createChip d (lit ''domain'') d) selectedDomains
                @ map (\<lambda>t. createChip t (lit ''tool'') t) selectedTools
                @ map (\<lambda>l. createChip l (lit ''level'') l) selectedLevels
                @ (if ratingVal \<noteq> [] \<and> ratingVal \<noteq> lit ''0''
                   then [createChip (ratingLabel ratingVal) (lit ''rating'') ratingVal] else [])
                @ (if durationVal \<noteq> [] \<and> durationVal \<noteq> lit ''all''
                   then [createChip (durLabel durationVal) (lit ''duration'') durationVal]
                   else [])
          in s\<lparr>activeFiltersDiv := Some (withClearAll chips)\<rparr>)"

text \<open>
  \<open>applyFilters\<close> of listing.js. The call of \<open>updateMetaTags\<close> between the sort and the
  rendering rewrites the title, the meta tags and the canonical link of the document
  head, which are not part of the page state above.
\<close>

definition applyFilters_listing :: "runtime \<Rightarrow> page \<Rightarrow> page" where
  "applyFilters_listing rt s =
     (let searchTerm = toLowerCase rt (trim rt (searchInput s));
          selectedTracks = selectedValues (trackFilter s);
          selectedDomains = selectedValues (domainFilter s);
          selectedTools = selectedValues (toolFilter s);
          selectedLevels = selectedValues (levelFilter s);
          ratingThreshold = ratingThresholdOf rt s;
          durationCategory = durationCategoryOf s;
          sortBy = sortBySelect s;
          (h1, a) = array_filter
                      (keepCourse_listing rt searchTerm selectedTracks selectedDomains
                         selectedTools selectedLevels ratingThreshold durationCategory)
                      (heap s) (courses s);
          h2 = array_sort (compareCourses rt sortBy) h1 a;
          s1 = s\<lparr>heap := h2, filteredCourses := a, currentPage := 1\<rparr>
      in updateActiveFilters_listing rt
           (updateFilterCounts_listing rt (renderCourses_listing s1)))"

definition deselect_value :: "jsstring \<Rightarrow> opt list \<Rightarrow> opt list" where
  "deselect_value val sel =
     map (\<lambda>x. if opt_value x = val then x\<lparr>opt_selected := False\<rparr> else x) sel"

definition removeFilter_listing :: "runtime \<Rightarrow> jsstring \<Rightarrow> jsstring \<Rightarrow> page \<Rightarrow> page" where
  "removeFilter_listing rt type val s =
     applyFilters_listing rt
       (if type = lit ''track'' then s\<lparr>trackFilter := deselect_value val (trackFilter s)\<rparr>
        else if type = lit ''domain''
          then s\<lparr>domainFilter := deselect_value val (domainFilter s)\<rparr>
        else if type = lit ''tool'' then s\<lparr>toolFilter := deselect_value val (toolFilter s)\<rparr>
        else if type = lit ''level'' then s\<lparr>levelFilter := deselect_value val (levelFilter s)\<rparr>
        else if type = lit ''rating''
          then s\<lparr>ratingFilter := map_option (set_select_value (lit ''0'')) (ratingFilter s)\<rparr>
        else if type = lit ''duration''
          then s\<lparr>durationFilter :=
                   map_option (set_select_value (lit ''all'')) (durationFilter s)\<rparr>
        else if type = lit ''search'' then s\<lparr>searchInput := []\<rparr>
        else s)"

text \<open>
  \<open>clearAllFilters\<close> of listing.js, for the multiple selects of the listing page: every
  option of the four facet selects is deselected.
\<close>

definition clearAllFilters_listing :: "runtime \<Rightarrow> page \<Rightarrow> page" where
  "clearAllFilters_listing rt s =
     applyFilters_listing rt
       (s\<lparr>searchInput := [],
          trackFilter := map (\<lambda>x. x\<lparr>opt_selected := False\<rparr>) (trackFilter s),
          domainFilter := map (\<lambda>x. x\<lparr>opt_selected := False\<rparr>) (domainFilter s),
          toolFilter := map (\<lambda>x. x\<lparr>opt_selected := False\<rparr>) (toolFilter s),
          levelFilter := map (\<lambda>x. x\<lparr>opt_selected := False\<rparr>) (levelFilter s),
          ratingFilter := map_option (set_select_value (lit ''0'')) (ratingFilter s),
          durationFilter := map_option (set_select_value (lit ''all'')) (durationFilter s)\<rparr>)"

fun click_chip_listing :: "runtime \<Rightarrow> chip \<Rightarrow> page \<Rightarrow> page" where
  "click_chip_listing rt (Chip label type val) s = removeFilter_listing rt type val s"
| "click_chip_listing rt ClearAll s = clearAllFilters_listing rt s"

section \<open>The domain page (domain.js) and the track page (track.js)\<close>

text \<open>
  The only exception these scripts can raise on well-formed course data is the
  \<open>TypeError\<close> of a property access on \<open>null\<close>, when \<open>getElementById\<close> finds no element
  and the script uses the result without a test.
\<close>

datatype js_error = TypeError



















section \<open>The filter counts on course data of any shape\<close>

text \<open>
  The scripts take the course records from the global \<open>coursesData\<close> as they come. To
  see which course data make \<open>updateFilterCounts\<close> throw, the function is written out a
  second time over untyped records and over a page whose elements may be missing, with
  every exception as a result. A property of a course is \<open>undefined\<close>, \<open>null\<close>, a boolean,
  a number, a string or an array; a number is finite, an infinity or \<open>NaN\<close>.
\<close>

datatype jsnum = Finite rat | PosInfinity | NegInfinity | NotANumber

datatype jsval = Undefined | Null | Boolean bool | Num jsnum | Str jsstring | Arr "jsval list"

record raw_course =
  raw_title :: jsval
  raw_track :: jsval
  raw_level :: jsval
  raw_domains :: jsval
  raw_tools :: jsval
  raw_rating :: jsval
  raw_weeks :: jsval

datatype courses_global = DataMissing | DataNull | DataArray "raw_course list"

text \<open>
  \<open>const courses = (typeof coursesData !== 'undefined') ? coursesData : []\<close>; the
  binding is \<open>None\<close> when it holds \<open>null\<close>.
\<close>

definition courses_binding :: "courses_global \<Rightarrow> raw_course list option" where
  "courses_binding g = (case g of
                          DataMissing \<Rightarrow> Some []
                        | DataNull \<Rightarrow> None
                        | DataArray cs \<Rightarrow> Some cs)"

text \<open>
  The elements that \<open>updateFilterCounts\<close> reads, each bound by \<open>getElementById\<close> when the
  script is loaded, \<open>None\<close> for \<open>null\<close>.
\<close>

record raw_page =
  coursesData :: courses_global
  el_searchInput :: "jsstring option"
  el_trackFilter :: "opt list option"
  el_domainFilter :: "opt list option"
  el_toolFilter :: "opt list option"
  el_levelFilter :: "opt list option"
  el_ratingFilter :: "opt list option"
  el_durationFilter :: "opt list option"

text \<open>
  Method calls on a property of a course. \<open>v.toLowerCase()\<close> exists on strings only,
  \<open>v.includes(x)\<close> on strings and arrays, \<open>v.some(f)\<close> on arrays only; a call on anything
  else is a \<open>TypeError\<close>. The argument \<open>x\<close> is always a string here, and \<open>f\<close> is
  \<open>d => selection.includes(d)\<close> for an array \<open>selection\<close> of strings.
\<close>

fun toLowerCase_of :: "runtime \<Rightarrow> jsval \<Rightarrow> js_error + jsstring" where
  "toLowerCase_of rt (Str s) = Inr (toLowerCase rt s)"
| "toLowerCase_of rt _ = Inl TypeError"

fun includes_of :: "jsval \<Rightarrow> jsstring \<Rightarrow> js_error + bool" where
  "includes_of (Str s) x = Inr (str_includes s x)"
| "includes_of (Arr xs) x = Inr (Str x \<in> set xs)"
| "includes_of _ x = Inl TypeError"

fun some_of :: "jsval \<Rightarrow> jsstring list \<Rightarrow> js_error + bool" where
  "some_of (Arr xs) selection = Inr (list_ex (\<lambda>d. d \<in> set (map Str selection)) xs)"
| "some_of _ selection = Inl TypeError"

text \<open>\<open>course.title.toLowerCase().includes(term)\<close>.\<close>

definition title_includes :: "runtime \<Rightarrow> raw_course \<Rightarrow> jsstring \<Rightarrow> js_error + bool" where
  "title_includes rt c term =
     (case toLowerCase_of rt (raw_title c) of
        Inl e \<Rightarrow> Inl e
      | Inr t \<Rightarrow> Inr (str_includes t term))"

text \<open>
  The operators \<open>!t\<close>, \<open>c && t\<close>, \<open>v && t(v)\<close> for a string or \<open>null\<close> \<open>v\<close>, and \<open>a || b\<close>,
  where \<open>t\<close>, \<open>a\<close> and \<open>b\<close> may throw and the right operand is evaluated only when it is
  needed.
\<close>

definition negated :: "js_error + bool \<Rightarrow> js_error + bool" where
  "negated t = (case t of Inl e \<Rightarrow> Inl e | Inr b \<Rightarrow> Inr (\<not> b))"

definition guarded :: "bool \<Rightarrow> js_error + bool \<Rightarrow> js_error + bool" where
  "guarded c t = (if c then t else Inr False)"

definition guarded_by :: "jsstring option \<Rightarrow> (jsstring \<Rightarrow> js_error + bool) \<Rightarrow> js_error + bool" where
  "guarded_by v t = (case v of None \<Rightarrow> Inr False | Some x \<Rightarrow> if x \<noteq> [] then t x else Inr False)"

definition or_else :: "js_error + bool \<Rightarrow> js_error + bool \<Rightarrow> js_error + bool" where
  "or_else a b = (case a of Inl e \<Rightarrow> Inl e | Inr x \<Rightarrow> if x then Inr True else b)"

text \<open>
  A sequence of statements \<open>if (test) return acc;\<close>: the tests are evaluated in order up
  to the first one that throws or holds.
\<close>

fun first_reject :: "(js_error + bool) list \<Rightarrow> js_error + bool" where
  "first_reject [] = Inr False"
| "first_reject (t # ts) =
     (case t of
        Inl e \<Rightarrow> Inl e
      | Inr b \<Rightarrow> if b then Inr True else first_reject ts)"

text \<open>
  \<open>reduce\<close> with a callback that returns \<open>acc\<close> for a rejected course and \<open>acc + 1\<close>
  otherwise, \<open>filter\<close> and \<open>forEach\<close>, each with a callback that may throw.
\<close>

fun reduce_count :: "('a \<Rightarrow> js_error + bool) \<Rightarrow> 'a list \<Rightarrow> nat \<Rightarrow> js_error + nat" where
  "reduce_count reject [] acc = Inr acc"
| "reduce_count reject (c # cs) acc =
     (case reject c of
        Inl e \<Rightarrow> Inl e
      | Inr b \<Rightarrow> reduce_count reject cs (if b then acc else acc + 1))"

fun filter_err :: "('a \<Rightarrow> js_error + bool) \<Rightarrow> 'a list \<Rightarrow> js_error + 'a list" where
  "filter_err keep [] = Inr []"
| "filter_err keep (c # cs) =
     (case keep c of
        Inl e \<Rightarrow> Inl e
      | Inr b \<Rightarrow>
          (case filter_err keep cs of
             Inl e \<Rightarrow> Inl e
           | Inr ys \<Rightarrow> Inr (if b then c # ys else ys)))"

fun forEach_err :: "('a \<Rightarrow> js_error + 'b) \<Rightarrow> 'a list \<Rightarrow> js_error + 'b list" where
  "forEach_err f [] = Inr []"
| "forEach_err f (x # xs) =
     (case f x of
        Inl e \<Rightarrow> Inl e
      | Inr y \<Rightarrow>
          (case forEach_err f xs of
             Inl e \<Rightarrow> Inl e
           | Inr ys \<Rightarrow> Inr (y # ys)))"

definition updateOption_raw :: "jsstring \<Rightarrow> (jsstring \<Rightarrow> js_error + nat) \<Rightarrow> opt \<Rightarrow> js_error + opt" where
  "updateOption_raw allLabel countOf x =
     (let val = opt_value x in
      if val = [] then Inr (x\<lparr>opt_text := allLabel, opt_disabled := False\<rparr>)
      else case countOf val of
             Inl e \<Rightarrow> Inl e
           | Inr cnt \<Rightarrow> Inr (x\<lparr>opt_text := countLabel val cnt, opt_disabled := (cnt = 0)\<rparr>))"

text \<open>\<open>updateFilterCounts\<close> of index.js and its helper \<open>countFor\<close>.\<close>

definition countFor_raw ::
  "runtime \<Rightarrow> raw_course list \<Rightarrow> jsstring \<Rightarrow> jsstring option \<Rightarrow> jsstring option
   \<Rightarrow> jsstring option \<Rightarrow> jsstring option \<Rightarrow> js_error + nat" where
  "countFor_raw rt cs searchTerm trk dmn tol lvl =
     reduce_count (\<lambda>c. first_reject
        [guarded (searchTerm \<noteq> []) (negated (title_includes rt c searchTerm)),
         Inr (rejects trk (\<lambda>t. raw_track c \<noteq> Str t)),
         guarded_by dmn (\<lambda>d. negated (includes_of (raw_domains c) d)),
         guarded_by tol (\<lambda>t. negated (includes_of (raw_tools c) t)),
         Inr (rejects lvl (\<lambda>l. raw_level c \<noteq> Str l))]) cs 0"

definition countDomain_raw ::
  "runtime \<Rightarrow> raw_course list \<Rightarrow> jsstring \<Rightarrow> jsstring \<Rightarrow> jsstring \<Rightarrow> jsstring \<Rightarrow> jsstring
   \<Rightarrow> js_error + nat" where
  "countDomain_raw rt cs searchTerm currentTrack currentTool currentLevel val =
     reduce_count (\<lambda>c. first_reject
        [guarded (searchTerm \<noteq> []) (negated (title_includes rt c searchTerm)),
         Inr (currentTrack \<noteq> [] \<and> raw_track c \<noteq> Str currentTrack),
         negated (includes_of (raw_domains c) val),
         guarded (currentTool \<noteq> []) (negated (includes_of (raw_tools c) currentTool)),
         Inr (currentLevel \<noteq> [] \<and> raw_level c \<noteq> Str currentLevel)]) cs 0"

definition countTool_raw ::
  "runtime \<Rightarrow> raw_course list \<Rightarrow> jsstring \<Rightarrow> jsstring \<Rightarrow> jsstring \<Rightarrow> jsstring \<Rightarrow> jsstring
   \<Rightarrow> js_error + nat" where
  "countTool_raw rt cs searchTerm currentTrack currentDomain currentLevel val =
     reduce_count (\<lambda>c. first_reject
        [guarded (searchTerm \<noteq> []) (negated (title_includes rt c searchTerm)),
         Inr (currentTrack \<noteq> [] \<and> raw_track c \<noteq> Str currentTrack),
         guarded (currentDomain \<noteq> []) (negated (includes_of (raw_domains c) currentDomain)),
         negated (includes_of (raw_tools c) val),
         Inr (currentLevel \<noteq> [] \<and> raw_level c \<noteq> Str currentLevel)]) cs 0"

definition countLevel_raw ::
  "runtime \<Rightarrow> raw_course list \<Rightarrow> jsstring \<Rightarrow> jsstring \<Rightarrow> jsstring \<Rightarrow> jsstring \<Rightarrow> jsstring
   \<Rightarrow> js_error + nat" where
  "countLevel_raw rt cs searchTerm currentTrack currentDomain currentTool val =
     reduce_count (\<lambda>c. first_reject
        [guarded (searchTerm \<noteq> []) (negated (title_includes rt c searchTerm)),
         Inr (currentTrack \<noteq> [] \<and> raw_track c \<noteq> Str currentTrack),
         guarded (currentDomain \<noteq> []) (negated (includes_of (raw_domains c) currentDomain)),
         guarded (currentTool \<noteq> []) (negated (includes_of (raw_tools c) currentTool)),
         Inr (raw_level c \<noteq> Str val)]) cs 0"

text \<open>
  The guard \<open>!courses || courses.length === 0\<close> comes first. After it the search input
  and the four selects are read without a test (\<open>searchInput.value\<close>,
  \<open>trackFilter.value\<close>, ...), so each of them has to exist; the later tests
  \<open>trackFilter && trackFilter.options\<close> then hold.
\<close>

definition updateFilterCounts_raw :: "runtime \<Rightarrow> raw_page \<Rightarrow> js_error + raw_page" where
  "updateFilterCounts_raw rt e =
     (case courses_binding (coursesData e) of
        None \<Rightarrow> Inr e
      | Some cs \<Rightarrow>
          if length cs = 0 then Inr e
          else
            (case (el_searchInput e, el_trackFilter e, el_domainFilter e, el_toolFilter e,
                   el_levelFilter e) of
               (Some input, Some tracks, Some doms, Some tls, Some levels) \<Rightarrow>
                 let searchTerm = toLowerCase rt (trim rt input);
                     currentTrack = select_value tracks;
                     currentDomain = select_value doms;
                     currentTool = select_value tls;
                     currentLevel = select_value levels
                 in (case forEach_err
                            (updateOption_raw (lit ''All Tracks'')
                               (\<lambda>val. countFor_raw rt cs searchTerm (Some val)
                                         (or_null currentDomain) (or_null currentTool)
                                         (or_null currentLevel))) tracks of
                       Inl err \<Rightarrow> Inl err
                     | Inr tracks' \<Rightarrow>
                  (case forEach_err
                            (updateOption_raw (lit ''All Domains'')
                               (countDomain_raw rt cs searchTerm currentTrack currentTool
                                  currentLevel)) doms of
                       Inl err \<Rightarrow> Inl err
                     | Inr doms' \<Rightarrow>
                  (case forEach_err
                            (updateOption_raw (lit ''All Tools'')
                               (countTool_raw rt cs searchTerm currentTrack currentDomain
                                  currentLevel)) tls of
                       Inl err \<Rightarrow> Inl err
                     | Inr tls' \<Rightarrow>
                  (case forEach_err
                            (updateOption_raw (lit ''All Levels'')
                               (countLevel_raw rt cs searchTerm currentTrack currentDomain
                                  currentTool)) levels of
                       Inl err \<Rightarrow> Inl err
                     | Inr levels' \<Rightarrow>
                         Inr (e\<lparr>el_trackFilter := Some tracks',
                                 el_domainFilter := Some doms',
                                 el_toolFilter := Some tls',
                                 el_levelFilter := Some levels'\<rparr>)))))
             | _ \<Rightarrow> Inl TypeError))"

text \<open>
  \<open>updateFilterCounts\<close> of listing.js. The comparisons \<open>course.rating < ratingThreshold\<close>
  and \<open>w < 4\<close>, ... convert their left operand to a number and never throw; the
  conversion of a string or an array is the parameter \<open>num\<close>, and every comparison with
  \<open>NaN\<close> is false.
\<close>

definition number_of :: "(jsval \<Rightarrow> jsnum) \<Rightarrow> jsval \<Rightarrow> jsnum" where
  "number_of num v =
     (case v of
        Num n \<Rightarrow> n
      | Undefined \<Rightarrow> NotANumber
      | Null \<Rightarrow> Finite 0
      | Boolean b \<Rightarrow> Finite (if b then 1 else 0)
      | _ \<Rightarrow> num v)"

definition num_less :: "jsnum \<Rightarrow> rat \<Rightarrow> bool" where
  "num_less a b = (case a of Finite r \<Rightarrow> r < b | NegInfinity \<Rightarrow> True | _ \<Rightarrow> False)"

definition num_greater :: "jsnum \<Rightarrow> rat \<Rightarrow> bool" where
  "num_greater a b = (case a of Finite r \<Rightarrow> r > b | PosInfinity \<Rightarrow> True | _ \<Rightarrow> False)"

definition num_between :: "jsnum \<Rightarrow> rat \<Rightarrow> rat \<Rightarrow> bool" where
  "num_between a lo hi = (case a of Finite r \<Rightarrow> r \<ge> lo \<and> r \<le> hi | _ \<Rightarrow> False)"

definition passesRatingDuration_raw ::
  "(jsval \<Rightarrow> jsnum) \<Rightarrow> rat option \<Rightarrow> jsstring \<Rightarrow> raw_course \<Rightarrow> bool" where
  "passesRatingDuration_raw num ratingThreshold durationCategory c =
     (if (case ratingThreshold of
            None \<Rightarrow> False
          | Some t \<Rightarrow> t > 0 \<and> num_less (number_of num (raw_rating c)) t) then False
      else if durationCategory \<noteq> [] \<and> durationCategory \<noteq> lit ''all''
      then (let w = number_of num (raw_weeks c) in
            if durationCategory = lit ''short'' \<and> \<not> num_less w 4 then False
            else if durationCategory = lit ''medium'' \<and> \<not> num_between w 4 8 then False
            else if durationCategory = lit ''long'' \<and> \<not> num_greater w 8 then False
            else True)
      else True)"

definition selected_includes :: "jsstring list \<Rightarrow> jsval \<Rightarrow> bool" where
  "selected_includes selection v = (v \<in> set (map Str selection))"

definition countByTrack_raw ::
  "raw_course list \<Rightarrow> jsstring list \<Rightarrow> jsstring list \<Rightarrow> jsstring list \<Rightarrow> jsstring list
   \<Rightarrow> jsstring \<Rightarrow> js_error + nat" where
  "countByTrack_raw baseFiltered selectedTracks selectedDomains selectedTools selectedLevels trk =
     reduce_count (\<lambda>c. first_reject
        [guarded (length selectedDomains > 0) (negated (some_of (raw_domains c) selectedDomains)),
         guarded (length selectedTools > 0) (negated (some_of (raw_tools c) selectedTools)),
         Inr (length selectedLevels > 0 \<and> \<not> selected_includes selectedLevels (raw_level c)),
         Inr (\<not> (raw_track c = Str trk \<or> selected_includes selectedTracks (raw_track c)))])
       baseFiltered 0"

definition countByDomain_raw ::
  "raw_course list \<Rightarrow> jsstring list \<Rightarrow> jsstring list \<Rightarrow> jsstring list \<Rightarrow> jsstring list
   \<Rightarrow> jsstring \<Rightarrow> js_error + nat" where
  "countByDomain_raw baseFiltered selectedTracks selectedDomains selectedTools selectedLevels dmn =
     reduce_count (\<lambda>c. first_reject
        [Inr (length selectedTracks > 0 \<and> \<not> selected_includes selectedTracks (raw_track c)),
         guarded (length selectedTools > 0) (negated (some_of (raw_tools c) selectedTools)),
         Inr (length selectedLevels > 0 \<and> \<not> selected_includes selectedLevels (raw_level c)),
         negated (or_else (includes_of (raw_domains c) dmn)
                    (some_of (raw_domains c) selectedDomains))])
       baseFiltered 0"

definition countByTool_raw ::
  "raw_course list \<Rightarrow> jsstring list \<Rightarrow> jsstring list \<Rightarrow> jsstring list \<Rightarrow> jsstring list
   \<Rightarrow> jsstring \<Rightarrow> js_error + nat" where
  "countByTool_raw baseFiltered selectedTracks selectedDomains selectedTools selectedLevels tol =
     reduce_count (\<lambda>c. first_reject
        [Inr (length selectedTracks > 0 \<and> \<not> selected_includes selectedTracks (raw_track c)),
         guarded (length selectedDomains > 0) (negated (some_of (raw_domains c) selectedDomains)),
         Inr (length selectedLevels > 0 \<and> \<not> selected_includes selectedLevels (raw_level c)),
         negated (or_else (includes_of (raw_tools c) tol)
                    (some_of (raw_tools c) selectedTools))])
       baseFiltered 0"

definition countByLevel_raw ::
  "raw_course list \<Rightarrow> jsstring list \<Rightarrow> jsstring list \<Rightarrow> jsstring list \<Rightarrow> jsstring list
   \<Rightarrow> jsstring \<Rightarrow> js_error + nat" where
  "countByLevel_raw baseFiltered selectedTracks selectedDomains selectedTools selectedLevels lvl =
     reduce_count (\<lambda>c. first_reject
        [Inr (length selectedTracks > 0 \<and> \<not> selected_includes selectedTracks (raw_track c)),
         guarded (length selectedDomains > 0) (negated (some_of (raw_domains c) selectedDomains)),
         guarded (length selectedTools > 0) (negated (some_of (raw_tools c) selectedTools)),
         Inr (\<not> (raw_level c = Str lvl \<or> selected_includes selectedLevels (raw_level c)))])
       baseFiltered 0"

text \<open>
  Here too the guard comes first, and the search input and the four selects are read
  without a test (\<open>trackFilter.selectedOptions\<close>, ...); the rating and duration
  selects are optional.
\<close>

definition updateFilterCounts_listing_raw ::
  "runtime \<Rightarrow> (jsval \<Rightarrow> jsnum) \<Rightarrow> raw_page \<Rightarrow> js_error + raw_page" where
  "updateFilterCounts_listing_raw rt num e =
     (case courses_binding (coursesData e) of
        None \<Rightarrow> Inr e
      | Some cs \<Rightarrow>
          if length cs = 0 then Inr e
          else
            (case (el_searchInput e, el_trackFilter e, el_domainFilter e, el_toolFilter e,
                   el_levelFilter e) of
               (Some input, Some tracks, Some doms, Some tls, Some levels) \<Rightarrow>
                 let term = toLowerCase rt (trim rt input);
                     selectedTracks = selectedValues tracks;
                     selectedDomains = selectedValues doms;
                     selectedTools = selectedValues tls;
                     selectedLevels = selectedValues levels;
                     ratingThreshold =
                       (case el_ratingFilter e of
                          None \<Rightarrow> Some 0
                        | Some sel \<Rightarrow>
                            parseFloat rt
                              (if select_value sel = [] then lit ''0'' else select_value sel));
                     durationCategory =
                       (case el_durationFilter e of
                          None \<Rightarrow> lit ''all''
                        | Some sel \<Rightarrow> select_value sel)
                 in (case filter_err
                            (\<lambda>c. case guarded (term \<noteq> []) (negated (title_includes rt c term)) of
                                    Inl err \<Rightarrow> Inl err
                                  | Inr b \<Rightarrow>
                                      if b then Inr False
                                      else Inr (passesRatingDuration_raw num ratingThreshold
                                                  durationCategory c)) cs of
                       Inl err \<Rightarrow> Inl err
                     | Inr baseFiltered \<Rightarrow>
                  (case forEach_err
                            (updateOption_raw (lit ''All Tracks'')
                               (countByTrack_raw baseFiltered selectedTracks selectedDomains
                                  selectedTools selectedLevels)) tracks of
                       Inl err \<Rightarrow> Inl err
                     | Inr tracks' \<Rightarrow>
                  (case forEach_err
                            (updateOption_raw (lit ''All Domains'')
                               (countByDomain_raw baseFiltered selectedTracks selectedDomains
                                  selectedTools selectedLevels)) doms of
                       Inl err \<Rightarrow> Inl err
                     | Inr doms' \<Rightarrow>
                  (case forEach_err
                            (updateOption_raw (lit ''All Tools'')
                               (countByTool_raw baseFiltered selectedTracks selectedDomains
                                  selectedTools selectedLevels)) tls of
                       Inl err \<Rightarrow> Inl err
                     | Inr tls' \<Rightarrow>
                  (case forEach_err
                            (updateOption_raw (lit ''All Levels'')
                               (countByLevel_raw baseFiltered selectedTracks selectedDomains
                                  selectedTools selectedLevels)) levels of
                       Inl err \<Rightarrow> Inl err
                     | Inr levels' \<Rightarrow>
                         Inr (e\<lparr>el_trackFilter := Some tracks',
                                 el_domainFilter := Some doms',
                                 el_toolFilter := Some tls',
                                 el_levelFilter := Some levels'\<rparr>))))))
             | _ \<Rightarrow> Inl TypeError))"

section \<open>The properties, in the words of the specification\<close>

text \<open>
  The predicates below are written from the specification, to be compared with the
  functions above, which are written from the scripts. \<open>courses_array\<close> and
  \<open>filtered_array\<close> read the arrays that the globals \<open>courses\<close> and \<open>filteredCourses\<close>
  refer to.
\<close>

definition courses_array :: "page \<Rightarrow> course list" where
  "courses_array s = deref (heap s) (courses s)"

definition filtered_array :: "page \<Rightarrow> course list" where
  "filtered_array s = deref (heap s) (filteredCourses s)"

definition consistent_collation :: "runtime \<Rightarrow> bool" where
  "consistent_collation rt =
     ((\<forall>a b. localeCompare rt a b > 0 \<longrightarrow> localeCompare rt b a \<le> 0)
      \<and> (\<forall>a b c. localeCompare rt a b \<le> 0 \<and> localeCompare rt b c \<le> 0
            \<longrightarrow> localeCompare rt a c \<le> 0))"

definition by_title :: "jsstring \<Rightarrow> bool" where
  "by_title sortBy =
     (sortBy \<noteq> lit ''rating'' \<and> sortBy \<noteq> lit ''students'' \<and> sortBy \<noteq> lit ''duration'')"

definition sorted_for :: "runtime \<Rightarrow> jsstring \<Rightarrow> course list \<Rightarrow> bool" where
  "sorted_for rt sortBy xs =
     (if sortBy = lit ''rating'' then sorted_wrt (\<lambda>a b. rating a \<ge> rating b) xs
      else if sortBy = lit ''students'' then sorted_wrt (\<lambda>a b. students a \<ge> students b) xs
      else if sortBy = lit ''duration'' then sorted_wrt (\<lambda>a b. weeks a \<le> weeks b) xs
      else sorted_wrt (\<lambda>a b. localeCompare rt (title a) (title b) \<le> 0) xs)"

definition contains_ci :: "runtime \<Rightarrow> jsstring \<Rightarrow> jsstring \<Rightarrow> bool" where
  "contains_ci rt s t = str_includes (toLowerCase rt s) (toLowerCase rt t)"

definition overlaps :: "jsstring list \<Rightarrow> jsstring list \<Rightarrow> bool" where
  "overlaps xs ys = (set xs \<inter> set ys \<noteq> {})"

definition in_bucket :: "jsstring \<Rightarrow> rat \<Rightarrow> bool" where
  "in_bucket category w =
     (if category = lit ''short'' then w < 4
      else if category = lit ''medium'' then 4 \<le> w \<and> w \<le> 8
      else if category = lit ''long'' then w > 8
      else True)"

text \<open>
  What a course has to satisfy to pass the filters of the home page, for a search term
  and one selected value per facet (the empty string when nothing is selected).
\<close>

definition home_pass ::
  "runtime \<Rightarrow> jsstring \<Rightarrow> jsstring \<Rightarrow> jsstring \<Rightarrow> jsstring \<Rightarrow> jsstring \<Rightarrow> course \<Rightarrow> bool" where
  "home_pass rt term trk dmn tol lvl c =
     ((term = [] \<or> contains_ci rt (title c) term)
      \<and> (trk = [] \<or> track c = trk)
      \<and> (dmn = [] \<or> dmn \<in> set (domains c))
      \<and> (tol = [] \<or> tol \<in> set (tools c))
      \<and> (lvl = [] \<or> level c = lvl))"

definition home_match :: "runtime \<Rightarrow> page \<Rightarrow> course \<Rightarrow> bool" where
  "home_match rt s =
     home_pass rt (trim rt (searchInput s)) (select_value (trackFilter s))
       (select_value (domainFilter s)) (select_value (toolFilter s))
       (select_value (levelFilter s))"

text \<open>
  The same for the listing page, for a search term, the selected values of each facet,
  the rating threshold and the duration category.
\<close>

definition listing_pass ::
  "runtime \<Rightarrow> jsstring \<Rightarrow> jsstring list \<Rightarrow> jsstring list \<Rightarrow> jsstring list \<Rightarrow> jsstring list
   \<Rightarrow> rat option \<Rightarrow> jsstring \<Rightarrow> course \<Rightarrow> bool" where
  "listing_pass rt term trks dmns tols lvls threshold category c =
     ((term = [] \<or> contains_ci rt (title c) term)
      \<and> (trks = [] \<or> track c \<in> set trks)
      \<and> (dmns = [] \<or> overlaps (domains c) dmns)
      \<and> (tols = [] \<or> overlaps (tools c) tols)
      \<and> (lvls = [] \<or> level c \<in> set lvls)
      \<and> (case threshold of
            None \<Rightarrow> True
          | Some t \<Rightarrow> if t > 0 then rating c \<ge> t else True)
      \<and> in_bucket category (weeks c))"

definition listing_match :: "runtime \<Rightarrow> page \<Rightarrow> course \<Rightarrow> bool" where
  "listing_match rt s =
     listing_pass rt (trim rt (searchInput s)) (selectedValues (trackFilter s))
       (selectedValues (domainFilter s)) (selectedValues (toolFilter s))
       (selectedValues (levelFilter s)) (ratingThresholdOf rt s) (durationCategoryOf s)"

text \<open>
  "If that option were additionally selected": on the home page a facet select holds one
  value, and choosing an option is the assignment of its value to the select; on the
  listing page the option is selected along with the options already selected.
\<close>

datatype facet = Track | Domain | Tool | Level

fun pick :: "facet \<Rightarrow> jsstring \<Rightarrow> page \<Rightarrow> page" where
  "pick Track v s = s\<lparr>trackFilter := set_select_value v (trackFilter s)\<rparr>"
| "pick Domain v s = s\<lparr>domainFilter := set_select_value v (domainFilter s)\<rparr>"
| "pick Tool v s = s\<lparr>toolFilter := set_select_value v (toolFilter s)\<rparr>"
| "pick Level v s = s\<lparr>levelFilter := set_select_value v (levelFilter s)\<rparr>"

definition select_also :: "jsstring \<Rightarrow> opt list \<Rightarrow> opt list" where
  "select_also v sel = map (\<lambda>x. if opt_value x = v then x\<lparr>opt_selected := True\<rparr> else x) sel"

fun pick_also :: "facet \<Rightarrow> jsstring \<Rightarrow> page \<Rightarrow> page" where
  "pick_also Track v s = s\<lparr>trackFilter := select_also v (trackFilter s)\<rparr>"
| "pick_also Domain v s = s\<lparr>domainFilter := select_also v (domainFilter s)\<rparr>"
| "pick_also Tool v s = s\<lparr>toolFilter := select_also v (toolFilter s)\<rparr>"
| "pick_also Level v s = s\<lparr>levelFilter := select_also v (levelFilter s)\<rparr>"

definition would_match :: "runtime \<Rightarrow> page \<Rightarrow> facet \<Rightarrow> jsstring \<Rightarrow> nat" where
  "would_match rt s f v = length (filter (home_match rt (pick f v s)) (courses_array s))"

definition would_match_listing :: "runtime \<Rightarrow> page \<Rightarrow> facet \<Rightarrow> jsstring \<Rightarrow> nat" where
  "would_match_listing rt s f v =
     length (filter (listing_match rt (pick_also f v s)) (courses_array s))"

text \<open>
  The count of the listing page without the rating threshold and the duration bucket:
  the courses that pass the search term and the selections of the four facets when the
  option is selected too.
\<close>

definition facets_match :: "runtime \<Rightarrow> page \<Rightarrow> course \<Rightarrow> bool" where
  "facets_match rt s =
     listing_pass rt (trim rt (searchInput s)) (selectedValues (trackFilter s))
       (selectedValues (domainFilter s)) (selectedValues (toolFilter s))
       (selectedValues (levelFilter s)) None (lit ''all'')"

definition would_match_facets :: "runtime \<Rightarrow> page \<Rightarrow> facet \<Rightarrow> jsstring \<Rightarrow> nat" where
  "would_match_facets rt s f v =
     length (filter (facets_match rt (pick_also f v s)) (courses_array s))"

text \<open>
  An option after the counts are updated: the option without a value is labelled with
  the fixed "All" label and enabled; any other option is labelled with its value and
  the count in parentheses, and disabled exactly when the count is zero.
\<close>

definition labelled :: "jsstring \<Rightarrow> (jsstring \<Rightarrow> nat) \<Rightarrow> opt \<Rightarrow> opt" where
  "labelled allLabel n x =
     (if opt_value x = [] then x\<lparr>opt_text := allLabel, opt_disabled := False\<rparr>
      else x\<lparr>opt_text := opt_value x @ lit '' ('' @ decimal (n (opt_value x)) @ lit '')'',
             opt_disabled := (n (opt_value x) = 0)\<rparr>)"

text \<open>
  The active selections of a page, as pairs of the filter type and the selected value:
  the trimmed search term when it is not empty, and each selected value of the track,
  domain, tool and level selects; on the listing page also the value of the rating
  select unless it is empty or \<open>0\<close>, and the value of the duration select unless it is
  empty or \<open>all\<close>. A page without a rating or duration select counts as \<open>0\<close> and \<open>all\<close>.
\<close>

definition entry :: "jsstring \<Rightarrow> jsstring \<Rightarrow> (jsstring \<times> jsstring) list" where
  "entry type v = (if v = [] then [] else [(type, v)])"

definition active_home :: "runtime \<Rightarrow> page \<Rightarrow> (jsstring \<times> jsstring) list" where
  "active_home rt s =
     entry (lit ''search'') (trim rt (searchInput s))
     @ entry (lit ''track'') (select_value (trackFilter s))
     @ entry (lit ''domain'') (select_value (domainFilter s))
     @ entry (lit ''tool'') (select_value (toolFilter s))
     @ entry (lit ''level'') (select_value (levelFilter s))"

definition ratingValueOf :: "page \<Rightarrow> jsstring" where
  "ratingValueOf s = (case ratingFilter s of None \<Rightarrow> lit ''0'' | Some sel \<Rightarrow> select_value sel)"

definition active_listing :: "runtime \<Rightarrow> page \<Rightarrow> (jsstring \<times> jsstring) list" where
  "active_listing rt s =
     entry (lit ''search'') (trim rt (searchInput s))
     @ map (Pair (lit ''track'')) (selectedValues (trackFilter s))
     @ map (Pair (lit ''domain'')) (selectedValues (domainFilter s))
     @ map (Pair (lit ''tool'')) (selectedValues (toolFilter s))
     @ map (Pair (lit ''level'')) (selectedValues (levelFilter s))
     @ (if ratingValueOf s \<noteq> [] \<and> ratingValueOf s \<noteq> lit ''0''
        then [(lit ''rating'', ratingValueOf s)] else [])
     @ (if durationCategoryOf s \<noteq> [] \<and> durationCategoryOf s \<noteq> lit ''all''
        then [(lit ''duration'', durationCategoryOf s)] else [])"

text \<open>
  The same list with the rating and duration selections as the claim words them: a
  rating selection whenever the value is not \<open>0\<close>, a duration selection whenever the value
  is not \<open>all\<close>.
\<close>

definition stated_listing :: "runtime \<Rightarrow> page \<Rightarrow> (jsstring \<times> jsstring) list" where
  "stated_listing rt s =
     entry (lit ''search'') (trim rt (searchInput s))
     @ map (Pair (lit ''track'')) (selectedValues (trackFilter s))
     @ map (Pair (lit ''domain'')) (selectedValues (domainFilter s))
     @ map (Pair (lit ''tool'')) (selectedValues (toolFilter s))
     @ map (Pair (lit ''level'')) (selectedValues (levelFilter s))
     @ (if ratingValueOf s \<noteq> lit ''0'' then [(lit ''rating'', ratingValueOf s)] else [])
     @ (if durationCategoryOf s \<noteq> lit ''all''
        then [(lit ''duration'', durationCategoryOf s)] else [])"

text \<open>
  One chip per selection, carrying its type and value, followed by the Clear all control
  when there is more than one chip.
\<close>

definition chip_label :: "jsstring \<Rightarrow> jsstring \<Rightarrow> jsstring" where
  "chip_label type v =
     (if type = lit ''rating'' then ratingLabel v
      else if type = lit ''duration'' then durLabel v
      else v)"

definition chip_for :: "jsstring \<times> jsstring \<Rightarrow> chip" where
  "chip_for sel = Chip (chip_label (fst sel) (snd sel)) (fst sel) (snd sel)"

definition chips_for :: "(jsstring \<times> jsstring) list \<Rightarrow> chip list" where
  "chips_for sels = map chip_for sels @ (if length sels > 1 then [ClearAll] else [])"

text \<open>
  An operation that takes the page from \<open>s\<close> to \<open>s'\<close> leaves the course list unchanged:
  the global \<open>courses\<close> refers to the same array, that array holds the same records in
  the same order, and every array that existed before is as it was (arrays may have
  been added to the store).
\<close>

definition keeps_courses :: "page \<Rightarrow> page \<Rightarrow> bool" where
  "keeps_courses s s' =
     (courses s' = courses s \<and> courses_array s' = courses_array s
      \<and> take (length (heap s)) (heap s') = heap s)"







text \<open>
  A well-formed course record has a string title, track and level, array-valued domains
  and tools and a numeric rating and number of weeks. The course list of a page is empty
  when \<open>coursesData\<close> is undefined.
\<close>

definition is_string :: "jsval \<Rightarrow> bool" where
  "is_string v = (case v of Str _ \<Rightarrow> True | _ \<Rightarrow> False)"

definition is_array :: "jsval \<Rightarrow> bool" where
  "is_array v = (case v of Arr _ \<Rightarrow> True | _ \<Rightarrow> False)"

definition is_number :: "jsval \<Rightarrow> bool" where
  "is_number v = (case v of Num _ \<Rightarrow> True | _ \<Rightarrow> False)"

definition well_formed :: "raw_course \<Rightarrow> bool" where
  "well_formed c \<longleftrightarrow>
     is_string (raw_title c) \<and> is_string (raw_track c) \<and> is_string (raw_level c)
     \<and> is_array (raw_domains c) \<and> is_array (raw_tools c)
     \<and> is_number (raw_rating c) \<and> is_number (raw_weeks c)"

definition course_list :: "raw_page \<Rightarrow> raw_course list" where
  "course_list e = (case courses_binding (coursesData e) of None \<Rightarrow> [] | Some cs \<Rightarrow> cs)"

definition nodes_present :: "raw_page \<Rightarrow> bool" where
  "nodes_present e \<longleftrightarrow>
     el_searchInput e \<noteq> None \<and> el_trackFilter e \<noteq> None \<and> el_domainFilter e \<noteq> None
     \<and> el_toolFilter e \<noteq> None \<and> el_levelFilter e \<noteq> None"

text \<open>
  A typed course record as an untyped one, and the part of a typed page that
  \<open>updateFilterCounts\<close> reads, with every element present.
\<close>

definition raw_of :: "course \<Rightarrow> raw_course" where
  "raw_of c =
     \<lparr>raw_title = Str (title c), raw_track = Str (track c), raw_level = Str (level c),
      raw_domains = Arr (map Str (domains c)), raw_tools = Arr (map Str (tools c)),
      raw_rating = Num (Finite (rating c)), raw_weeks = Num (Finite (weeks c))\<rparr>"

definition raw_page_of :: "page \<Rightarrow> raw_page" where
  "raw_page_of s =
     \<lparr>coursesData = DataArray (map raw_of (courses_array s)),
      el_searchInput = Some (searchInput s),
      el_trackFilter = Some (trackFilter s),
      el_domainFilter = Some (domainFilter s),
      el_toolFilter = Some (toolFilter s),
      el_levelFilter = Some (levelFilter s),
      el_ratingFilter = ratingFilter s,
      el_durationFilter = durationFilter s\<rparr>"

section \<open>A runtime and a page for the examples\<close>

text \<open>
  A runtime that can be evaluated: on strings of ASCII characters its \<open>toLowerCase\<close> and
  \<open>trim\<close> compute what the built-ins compute, \<open>parseFloat\<close> reads strings of decimal
  digits, and \<open>localeCompare\<close> orders strings by their code units, which stands for the
  collation of the browser's locale. The example theorems below evaluate the functions
  of the scripts with this runtime on a page with three courses. Its products are exact,
  as the machine's are for the numbers of the examples, and the text of an inherited
  function has the form that browsers print.
\<close>

definition ascii_lower :: "16 word \<Rightarrow> 16 word" where
  "ascii_lower c = (if 65 \<le> c \<and> c \<le> 90 then c + 32 else c)"

definition ascii_space :: "16 word \<Rightarrow> bool" where
  "ascii_space c = (c = 32 \<or> (9 \<le> c \<and> c \<le> 13))"

definition ascii_trim :: "jsstring \<Rightarrow> jsstring" where
  "ascii_trim s = rev (dropWhile ascii_space (rev (dropWhile ascii_space s)))"

fun digits_value :: "jsstring \<Rightarrow> nat \<Rightarrow> nat option" where
  "digits_value [] acc = Some acc"
| "digits_value (c # cs) acc =
     (if 48 \<le> c \<and> c \<le> 57 then digits_value cs (10 * acc + (unat c - 48)) else None)"

definition digits_parseFloat :: "jsstring \<Rightarrow> rat option" where
  "digits_parseFloat s = (if s = [] then None else map_option of_nat (digits_value s 0))"

definition prototype_names :: "jsstring list" where
  "prototype_names =
     map lit [''constructor'', ''hasOwnProperty'', ''isPrototypeOf'', ''propertyIsEnumerable'',
              ''toLocaleString'', ''toString'', ''valueOf'', ''__defineGetter__'',
              ''__defineSetter__'', ''__lookupGetter__'', ''__lookupSetter__'']"

definition ascii_runtime :: runtime where
  "ascii_runtime =
     \<lparr>toLowerCase = map ascii_lower, trim = ascii_trim, localeCompare = code_unit_compare,
      parseFloat = digits_parseFloat, encodeURIComponent = (\<lambda>s. s),
      times = (\<lambda>x y. x * y),
      prototypeText =
        (\<lambda>k. if k \<in> set prototype_names
             then Some (lit ''function '' @ k @ lit ''() { [native code] }'')
             else None)\<rparr>"

definition example_courses :: "course list" where
  "example_courses =
     [\<lparr>title = lit ''Quantum'', track = lit ''QC'', level = lit ''Expert'',
       domains = [lit ''Physics''], tools = [lit ''Qiskit''],
       rating = 4, students = 300, weeks = 10\<rparr>,
      \<lparr>title = lit ''AI Basics'', track = lit ''AI'', level = lit ''Beginner'',
       domains = [lit ''ML'', lit ''Data''], tools = [lit ''Python''],
       rating = 9 / 2, students = 1200, weeks = 6\<rparr>,
      \<lparr>title = lit ''Deep AI'', track = lit ''AI'', level = lit ''Expert'',
       domains = [lit ''ML''], tools = [lit ''Python'', lit ''Torch''],
       rating = 5, students = 50, weeks = 3\<rparr>]"

definition plain_option :: "string \<Rightarrow> bool \<Rightarrow> opt" where
  "plain_option v sel =
     \<lparr>opt_value = lit v, opt_text = lit v, opt_disabled = False, opt_selected = sel\<rparr>"

definition example_page :: page where
  "example_page =
     \<lparr>heap = [example_courses, []], courses = 0, filteredCourses = 1,
      currentView = lit ''grid'', currentPage = 1, categoriesPage = 1,
      searchInput = lit '' ai '',
      trackFilter = [plain_option '''' False, plain_option ''AI'' True, plain_option ''QC'' False],
      domainFilter = [plain_option '''' True, plain_option ''ML'' False,
                      plain_option ''Data'' False, plain_option ''Physics'' False],
      toolFilter = [plain_option '''' True, plain_option ''Python'' False],
      levelFilter = [plain_option '''' True, plain_option ''Beginner'' False,
                     plain_option ''Expert'' False],
      ratingFilter = Some [plain_option ''0'' False, plain_option ''4'' True],
      durationFilter = Some [plain_option ''all'' True, plain_option ''short'' False],
      sortBySelect = lit ''title'',
      coursesContainer = \<lparr>className = [], children = []\<rparr>,
      resultsCount = [],
      activeFiltersDiv = Some [],
      loadMoreContainer = Some [],
      paginationControls = Some [],
      featuredCoursesContainer = Some [],
      categoriesContainer = Some [],
      categoriesLoadMoreContainer = Some []\<rparr>"

text \<open>The example page with an empty course array.\<close>

definition no_courses_page :: page where
  "no_courses_page = example_page\<lparr>heap := [[], []]\<rparr>"

text \<open>
  The example page after a search that kept fifteen courses, on the second page of the
  listing.
\<close>

definition many_page :: page where
  "many_page =
     example_page\<lparr>heap := [example_courses, concat (replicate 5 example_courses)],
                  currentPage := 2\<rparr>"

text \<open>The example page with the rating 5 selected.\<close>

definition rated_page :: page where
  "rated_page =
     example_page\<lparr>ratingFilter := Some [plain_option ''0'' False, plain_option ''5'' True]\<rparr>"

text \<open>The example page with a rating select whose selected option has an empty value.\<close>

definition empty_rating_page :: page where
  "empty_rating_page =
     example_page\<lparr>ratingFilter := Some [plain_option '''' True, plain_option ''4'' False]\<rparr>"


text \<open>
  The example page with untyped course data; the same page without the track select;
  the same page when \<open>coursesData\<close> is not defined and the search input is missing; and
  the same page with one more course, which has no \<open>domains\<close> property.
\<close>

definition example_raw_page :: raw_page where
  "example_raw_page = raw_page_of example_page"

definition no_track_select_page :: raw_page where
  "no_track_select_page = example_raw_page\<lparr>el_trackFilter := None\<rparr>"

definition no_data_page :: raw_page where
  "no_data_page = example_raw_page\<lparr>coursesData := DataMissing, el_searchInput := None\<rparr>"

definition broken_data_page :: raw_page where
  "broken_data_page =
     example_raw_page
       \<lparr>coursesData :=
          DataArray (map raw_of example_courses
                     @ [\<lparr>raw_title = Str (lit ''AI Draft''), raw_track = Str (lit ''AI''),
                         raw_level = Str (lit ''Expert''), raw_domains = Undefined,
                         raw_tools = Arr [], raw_rating = Num (Finite 5),
                         raw_weeks = Num (Finite 2)\<rparr>])\<rparr>"

section \<open>Properties of the icon assignment\<close>

lemma charCodeLoop_sum:
  "charCodeLoop domain i acc = acc + sum_list (map unat (drop i domain))"
proof (induction domain i acc rule: charCodeLoop.induct)
  case (1 domain i acc)
  show ?case
  proof (cases "i < length domain")
    case True
    then have "drop i domain = domain ! i # drop (Suc i) domain"
      by (simp add: Cons_nth_drop_Suc)
    with True 1 show ?thesis
      by (simp add: charCodeLoop.simps [of domain i acc])
  next
    case False
    then show ?thesis
      by (simp add: charCodeLoop.simps [of domain i acc])
  qed
qed

lemma charCodeLoop_home_sum:
  "charCodeLoop_home domain i acc = acc + sum_list (map unat (drop i domain))"
proof (induction domain i acc rule: charCodeLoop_home.induct)
  case (1 domain i acc)
  show ?case
  proof (cases "i < length domain")
    case True
    then have "drop i domain = domain ! i # drop (Suc i) domain"
      by (simp add: Cons_nth_drop_Suc)
    with True 1 show ?thesis
      by (simp add: charCodeLoop_home.simps [of domain i acc])
  next
    case False
    then show ?thesis
      by (simp add: charCodeLoop_home.simps [of domain i acc])
  qed
qed

lemma length_domainIcons: "length domainIcons = 15"
  by (simp add: domainIcons_def)

lemma domainIcons_home_eq: "domainIcons_home = domainIcons"
  by (simp add: domainIcons_home_def domainIcons_def)

text \<open>
  Claim C10. The helper of index.js and the helper of home.js return the same icon for
  every domain string: both pools are the same list of 15 icons, and both helpers return
  the pool entry at the sum of the string's code units modulo 15 (never \<open>undefined\<close>).
  The result depends on the domain string alone.
\<close>

theorem getIconForDomain_equal:
  "getIconForDomain domain = getIconForDomain_home domain
   \<and> getIconForDomain domain = Some (domainIcons ! (sum_list (map unat domain) mod 15))
   \<and> getIconForDomain_home domain
       = Some (domainIcons_home ! (sum_list (map unat domain) mod 15))
   \<and> domainIcons_home = domainIcons
   \<and> length domainIcons = 15"
  by (simp add: getIconForDomain_def getIconForDomain_home_def array_get_def
      charCodeLoop_sum charCodeLoop_home_sum length_domainIcons domainIcons_home_eq)

section \<open>Properties of the theme functions\<close>

lemma lit_dark_neq_light: "lit ''dark'' \<noteq> lit ''light''"
  by (simp add: lit_def)

lemma classList_add_contains: "classList_contains tok (classList_add tok cl)"
  by (simp add: classList_add_def classList_contains_def)

lemma classList_remove_contains: "\<not> classList_contains tok (classList_remove tok cl)"
  by (simp add: classList_remove_def classList_contains_def)

lemma classList_add_idem: "classList_add tok (classList_add tok cl) = classList_add tok cl"
  by (simp add: classList_add_def classList_contains_def)

lemma classList_remove_idem:
  "classList_remove tok (classList_remove tok cl) = classList_remove tok cl"
  by (simp add: classList_remove_def)

text \<open>
  Claim C8. \<open>toggleDarkMode\<close> writes the storage at the key \<open>theme\<close> and nowhere else;
  the value written is \<open>dark\<close> exactly when the root element carries the class \<open>dark\<close>
  after the toggle and \<open>light\<close> otherwise. \<open>applySavedTheme\<close> writes nothing to the
  storage and leaves the root element with the class \<open>dark\<close> exactly when the stored value
  is \<open>dark\<close>, keeping every other class. Applying the saved theme right after a toggle
  gives back the toggled state.
\<close>

theorem theme_roundtrip:
  "localStorage (toggleDarkMode s) (lit ''theme'')
     = Some (if classList_contains (lit ''dark'') (classList (toggleDarkMode s))
             then lit ''dark'' else lit ''light'')
   \<and> localStorage (toggleDarkMode s)
       = (localStorage s)(lit ''theme'' := localStorage (toggleDarkMode s) (lit ''theme''))
   \<and> classList_contains (lit ''dark'') (classList (toggleDarkMode s))
       = (\<not> classList_contains (lit ''dark'') (classList s))
   \<and> localStorage (applySavedTheme s) = localStorage s
   \<and> classList_contains (lit ''dark'') (classList (applySavedTheme s))
       = (localStorage s (lit ''theme'') = Some (lit ''dark''))
   \<and> classList_remove (lit ''dark'') (classList (applySavedTheme s))
       = classList_remove (lit ''dark'') (classList s)
   \<and> applySavedTheme (toggleDarkMode s) = toggleDarkMode s"
proof -
  have neq: "lit ''light'' \<noteq> lit ''dark''"
    using lit_dark_neq_light by simp
  have rem: "\<And>cl. lit ''dark'' \<notin> set cl \<Longrightarrow> filter (\<lambda>t. t \<noteq> lit ''dark'') cl = cl"
    by (auto simp: filter_id_conv)
  show ?thesis
  proof (cases "lit ''dark'' \<in> set (classList s)")
    case True
    then show ?thesis
      using neq
      by (simp add: toggleDarkMode_def applySavedTheme_def classList_toggle_def
          classList_add_def classList_remove_def classList_contains_def)
  next
    case False
    then show ?thesis
      using neq rem [of "classList s"]
      by (simp add: toggleDarkMode_def applySavedTheme_def classList_toggle_def
          classList_add_def classList_remove_def classList_contains_def)
  qed
qed

section \<open>Strings, sorting and the array store\<close>

lemma str_includes_Nil [simp]: "str_includes s []"
  by (cases s) simp_all

lemma foldl_count:
  assumes "\<And>acc c. f acc c = (if P c then acc + 1 else acc)"
  shows "foldl f (n::nat) cs = n + length (filter P cs)"
  using assms by (induction cs arbitrary: n) simp_all

lemma mset_insert_by [simp]: "mset (insert_by cmp x ys) = add_mset x (mset ys)"
  by (induction ys) simp_all

lemma mset_sort_by [simp]: "mset (sort_by cmp xs) = mset xs"
  by (induction xs) (simp_all add: sort_by_def)

lemma length_sort_by [simp]: "length (sort_by cmp xs) = length xs"
  using mset_sort_by [of cmp xs] by (metis size_mset)

lemma set_sort_by [simp]: "set (sort_by cmp xs) = set xs"
  using mset_sort_by [of cmp xs] by (metis set_mset_mset)

lemma sort_by_Nil_iff [simp]: "sort_by cmp xs = [] \<longleftrightarrow> xs = []"
  using length_sort_by [of cmp xs] by (metis length_0_conv)

lemma sorted_insert_by:
  assumes total: "\<And>a b. \<not> cmp a b \<le> 0 \<Longrightarrow> le b a"
    and le: "\<And>a b. cmp a b \<le> 0 \<Longrightarrow> le a b"
    and trans: "\<And>a b c. le a b \<Longrightarrow> le b c \<Longrightarrow> le a c"
    and "sorted_wrt le ys"
  shows "sorted_wrt le (insert_by cmp x ys)"
  using assms(4)
proof (induction ys)
  case Nil
  then show ?case by simp
next
  case (Cons y ys)
  show ?case
  proof (cases "cmp x y \<le> 0")
    case True
    then have "le x y" by (rule le)
    with Cons.prems trans have "\<forall>z\<in>set ys. le x z" by auto
    with True \<open>le x y\<close> Cons.prems show ?thesis by simp
  next
    case False
    then have "le y x" by (rule total)
    moreover have "set (insert_by cmp x ys) = insert x (set ys)"
      using mset_insert_by [of cmp x ys] by (metis set_mset_add_mset_insert set_mset_mset)
    ultimately show ?thesis using False Cons by auto
  qed
qed

lemma sorted_sort_by:
  assumes total: "\<And>a b. \<not> cmp a b \<le> 0 \<Longrightarrow> le b a"
    and le: "\<And>a b. cmp a b \<le> 0 \<Longrightarrow> le a b"
    and trans: "\<And>a b c. le a b \<Longrightarrow> le b c \<Longrightarrow> le a c"
  shows "sorted_wrt le (sort_by cmp xs)"
proof (induction xs)
  case Nil
  then show ?case by (simp add: sort_by_def)
next
  case (Cons x xs)
  have "sort_by cmp (x # xs) = insert_by cmp x (sort_by cmp xs)"
    by (simp add: sort_by_def)
  with Cons show ?case
    using sorted_insert_by [of cmp le "sort_by cmp xs" x] total le trans by simp
qed

lemma deref_append_new [simp]: "deref (h @ [xs]) (length h) = xs"
  by (simp add: deref_def)

lemma deref_append_old [simp]: "a < length h \<Longrightarrow> deref (h @ [xs]) a = deref h a"
  by (simp add: deref_def nth_append)

lemma deref_array_sort_same:
  "a < length h \<Longrightarrow> deref (array_sort cmp h a) a = sort_by cmp (deref h a)"
  by (simp add: deref_def array_sort_def)

lemma deref_array_sort_other:
  "a \<noteq> b \<Longrightarrow> deref (array_sort cmp h a) b = deref h b"
  by (simp add: deref_def array_sort_def)

lemma length_array_sort [simp]: "length (array_sort cmp h a) = length h"
  by (simp add: array_sort_def)

lemma renderCourses_frame [simp]:
  "heap (renderCourses s) = heap s"
  "courses (renderCourses s) = courses s"
  "filteredCourses (renderCourses s) = filteredCourses s"
  "currentPage (renderCourses s) = currentPage s"
  "searchInput (renderCourses s) = searchInput s"
  "trackFilter (renderCourses s) = trackFilter s"
  "domainFilter (renderCourses s) = domainFilter s"
  "toolFilter (renderCourses s) = toolFilter s"
  "levelFilter (renderCourses s) = levelFilter s"
  "activeFiltersDiv (renderCourses s) = activeFiltersDiv s"
  by (simp_all add: renderCourses_def Let_def)

lemma updateFilterCounts_frame [simp]:
  "heap (updateFilterCounts rt s) = heap s"
  "courses (updateFilterCounts rt s) = courses s"
  "filteredCourses (updateFilterCounts rt s) = filteredCourses s"
  "currentPage (updateFilterCounts rt s) = currentPage s"
  "searchInput (updateFilterCounts rt s) = searchInput s"
  "activeFiltersDiv (updateFilterCounts rt s) = activeFiltersDiv s"
  "coursesContainer (updateFilterCounts rt s) = coursesContainer s"
  "loadMoreContainer (updateFilterCounts rt s) = loadMoreContainer s"
  by (simp_all add: updateFilterCounts_def Let_def)

lemma updateActiveFilters_frame [simp]:
  "heap (updateActiveFilters rt s) = heap s"
  "courses (updateActiveFilters rt s) = courses s"
  "filteredCourses (updateActiveFilters rt s) = filteredCourses s"
  "currentPage (updateActiveFilters rt s) = currentPage s"
  "searchInput (updateActiveFilters rt s) = searchInput s"
  "trackFilter (updateActiveFilters rt s) = trackFilter s"
  "domainFilter (updateActiveFilters rt s) = domainFilter s"
  "toolFilter (updateActiveFilters rt s) = toolFilter s"
  "levelFilter (updateActiveFilters rt s) = levelFilter s"
  "coursesContainer (updateActiveFilters rt s) = coursesContainer s"
  "loadMoreContainer (updateActiveFilters rt s) = loadMoreContainer s"
  by (simp_all add: updateActiveFilters_def Let_def split: option.splits)

lemma applyFilters_heap:
  "heap (applyFilters rt s) =
     array_sort (compareCourses rt (sortBySelect s))
       (heap s @ [filter (keepCourse rt (toLowerCase rt (trim rt (searchInput s)))
                     (select_value (trackFilter s)) (select_value (domainFilter s))
                     (select_value (toolFilter s)) (select_value (levelFilter s)))
                   (deref (heap s) (courses s))])
       (length (heap s))"
  "filteredCourses (applyFilters rt s) = length (heap s)"
  "courses (applyFilters rt s) = courses s"
  "currentPage (applyFilters rt s) = 1"
  by (simp_all add: applyFilters_def Let_def array_filter_def)

section \<open>Filtering and sorting\<close>

lemma some_in_overlaps: "some_in xs ys = overlaps xs ys"
  by (auto simp: some_in_def overlaps_def list_ex_iff)

lemma lits_distinct:
  "lit ''short'' \<noteq> lit ''medium''" "lit ''short'' \<noteq> lit ''long''"
  "lit ''medium'' \<noteq> lit ''long''" "lit ''short'' \<noteq> lit ''all''"
  "lit ''medium'' \<noteq> lit ''all''" "lit ''long'' \<noteq> lit ''all''"
  "lit ''short'' \<noteq> []" "lit ''medium'' \<noteq> []" "lit ''long'' \<noteq> []"
  by (simp_all add: lit_def)

lemma if_chain5:
  "(if a then False else if b then False else if c then False else if d then False
    else if e then False else True) = (\<not> a \<and> \<not> b \<and> \<not> c \<and> \<not> d \<and> \<not> e)"
  by simp

lemma if_chain7:
  "(if a then False else if b then False else if c then False else if d then False
    else if e then False else if f then False else g)
   = (\<not> a \<and> \<not> b \<and> \<not> c \<and> \<not> d \<and> \<not> e \<and> \<not> f \<and> g)"
  by simp

lemma single_part: "(\<not> (sel \<noteq> [] \<and> x \<noteq> sel)) = (sel = [] \<or> x = (sel::jsstring))"
  by auto

lemma member_part: "(\<not> (sel \<noteq> [] \<and> sel \<notin> set xs)) = (sel = [] \<or> (sel::jsstring) \<in> set xs)"
  by auto

lemma multi_part:
  "(\<not> (length sels > 0 \<and> x \<notin> set sels)) = (sels = [] \<or> (x::jsstring) \<in> set sels)"
  by auto

lemma overlap_part:
  "(\<not> (length sels > 0 \<and> \<not> some_in xs sels)) = (sels = [] \<or> overlaps xs sels)"
  by (auto simp: some_in_overlaps)

lemma duration_in_bucket:
  "(if cat \<noteq> [] \<and> cat \<noteq> lit ''all''
    then (let w = x in
          if cat = lit ''short'' \<and> \<not> (w < 4) then False
          else if cat = lit ''medium'' \<and> \<not> (w \<ge> 4 \<and> w \<le> 8) then False
          else if cat = lit ''long'' \<and> \<not> (w > 8) then False
          else True)
    else True) = in_bucket cat (x::rat)"
  using lits_distinct by (simp add: in_bucket_def Let_def)

lemma belowThreshold_spec:
  "(\<not> belowThreshold th c)
   = (case th of None \<Rightarrow> True | Some t \<Rightarrow> if t > 0 then rating c \<ge> t else True)"
  by (auto simp: belowThreshold_def split: option.splits)

lemma keepCourse_home_pass:
  assumes "toLowerCase rt [] = []"
  shows "keepCourse rt (toLowerCase rt term) trk dmn tol lvl c
         = home_pass rt term trk dmn tol lvl c"
proof -
  have search: "(\<not> (toLowerCase rt term \<noteq> []
            \<and> \<not> str_includes (toLowerCase rt (title c)) (toLowerCase rt term)))
         = (term = [] \<or> contains_ci rt (title c) term)"
    using assms by (auto simp: contains_ci_def)
  show ?thesis
    unfolding keepCourse_def home_pass_def if_chain5
    by (simp only: search single_part member_part)
qed

lemma keepCourse_listing_pass:
  assumes "toLowerCase rt [] = []"
  shows "keepCourse_listing rt (toLowerCase rt term) trks dmns tols lvls th cat c
         = listing_pass rt term trks dmns tols lvls th cat c"
proof -
  have search: "(\<not> (toLowerCase rt term \<noteq> []
            \<and> \<not> str_includes (toLowerCase rt (title c)) (toLowerCase rt term)))
         = (term = [] \<or> contains_ci rt (title c) term)"
    using assms by (auto simp: contains_ci_def)
  show ?thesis
    unfolding keepCourse_listing_def listing_pass_def duration_in_bucket if_chain7
    by (simp only: search multi_part overlap_part belowThreshold_spec)
qed

lemma code_unit_compare_total:
  "code_unit_compare a b > 0 \<Longrightarrow> code_unit_compare b a \<le> 0"
  by (induction a b rule: code_unit_compare.induct) (auto split: if_splits)

lemma code_unit_compare_trans:
  "code_unit_compare a b \<le> 0 \<Longrightarrow> code_unit_compare b c \<le> 0 \<Longrightarrow> code_unit_compare a c \<le> 0"
proof (induction a b arbitrary: c rule: code_unit_compare.induct)
  case 1
  then show ?case by simp
next
  case (2 b bs)
  then show ?case by (cases c) simp_all
next
  case (3 a as)
  then show ?case by simp
next
  case (4 a as b bs)
  then show ?case by (cases c) (auto split: if_splits)
qed

lemma ascii_runtime_consistent: "consistent_collation ascii_runtime"
  unfolding consistent_collation_def
  using code_unit_compare_total code_unit_compare_trans
  by (simp add: ascii_runtime_def) blast

lemma filtered_array_applyFilters:
  "filtered_array (applyFilters rt s) =
     sort_by (compareCourses rt (sortBySelect s))
       (filter (keepCourse rt (toLowerCase rt (trim rt (searchInput s)))
                     (select_value (trackFilter s)) (select_value (domainFilter s))
                     (select_value (toolFilter s)) (select_value (levelFilter s)))
          (courses_array s))"
  by (simp add: filtered_array_def courses_array_def applyFilters_heap deref_array_sort_same)

lemma renderPagination_frame [simp]:
  "heap (renderPagination s) = heap s"
  "courses (renderPagination s) = courses s"
  "filteredCourses (renderPagination s) = filteredCourses s"
  "currentPage (renderPagination s) = currentPage s"
  "searchInput (renderPagination s) = searchInput s"
  "trackFilter (renderPagination s) = trackFilter s"
  "domainFilter (renderPagination s) = domainFilter s"
  "toolFilter (renderPagination s) = toolFilter s"
  "levelFilter (renderPagination s) = levelFilter s"
  "ratingFilter (renderPagination s) = ratingFilter s"
  "durationFilter (renderPagination s) = durationFilter s"
  "activeFiltersDiv (renderPagination s) = activeFiltersDiv s"
  "coursesContainer (renderPagination s) = coursesContainer s"
  "resultsCount (renderPagination s) = resultsCount s"
  by (simp_all add: renderPagination_def Let_def split: option.splits)

lemma renderCourses_listing_frame [simp]:
  "heap (renderCourses_listing s) = heap s"
  "courses (renderCourses_listing s) = courses s"
  "filteredCourses (renderCourses_listing s) = filteredCourses s"
  "currentPage (renderCourses_listing s) = currentPage s"
  "searchInput (renderCourses_listing s) = searchInput s"
  "trackFilter (renderCourses_listing s) = trackFilter s"
  "domainFilter (renderCourses_listing s) = domainFilter s"
  "toolFilter (renderCourses_listing s) = toolFilter s"
  "levelFilter (renderCourses_listing s) = levelFilter s"
  "ratingFilter (renderCourses_listing s) = ratingFilter s"
  "durationFilter (renderCourses_listing s) = durationFilter s"
  "activeFiltersDiv (renderCourses_listing s) = activeFiltersDiv s"
  by (simp_all add: renderCourses_listing_def Let_def)

lemma updateFilterCounts_listing_frame [simp]:
  "heap (updateFilterCounts_listing rt s) = heap s"
  "courses (updateFilterCounts_listing rt s) = courses s"
  "filteredCourses (updateFilterCounts_listing rt s) = filteredCourses s"
  "currentPage (updateFilterCounts_listing rt s) = currentPage s"
  "searchInput (updateFilterCounts_listing rt s) = searchInput s"
  "ratingFilter (updateFilterCounts_listing rt s) = ratingFilter s"
  "durationFilter (updateFilterCounts_listing rt s) = durationFilter s"
  "activeFiltersDiv (updateFilterCounts_listing rt s) = activeFiltersDiv s"
  "coursesContainer (updateFilterCounts_listing rt s) = coursesContainer s"
  "paginationControls (updateFilterCounts_listing rt s) = paginationControls s"
  by (simp_all add: updateFilterCounts_listing_def Let_def)

lemma updateActiveFilters_listing_frame [simp]:
  "heap (updateActiveFilters_listing rt s) = heap s"
  "courses (updateActiveFilters_listing rt s) = courses s"
  "filteredCourses (updateActiveFilters_listing rt s) = filteredCourses s"
  "currentPage (updateActiveFilters_listing rt s) = currentPage s"
  "searchInput (updateActiveFilters_listing rt s) = searchInput s"
  "trackFilter (updateActiveFilters_listing rt s) = trackFilter s"
  "domainFilter (updateActiveFilters_listing rt s) = domainFilter s"
  "toolFilter (updateActiveFilters_listing rt s) = toolFilter s"
  "levelFilter (updateActiveFilters_listing rt s) = levelFilter s"
  "ratingFilter (updateActiveFilters_listing rt s) = ratingFilter s"
  "durationFilter (updateActiveFilters_listing rt s) = durationFilter s"
  "coursesContainer (updateActiveFilters_listing rt s) = coursesContainer s"
  "paginationControls (updateActiveFilters_listing rt s) = paginationControls s"
  by (simp_all add: updateActiveFilters_listing_def Let_def split: option.splits)

lemma applyFilters_listing_heap:
  "heap (applyFilters_listing rt s) =
     array_sort (compareCourses rt (sortBySelect s))
       (heap s @ [filter (keepCourse_listing rt (toLowerCase rt (trim rt (searchInput s)))
                     (selectedValues (trackFilter s)) (selectedValues (domainFilter s))
                     (selectedValues (toolFilter s)) (selectedValues (levelFilter s))
                     (ratingThresholdOf rt s) (durationCategoryOf s))
                   (deref (heap s) (courses s))])
       (length (heap s))"
  "filteredCourses (applyFilters_listing rt s) = length (heap s)"
  "courses (applyFilters_listing rt s) = courses s"
  "currentPage (applyFilters_listing rt s) = 1"
  by (simp_all add: applyFilters_listing_def Let_def array_filter_def)

lemma filtered_array_applyFilters_listing:
  "filtered_array (applyFilters_listing rt s) =
     sort_by (compareCourses rt (sortBySelect s))
       (filter (keepCourse_listing rt (toLowerCase rt (trim rt (searchInput s)))
                     (selectedValues (trackFilter s)) (selectedValues (domainFilter s))
                     (selectedValues (toolFilter s)) (selectedValues (levelFilter s))
                     (ratingThresholdOf rt s) (durationCategoryOf s))
          (courses_array s))"
  by (simp add: filtered_array_def courses_array_def applyFilters_listing_heap
      deref_array_sort_same)

lemma applyFilters_keeps:
  assumes "toLowerCase rt [] = []"
  shows "mset (filtered_array (applyFilters rt c))
           = mset (filter (home_match rt c) (courses_array c))"
    and "mset (filtered_array (applyFilters_listing rt c))
           = mset (filter (listing_match rt c) (courses_array c))"
proof -
  have "keepCourse rt (toLowerCase rt (trim rt (searchInput c)))
           (select_value (trackFilter c)) (select_value (domainFilter c))
           (select_value (toolFilter c)) (select_value (levelFilter c))
        = home_match rt c"
    unfolding home_match_def by (intro ext) (rule keepCourse_home_pass [OF assms])
  then show "mset (filtered_array (applyFilters rt c))
           = mset (filter (home_match rt c) (courses_array c))"
    by (simp add: filtered_array_applyFilters)
  have "keepCourse_listing rt (toLowerCase rt (trim rt (searchInput c)))
           (selectedValues (trackFilter c)) (selectedValues (domainFilter c))
           (selectedValues (toolFilter c)) (selectedValues (levelFilter c))
           (ratingThresholdOf rt c) (durationCategoryOf c)
        = listing_match rt c"
    unfolding listing_match_def by (intro ext) (rule keepCourse_listing_pass [OF assms])
  then show "mset (filtered_array (applyFilters_listing rt c))
           = mset (filter (listing_match rt c) (courses_array c))"
    by (simp add: filtered_array_applyFilters_listing)
qed


text \<open>
  Claim C2. After \<open>applyFilters\<close> the filtered array holds exactly the courses of the
  course array that satisfy: the title contains the (trimmed) search term
  case-insensitively, or the term is empty; the track is the selected track (home page)
  or among the selected tracks (listing page) when one is selected; the domains contain
  the selected domain (home) or overlap the selected domains (listing), likewise the
  tools; the level matches the selection; and on the listing page the rating is at least
  the threshold when the threshold is positive and the weeks fall in the selected
  duration bucket. Each course is kept as often as it occurs in the course array. The
  runtime is any runtime whose \<open>toLowerCase\<close> maps the empty string to itself.
\<close>

theorem applyFilters_membership:
  assumes "toLowerCase rt [] = []"
  shows "mset (filtered_array (applyFilters rt s))
           = mset (filter (home_match rt s) (courses_array s))
         \<and> mset (filtered_array (applyFilters_listing rt s))
           = mset (filter (listing_match rt s) (courses_array s))"
  using applyFilters_keeps [OF assms, of s] by (intro conjI)

lemma example_courses_array: "courses_array example_page = example_courses"
  by (simp add: courses_array_def example_page_def deref_def)

theorem applyFilters_membership_witness:
  "toLowerCase ascii_runtime [] = []
   \<and> mset (filtered_array (applyFilters ascii_runtime example_page))
       = mset [example_courses ! 1, example_courses ! 2]
   \<and> mset (filtered_array (applyFilters_listing ascii_runtime example_page))
       = mset [example_courses ! 1, example_courses ! 2]"
proof -
  have h: "toLowerCase ascii_runtime [] = []"
    by (simp add: ascii_runtime_def)
  have "filter (home_match ascii_runtime example_page) example_courses
        = [example_courses ! 1, example_courses ! 2]"
    by code_simp
  moreover have "filter (listing_match ascii_runtime example_page) example_courses
        = [example_courses ! 1, example_courses ! 2]"
    by code_simp
  ultimately show ?thesis
    using h applyFilters_membership [OF h, of example_page]
    by (simp add: example_courses_array)
qed

lemma sorted_compareCourses:
  assumes "by_title sortBy \<Longrightarrow> consistent_collation rt"
  shows "sorted_for rt sortBy (sort_by (compareCourses rt sortBy) xs)"
proof -
  consider (r) "sortBy = lit ''rating''"
    | (s) "sortBy \<noteq> lit ''rating''" "sortBy = lit ''students''"
    | (d) "sortBy \<noteq> lit ''rating''" "sortBy \<noteq> lit ''students''" "sortBy = lit ''duration''"
    | (t) "by_title sortBy"
    unfolding by_title_def by blast
  then show ?thesis
  proof cases
    case r
    have "sorted_wrt (\<lambda>a b. rating a \<ge> rating b) (sort_by (\<lambda>a b. rating b - rating a) xs)"
      by (rule sorted_sort_by) auto
    with r show ?thesis
      by (simp add: sorted_for_def compareCourses_def [abs_def])
  next
    case s
    have "sorted_wrt (\<lambda>a b. students a \<ge> students b)
            (sort_by (\<lambda>a b. students b - students a) xs)"
      by (rule sorted_sort_by) auto
    with s show ?thesis
      by (simp add: sorted_for_def compareCourses_def [abs_def])
  next
    case d
    have "sorted_wrt (\<lambda>a b. weeks a \<le> weeks b) (sort_by (\<lambda>a b. weeks a - weeks b) xs)"
      by (rule sorted_sort_by) auto
    with d show ?thesis
      by (simp add: sorted_for_def compareCourses_def [abs_def])
  next
    case t
    then have c: "consistent_collation rt" by (rule assms)
    have "sorted_wrt (\<lambda>a b. localeCompare rt (title a) (title b) \<le> 0)
            (sort_by (\<lambda>a b. of_int (localeCompare rt (title a) (title b))) xs)"
    proof (rule sorted_sort_by)
      fix a b :: course
      assume "\<not> (of_int (localeCompare rt (title a) (title b)) :: rat) \<le> 0"
      then have "localeCompare rt (title a) (title b) > 0" by simp
      with c show "localeCompare rt (title b) (title a) \<le> 0"
        unfolding consistent_collation_def by blast
    next
      fix a b :: course
      assume "(of_int (localeCompare rt (title a) (title b)) :: rat) \<le> 0"
      then show "localeCompare rt (title a) (title b) \<le> 0" by simp
    next
      fix a b c' :: course
      assume "localeCompare rt (title a) (title b) \<le> 0"
        and "localeCompare rt (title b) (title c') \<le> 0"
      with c show "localeCompare rt (title a) (title c') \<le> 0"
        unfolding consistent_collation_def by blast
    qed
    with t show ?thesis
      by (simp add: sorted_for_def compareCourses_def [abs_def] by_title_def)
  qed
qed

text \<open>
  Claim C3. After \<open>applyFilters\<close>, on both pages, the filtered array is in descending
  order of rating for the sort key \<open>rating\<close>, in descending order of students for
  \<open>students\<close>, in ascending order of weeks for \<open>duration\<close>, and in ascending order of
  \<open>localeCompare\<close> on the titles for \<open>title\<close> and every other key. For the order by
  title the collation of the runtime has to be a consistent comparison: total and
  transitive.
\<close>

theorem applyFilters_sorted:
  assumes "by_title (sortBySelect s) \<Longrightarrow> consistent_collation rt"
  shows "sorted_for rt (sortBySelect s) (filtered_array (applyFilters rt s))
         \<and> sorted_for rt (sortBySelect s) (filtered_array (applyFilters_listing rt s))"
  using assms
  by (simp add: filtered_array_applyFilters filtered_array_applyFilters_listing
      sorted_compareCourses)

theorem applyFilters_sorted_witness:
  "consistent_collation ascii_runtime
   \<and> sorted_for ascii_runtime (lit ''title'') (filtered_array (applyFilters ascii_runtime example_page))
   \<and> sorted_for ascii_runtime (lit ''title'')
       (filtered_array (applyFilters_listing ascii_runtime example_page))"
  using applyFilters_sorted [of example_page ascii_runtime] ascii_runtime_consistent
  by (simp add: example_page_def)

section \<open>Filter counts\<close>

lemma select_first_value:
  "v \<in> opt_value ` set sel \<Longrightarrow> \<forall>x\<in>set sel. \<not> opt_selected x
   \<Longrightarrow> select_value (select_first v sel) = v"
proof (induction sel)
  case Nil
  then show ?case by simp
next
  case (Cons x xs)
  show ?case
  proof (cases "opt_value x = v")
    case True
    then show ?thesis by (simp add: select_value_def selectedOptions_def)
  next
    case False
    with Cons.prems have "v \<in> opt_value ` set xs" "\<forall>x\<in>set xs. \<not> opt_selected x"
      "\<not> opt_selected x" by auto
    with Cons.IH False show ?thesis by (simp add: select_value_def selectedOptions_def)
  qed
qed

lemma select_value_set:
  "v \<in> opt_value ` set sel \<Longrightarrow> select_value (set_select_value v sel) = v"
  unfolding set_select_value_def
  by (rule select_first_value) (auto simp: image_iff)

lemma selectedValues_Cons:
  "selectedValues (x # xs)
   = (if opt_selected x \<and> opt_value x \<noteq> [] then opt_value x # selectedValues xs
      else selectedValues xs)"
  by (simp add: selectedValues_def selectedOptions_def)

lemma selectedValues_select_also_gen:
  "set (selectedValues (select_also v sel))
   = set (selectedValues sel) \<union> (if v \<in> opt_value ` set sel \<and> v \<noteq> [] then {v} else {})"
proof (induction sel)
  case Nil
  then show ?case by (simp add: selectedValues_def selectedOptions_def select_also_def)
next
  case (Cons x xs)
  have step: "select_also v (x # xs)
      = (if opt_value x = v then x\<lparr>opt_selected := True\<rparr> else x) # select_also v xs"
    by (simp add: select_also_def)
  show ?case
    unfolding step selectedValues_Cons using Cons.IH by auto
qed

lemma selectedValues_select_also:
  assumes "v \<in> opt_value ` set sel" "v \<noteq> []"
  shows "set (selectedValues (select_also v sel)) = insert v (set (selectedValues sel))"
  using assms by (simp add: selectedValues_select_also_gen)

lemma if_chain5_count:
  "(if a then (x::nat) else if b then x else if c then x else if d then x else if e then x
    else y)
   = (if (if a then False else if b then False else if c then False else if d then False
          else if e then False else True) then y else x)"
  by simp

lemma rejects_simps:
  "rejects (Some v) bad = (v \<noteq> [] \<and> bad v)"
  "rejects (or_null v) bad = (v \<noteq> [] \<and> bad v)"
  by (simp_all add: rejects_def or_null_def)

lemma countFor_keep:
  "v \<noteq> [] \<Longrightarrow>
   countFor rt cs st (Some v) (or_null d) (or_null t) (or_null l)
     = length (filter (keepCourse rt st v d t l) cs)"
  unfolding countFor_def
  by (subst foldl_count [where P = "keepCourse rt st v d t l"])
     (simp_all add: rejects_simps keepCourse_def)

lemma countDomain_keep:
  "v \<noteq> [] \<Longrightarrow>
   countDomain rt cs st trk t l v = length (filter (keepCourse rt st trk v t l) cs)"
  unfolding countDomain_def
  by (subst foldl_count [where P = "keepCourse rt st trk v t l"])
     (simp_all add: keepCourse_def)

lemma countTool_keep:
  "v \<noteq> [] \<Longrightarrow>
   countTool rt cs st trk d l v = length (filter (keepCourse rt st trk d v l) cs)"
  unfolding countTool_def
  by (subst foldl_count [where P = "keepCourse rt st trk d v l"])
     (simp_all add: keepCourse_def)

lemma countLevel_keep:
  "v \<noteq> [] \<Longrightarrow>
   countLevel rt cs st trk d t v = length (filter (keepCourse rt st trk d t v) cs)"
  unfolding countLevel_def
  by (subst foldl_count [where P = "keepCourse rt st trk d t v"])
     (simp_all add: keepCourse_def)

lemma keepCourse_home_pass_fun:
  "toLowerCase rt [] = [] \<Longrightarrow>
   keepCourse rt (toLowerCase rt term) trk dmn tol lvl = home_pass rt term trk dmn tol lvl"
  by (intro ext) (rule keepCourse_home_pass)

lemma updateOption_labelled:
  assumes "opt_value x \<noteq> [] \<Longrightarrow> countOf (opt_value x) = n (opt_value x)"
  shows "updateOption allLabel countOf x = labelled allLabel n x"
  using assms by (simp add: updateOption_def labelled_def countLabel_def Let_def)

lemma map_updateOption_labelled:
  assumes "\<And>v. v \<noteq> [] \<Longrightarrow> v \<in> opt_value ` set sel \<Longrightarrow> countOf v = n v"
  shows "map (updateOption allLabel countOf) sel = map (labelled allLabel n) sel"
  by (rule map_cong [OF refl]) (simp add: updateOption_labelled assms)

lemma courses_array_pick [simp]: "courses_array (pick f v s) = courses_array s"
  by (cases f) (simp_all add: courses_array_def)

lemma courses_array_pick_also [simp]: "courses_array (pick_also f v s) = courses_array s"
  by (cases f) (simp_all add: courses_array_def)

lemma would_match_facets:
  "v \<in> opt_value ` set (trackFilter s) \<Longrightarrow>
   would_match rt s Track v
     = length (filter (home_pass rt (trim rt (searchInput s)) v
                 (select_value (domainFilter s)) (select_value (toolFilter s))
                 (select_value (levelFilter s))) (courses_array s))"
  "v \<in> opt_value ` set (domainFilter s) \<Longrightarrow>
   would_match rt s Domain v
     = length (filter (home_pass rt (trim rt (searchInput s)) (select_value (trackFilter s))
                 v (select_value (toolFilter s))
                 (select_value (levelFilter s))) (courses_array s))"
  "v \<in> opt_value ` set (toolFilter s) \<Longrightarrow>
   would_match rt s Tool v
     = length (filter (home_pass rt (trim rt (searchInput s)) (select_value (trackFilter s))
                 (select_value (domainFilter s)) v
                 (select_value (levelFilter s))) (courses_array s))"
  "v \<in> opt_value ` set (levelFilter s) \<Longrightarrow>
   would_match rt s Level v
     = length (filter (home_pass rt (trim rt (searchInput s)) (select_value (trackFilter s))
                 (select_value (domainFilter s)) (select_value (toolFilter s))
                 v) (courses_array s))"
  by (simp_all add: would_match_def home_match_def select_value_set)

lemma updateFilterCounts_nonempty:
  assumes "courses_array s \<noteq> []"
  shows "trackFilter (updateFilterCounts rt s) =
          map (updateOption (lit ''All Tracks'')
                (\<lambda>val. countFor rt (courses_array s) (toLowerCase rt (trim rt (searchInput s)))
                   (Some val) (or_null (select_value (domainFilter s)))
                   (or_null (select_value (toolFilter s)))
                   (or_null (select_value (levelFilter s)))))
              (trackFilter s)"
    and "domainFilter (updateFilterCounts rt s) =
          map (updateOption (lit ''All Domains'')
                (countDomain rt (courses_array s) (toLowerCase rt (trim rt (searchInput s)))
                   (select_value (trackFilter s)) (select_value (toolFilter s))
                   (select_value (levelFilter s))))
              (domainFilter s)"
    and "toolFilter (updateFilterCounts rt s) =
          map (updateOption (lit ''All Tools'')
                (countTool rt (courses_array s) (toLowerCase rt (trim rt (searchInput s)))
                   (select_value (trackFilter s)) (select_value (domainFilter s))
                   (select_value (levelFilter s))))
              (toolFilter s)"
    and "levelFilter (updateFilterCounts rt s) =
          map (updateOption (lit ''All Levels'')
                (countLevel rt (courses_array s) (toLowerCase rt (trim rt (searchInput s)))
                   (select_value (trackFilter s)) (select_value (domainFilter s))
                   (select_value (toolFilter s))))
              (levelFilter s)"
  using assms by (simp_all add: updateFilterCounts_def courses_array_def Let_def)

lemma updateFilterCounts_labelled:
  assumes ne: "courses_array s \<noteq> []" and lower: "toLowerCase rt [] = []"
  shows "trackFilter (updateFilterCounts rt s)
           = map (labelled (lit ''All Tracks'') (would_match rt s Track)) (trackFilter s)"
    and "domainFilter (updateFilterCounts rt s)
           = map (labelled (lit ''All Domains'') (would_match rt s Domain)) (domainFilter s)"
    and "toolFilter (updateFilterCounts rt s)
           = map (labelled (lit ''All Tools'') (would_match rt s Tool)) (toolFilter s)"
    and "levelFilter (updateFilterCounts rt s)
           = map (labelled (lit ''All Levels'') (would_match rt s Level)) (levelFilter s)"
proof -
  show "trackFilter (updateFilterCounts rt s)
           = map (labelled (lit ''All Tracks'') (would_match rt s Track)) (trackFilter s)"
    unfolding updateFilterCounts_nonempty(1) [OF ne]
    by (rule map_updateOption_labelled)
       (simp add: countFor_keep would_match_facets keepCourse_home_pass_fun [OF lower])
  show "domainFilter (updateFilterCounts rt s)
           = map (labelled (lit ''All Domains'') (would_match rt s Domain)) (domainFilter s)"
    unfolding updateFilterCounts_nonempty(2) [OF ne]
    by (rule map_updateOption_labelled)
       (simp add: countDomain_keep would_match_facets keepCourse_home_pass_fun [OF lower])
  show "toolFilter (updateFilterCounts rt s)
           = map (labelled (lit ''All Tools'') (would_match rt s Tool)) (toolFilter s)"
    unfolding updateFilterCounts_nonempty(3) [OF ne]
    by (rule map_updateOption_labelled)
       (simp add: countTool_keep would_match_facets keepCourse_home_pass_fun [OF lower])
  show "levelFilter (updateFilterCounts rt s)
           = map (labelled (lit ''All Levels'') (would_match rt s Level)) (levelFilter s)"
    unfolding updateFilterCounts_nonempty(4) [OF ne]
    by (rule map_updateOption_labelled)
       (simp add: countLevel_keep would_match_facets keepCourse_home_pass_fun [OF lower])
qed

lemma if_chain4_count:
  "(if a then (x::nat) else if b then x else if c then x else if d then x + 1 else x)
   = (if \<not> a \<and> \<not> b \<and> \<not> c \<and> d then x + 1 else x)"
  by simp

lemma countByTrack_eq:
  "countByTrack base selT selD selO selL v
   = length (filter (\<lambda>c. \<not> (length selD > 0 \<and> \<not> some_in (domains c) selD)
                        \<and> \<not> (length selO > 0 \<and> \<not> some_in (tools c) selO)
                        \<and> \<not> (length selL > 0 \<and> level c \<notin> set selL)
                        \<and> (track c = v \<or> track c \<in> set selT)) base)"
  unfolding countByTrack_def if_chain4_count
  by (rule trans [OF foldl_count [OF refl]]) simp

lemma countByDomain_eq:
  "countByDomain base selT selD selO selL v
   = length (filter (\<lambda>c. \<not> (length selT > 0 \<and> track c \<notin> set selT)
                        \<and> \<not> (length selO > 0 \<and> \<not> some_in (tools c) selO)
                        \<and> \<not> (length selL > 0 \<and> level c \<notin> set selL)
                        \<and> (v \<in> set (domains c) \<or> some_in (domains c) selD)) base)"
  unfolding countByDomain_def if_chain4_count
  by (rule trans [OF foldl_count [OF refl]]) simp

lemma countByTool_eq:
  "countByTool base selT selD selO selL v
   = length (filter (\<lambda>c. \<not> (length selT > 0 \<and> track c \<notin> set selT)
                        \<and> \<not> (length selD > 0 \<and> \<not> some_in (domains c) selD)
                        \<and> \<not> (length selL > 0 \<and> level c \<notin> set selL)
                        \<and> (v \<in> set (tools c) \<or> some_in (tools c) selO)) base)"
  unfolding countByTool_def if_chain4_count
  by (rule trans [OF foldl_count [OF refl]]) simp

lemma countByLevel_eq:
  "countByLevel base selT selD selO selL v
   = length (filter (\<lambda>c. \<not> (length selT > 0 \<and> track c \<notin> set selT)
                        \<and> \<not> (length selD > 0 \<and> \<not> some_in (domains c) selD)
                        \<and> \<not> (length selO > 0 \<and> \<not> some_in (tools c) selO)
                        \<and> (level c = v \<or> level c \<in> set selL)) base)"
  unfolding countByLevel_def if_chain4_count
  by (rule trans [OF foldl_count [OF refl]]) simp


lemma if_False_conj: "(if a then False else b) = (\<not> a \<and> b)"
  by simp

lemma passesRatingDuration_spec:
  "passesRatingDuration th cat c
   = ((case th of None \<Rightarrow> True | Some t \<Rightarrow> if t > 0 then rating c \<ge> t else True)
      \<and> in_bucket cat (weeks c))"
proof -
  have "passesRatingDuration th cat c
        = (if belowThreshold th c then False else in_bucket cat (weeks c))"
    unfolding passesRatingDuration_def duration_in_bucket by (rule refl)
  then show ?thesis
    by (simp only: if_False_conj belowThreshold_spec)
qed

lemma base_part:
  assumes "toLowerCase rt [] = []"
  shows "(if toLowerCase rt term \<noteq> []
            \<and> \<not> str_includes (toLowerCase rt (title c)) (toLowerCase rt term)
          then False else passesRatingDuration th cat c)
         = ((term = [] \<or> contains_ci rt (title c) term)
            \<and> (case th of None \<Rightarrow> True | Some t \<Rightarrow> if t > 0 then rating c \<ge> t else True)
            \<and> in_bucket cat (weeks c))"
proof -
  have search: "(\<not> (toLowerCase rt term \<noteq> []
            \<and> \<not> str_includes (toLowerCase rt (title c)) (toLowerCase rt term)))
         = (term = [] \<or> contains_ci rt (title c) term)"
    using assms by (auto simp: contains_ci_def)
  show ?thesis
    unfolding passesRatingDuration_spec if_False_conj
    by (simp only: search)
qed

lemma listing_arrange:
  "(S \<and> T \<and> D \<and> O' \<and> L \<and> R \<and> K) = ((S \<and> R \<and> K) \<and> (D \<and> O' \<and> L \<and> T))"
  "(S \<and> T \<and> D \<and> O' \<and> L \<and> R \<and> K) = ((S \<and> R \<and> K) \<and> (T \<and> O' \<and> L \<and> D))"
  "(S \<and> T \<and> D \<and> O' \<and> L \<and> R \<and> K) = ((S \<and> R \<and> K) \<and> (T \<and> D \<and> L \<and> O'))"
  "(S \<and> T \<and> D \<and> O' \<and> L \<and> R \<and> K) = ((S \<and> R \<and> K) \<and> (T \<and> D \<and> O' \<and> L))"
  by blast+

lemma insert_member_part:
  assumes "set sel' = insert v (set sel)"
  shows "(sel' = [] \<or> (x::jsstring) \<in> set sel') = (x = v \<or> x \<in> set sel)"
proof -
  have "set sel' \<noteq> {}" unfolding assms by simp
  then have "sel' \<noteq> []" by simp
  moreover have "(x \<in> set sel') = (x = v \<or> x \<in> set sel)" unfolding assms by simp
  ultimately show ?thesis by simp
qed

lemma insert_overlap_part:
  assumes "set sel' = insert v (set sel)"
  shows "(sel' = [] \<or> overlaps xs sel') = (v \<in> set xs \<or> some_in xs sel)"
proof -
  have "set sel' \<noteq> {}" unfolding assms by simp
  then have "sel' \<noteq> []" by simp
  moreover have "overlaps xs sel' = (v \<in> set xs \<or> some_in xs sel)"
    unfolding overlaps_def some_in_def list_ex_iff assms by blast
  ultimately show ?thesis by simp
qed

lemma listing_pass_also_track:
  assumes lower: "toLowerCase rt [] = []" and ins: "set trks' = insert v (set trks)"
  shows "listing_pass rt term trks' dmns tols lvls th cat c
     = ((if toLowerCase rt term \<noteq> []
                \<and> \<not> str_includes (toLowerCase rt (title c)) (toLowerCase rt term)
            then False else passesRatingDuration th cat c)
        \<and> (\<not> (length dmns > 0 \<and> \<not> some_in (domains c) dmns)
         \<and> \<not> (length tols > 0 \<and> \<not> some_in (tools c) tols)
         \<and> \<not> (length lvls > 0 \<and> level c \<notin> set lvls)
         \<and> (track c = v \<or> track c \<in> set trks)))"
  unfolding listing_pass_def base_part [OF lower] multi_part overlap_part
    insert_member_part [OF ins]
  by (rule listing_arrange(1))

lemma listing_pass_also_domain:
  assumes lower: "toLowerCase rt [] = []" and ins: "set dmns' = insert v (set dmns)"
  shows "listing_pass rt term trks dmns' tols lvls th cat c
     = ((if toLowerCase rt term \<noteq> []
                \<and> \<not> str_includes (toLowerCase rt (title c)) (toLowerCase rt term)
            then False else passesRatingDuration th cat c)
        \<and> (\<not> (length trks > 0 \<and> track c \<notin> set trks)
         \<and> \<not> (length tols > 0 \<and> \<not> some_in (tools c) tols)
         \<and> \<not> (length lvls > 0 \<and> level c \<notin> set lvls)
         \<and> (v \<in> set (domains c) \<or> some_in (domains c) dmns)))"
  unfolding listing_pass_def base_part [OF lower] multi_part overlap_part
    insert_overlap_part [OF ins]
  by (rule listing_arrange(2))

lemma listing_pass_also_tool:
  assumes lower: "toLowerCase rt [] = []" and ins: "set tols' = insert v (set tols)"
  shows "listing_pass rt term trks dmns tols' lvls th cat c
     = ((if toLowerCase rt term \<noteq> []
                \<and> \<not> str_includes (toLowerCase rt (title c)) (toLowerCase rt term)
            then False else passesRatingDuration th cat c)
        \<and> (\<not> (length trks > 0 \<and> track c \<notin> set trks)
         \<and> \<not> (length dmns > 0 \<and> \<not> some_in (domains c) dmns)
         \<and> \<not> (length lvls > 0 \<and> level c \<notin> set lvls)
         \<and> (v \<in> set (tools c) \<or> some_in (tools c) tols)))"
  unfolding listing_pass_def base_part [OF lower] multi_part overlap_part
    insert_overlap_part [OF ins]
  by (rule listing_arrange(3))

lemma listing_pass_also_level:
  assumes lower: "toLowerCase rt [] = []" and ins: "set lvls' = insert v (set lvls)"
  shows "listing_pass rt term trks dmns tols lvls' th cat c
     = ((if toLowerCase rt term \<noteq> []
                \<and> \<not> str_includes (toLowerCase rt (title c)) (toLowerCase rt term)
            then False else passesRatingDuration th cat c)
        \<and> (\<not> (length trks > 0 \<and> track c \<notin> set trks)
         \<and> \<not> (length dmns > 0 \<and> \<not> some_in (domains c) dmns)
         \<and> \<not> (length tols > 0 \<and> \<not> some_in (tools c) tols)
         \<and> (level c = v \<or> level c \<in> set lvls)))"
  unfolding listing_pass_def base_part [OF lower] multi_part overlap_part
    insert_member_part [OF ins]
  by (rule listing_arrange(4))

lemma listing_update_fields [simp]:
  "ratingThresholdOf rt (s\<lparr>trackFilter := x\<rparr>) = ratingThresholdOf rt s"
  "ratingThresholdOf rt (s\<lparr>domainFilter := x\<rparr>) = ratingThresholdOf rt s"
  "ratingThresholdOf rt (s\<lparr>toolFilter := x\<rparr>) = ratingThresholdOf rt s"
  "ratingThresholdOf rt (s\<lparr>levelFilter := x\<rparr>) = ratingThresholdOf rt s"
  "durationCategoryOf (s\<lparr>trackFilter := x\<rparr>) = durationCategoryOf s"
  "durationCategoryOf (s\<lparr>domainFilter := x\<rparr>) = durationCategoryOf s"
  "durationCategoryOf (s\<lparr>toolFilter := x\<rparr>) = durationCategoryOf s"
  "durationCategoryOf (s\<lparr>levelFilter := x\<rparr>) = durationCategoryOf s"
  by (simp_all add: ratingThresholdOf_def durationCategoryOf_def)

lemma would_match_listing_track:
  assumes lower: "toLowerCase rt [] = []"
    and v: "v \<in> opt_value ` set (trackFilter s)" "v \<noteq> []"
  shows "countByTrack
       (filter (\<lambda>c. (if toLowerCase rt (trim rt (searchInput s)) \<noteq> []
                       \<and> \<not> str_includes (toLowerCase rt (title c))
                             (toLowerCase rt (trim rt (searchInput s)))
                    then False
                    else passesRatingDuration (ratingThresholdOf rt s) (durationCategoryOf s) c))
          (courses_array s))
       (selectedValues (trackFilter s)) (selectedValues (domainFilter s))
       (selectedValues (toolFilter s)) (selectedValues (levelFilter s)) v
     = would_match_listing rt s Track v"
proof -
  have m: "listing_match rt (pick_also Track v s)
        = (\<lambda>c. (if toLowerCase rt (trim rt (searchInput s)) \<noteq> []
                       \<and> \<not> str_includes (toLowerCase rt (title c))
                             (toLowerCase rt (trim rt (searchInput s)))
                    then False
                    else passesRatingDuration (ratingThresholdOf rt s) (durationCategoryOf s) c)
             \<and> (\<not> (length (selectedValues (domainFilter s)) > 0
                \<and> \<not> some_in (domains c) (selectedValues (domainFilter s)))
            \<and> \<not> (length (selectedValues (toolFilter s)) > 0
                \<and> \<not> some_in (tools c) (selectedValues (toolFilter s)))
            \<and> \<not> (length (selectedValues (levelFilter s)) > 0
                \<and> level c \<notin> set (selectedValues (levelFilter s)))
            \<and> (track c = v \<or> track c \<in> set (selectedValues (trackFilter s)))))"
    unfolding listing_match_def
    by (intro ext)
       (simp add: listing_pass_also_track [OF lower selectedValues_select_also [OF v]])
  show ?thesis
    unfolding would_match_listing_def countByTrack_eq filter_filter m courses_array_pick_also
    by (rule refl)
qed

lemma would_match_listing_domain:
  assumes lower: "toLowerCase rt [] = []"
    and v: "v \<in> opt_value ` set (domainFilter s)" "v \<noteq> []"
  shows "countByDomain
       (filter (\<lambda>c. (if toLowerCase rt (trim rt (searchInput s)) \<noteq> []
                       \<and> \<not> str_includes (toLowerCase rt (title c))
                             (toLowerCase rt (trim rt (searchInput s)))
                    then False
                    else passesRatingDuration (ratingThresholdOf rt s) (durationCategoryOf s) c))
          (courses_array s))
       (selectedValues (trackFilter s)) (selectedValues (domainFilter s))
       (selectedValues (toolFilter s)) (selectedValues (levelFilter s)) v
     = would_match_listing rt s Domain v"
proof -
  have m: "listing_match rt (pick_also Domain v s)
        = (\<lambda>c. (if toLowerCase rt (trim rt (searchInput s)) \<noteq> []
                       \<and> \<not> str_includes (toLowerCase rt (title c))
                             (toLowerCase rt (trim rt (searchInput s)))
                    then False
                    else passesRatingDuration (ratingThresholdOf rt s) (durationCategoryOf s) c)
             \<and> (\<not> (length (selectedValues (trackFilter s)) > 0
                \<and> track c \<notin> set (selectedValues (trackFilter s)))
            \<and> \<not> (length (selectedValues (toolFilter s)) > 0
                \<and> \<not> some_in (tools c) (selectedValues (toolFilter s)))
            \<and> \<not> (length (selectedValues (levelFilter s)) > 0
                \<and> level c \<notin> set (selectedValues (levelFilter s)))
            \<and> (v \<in> set (domains c) \<or> some_in (domains c) (selectedValues (domainFilter s)))))"
    unfolding listing_match_def
    by (intro ext)
       (simp add: listing_pass_also_domain [OF lower selectedValues_select_also [OF v]])
  show ?thesis
    unfolding would_match_listing_def countByDomain_eq filter_filter m courses_array_pick_also
    by (rule refl)
qed

lemma would_match_listing_tool:
  assumes lower: "toLowerCase rt [] = []"
    and v: "v \<in> opt_value ` set (toolFilter s)" "v \<noteq> []"
  shows "countByTool
       (filter (\<lambda>c. (if toLowerCase rt (trim rt (searchInput s)) \<noteq> []
                       \<and> \<not> str_includes (toLowerCase rt (title c))
                             (toLowerCase rt (trim rt (searchInput s)))
                    then False
                    else passesRatingDuration (ratingThresholdOf rt s) (durationCategoryOf s) c))
          (courses_array s))
       (selectedValues (trackFilter s)) (selectedValues (domainFilter s))
       (selectedValues (toolFilter s)) (selectedValues (levelFilter s)) v
     = would_match_listing rt s Tool v"
proof -
  have m: "listing_match rt (pick_also Tool v s)
        = (\<lambda>c. (if toLowerCase rt (trim rt (searchInput s)) \<noteq> []
                       \<and> \<not> str_includes (toLowerCase rt (title c))
                             (toLowerCase rt (trim rt (searchInput s)))
                    then False
                    else passesRatingDuration (ratingThresholdOf rt s) (durationCategoryOf s) c)
             \<and> (\<not> (length (selectedValues (trackFilter s)) > 0
                \<and> track c \<notin> set (selectedValues (trackFilter s)))
            \<and> \<not> (length (selectedValues (domainFilter s)) > 0
                \<and> \<not> some_in (domains c) (selectedValues (domainFilter s)))
            \<and> \<not> (length (selectedValues (levelFilter s)) > 0
                \<and> level c \<notin> set (selectedValues (levelFilter s)))
            \<and> (v \<in> set (tools c) \<or> some_in (tools c) (selectedValues (toolFilter s)))))"
    unfolding listing_match_def
    by (intro ext)
       (simp add: listing_pass_also_tool [OF lower selectedValues_select_also [OF v]])
  show ?thesis
    unfolding would_match_listing_def countByTool_eq filter_filter m courses_array_pick_also
    by (rule refl)
qed

lemma would_match_listing_level:
  assumes lower: "toLowerCase rt [] = []"
    and v: "v \<in> opt_value ` set (levelFilter s)" "v \<noteq> []"
  shows "countByLevel
       (filter (\<lambda>c. (if toLowerCase rt (trim rt (searchInput s)) \<noteq> []
                       \<and> \<not> str_includes (toLowerCase rt (title c))
                             (toLowerCase rt (trim rt (searchInput s)))
                    then False
                    else passesRatingDuration (ratingThresholdOf rt s) (durationCategoryOf s) c))
          (courses_array s))
       (selectedValues (trackFilter s)) (selectedValues (domainFilter s))
       (selectedValues (toolFilter s)) (selectedValues (levelFilter s)) v
     = would_match_listing rt s Level v"
proof -
  have m: "listing_match rt (pick_also Level v s)
        = (\<lambda>c. (if toLowerCase rt (trim rt (searchInput s)) \<noteq> []
                       \<and> \<not> str_includes (toLowerCase rt (title c))
                             (toLowerCase rt (trim rt (searchInput s)))
                    then False
                    else passesRatingDuration (ratingThresholdOf rt s) (durationCategoryOf s) c)
             \<and> (\<not> (length (selectedValues (trackFilter s)) > 0
                \<and> track c \<notin> set (selectedValues (trackFilter s)))
            \<and> \<not> (length (selectedValues (domainFilter s)) > 0
                \<and> \<not> some_in (domains c) (selectedValues (domainFilter s)))
            \<and> \<not> (length (selectedValues (toolFilter s)) > 0
                \<and> \<not> some_in (tools c) (selectedValues (toolFilter s)))
            \<and> (level c = v \<or> level c \<in> set (selectedValues (levelFilter s)))))"
    unfolding listing_match_def
    by (intro ext)
       (simp add: listing_pass_also_level [OF lower selectedValues_select_also [OF v]])
  show ?thesis
    unfolding would_match_listing_def countByLevel_eq filter_filter m courses_array_pick_also
    by (rule refl)
qed

lemma updateFilterCounts_listing_nonempty:
  assumes "courses_array s \<noteq> []"
  shows "trackFilter (updateFilterCounts_listing rt s) =
          map (updateOption (lit ''All Tracks'')
                (countByTrack
                  (filter (\<lambda>c. if toLowerCase rt (trim rt (searchInput s)) \<noteq> []
                       \<and> \<not> str_includes (toLowerCase rt (title c))
                             (toLowerCase rt (trim rt (searchInput s)))
                    then False
                    else passesRatingDuration (ratingThresholdOf rt s) (durationCategoryOf s) c)
                    (courses_array s))
                  (selectedValues (trackFilter s)) (selectedValues (domainFilter s))
                  (selectedValues (toolFilter s)) (selectedValues (levelFilter s))))
              (trackFilter s)"
    and "domainFilter (updateFilterCounts_listing rt s) =
          map (updateOption (lit ''All Domains'')
                (countByDomain
                  (filter (\<lambda>c. if toLowerCase rt (trim rt (searchInput s)) \<noteq> []
                       \<and> \<not> str_includes (toLowerCase rt (title c))
                             (toLowerCase rt (trim rt (searchInput s)))
                    then False
                    else passesRatingDuration (ratingThresholdOf rt s) (durationCategoryOf s) c)
                    (courses_array s))
                  (selectedValues (trackFilter s)) (selectedValues (domainFilter s))
                  (selectedValues (toolFilter s)) (selectedValues (levelFilter s))))
              (domainFilter s)"
    and "toolFilter (updateFilterCounts_listing rt s) =
          map (updateOption (lit ''All Tools'')
                (countByTool
                  (filter (\<lambda>c. if toLowerCase rt (trim rt (searchInput s)) \<noteq> []
                       \<and> \<not> str_includes (toLowerCase rt (title c))
                             (toLowerCase rt (trim rt (searchInput s)))
                    then False
                    else passesRatingDuration (ratingThresholdOf rt s) (durationCategoryOf s) c)
                    (courses_array s))
                  (selectedValues (trackFilter s)) (selectedValues (domainFilter s))
                  (selectedValues (toolFilter s)) (selectedValues (levelFilter s))))
              (toolFilter s)"
    and "levelFilter (updateFilterCounts_listing rt s) =
          map (updateOption (lit ''All Levels'')
                (countByLevel
                  (filter (\<lambda>c. if toLowerCase rt (trim rt (searchInput s)) \<noteq> []
                       \<and> \<not> str_includes (toLowerCase rt (title c))
                             (toLowerCase rt (trim rt (searchInput s)))
                    then False
                    else passesRatingDuration (ratingThresholdOf rt s) (durationCategoryOf s) c)
                    (courses_array s))
                  (selectedValues (trackFilter s)) (selectedValues (domainFilter s))
                  (selectedValues (toolFilter s)) (selectedValues (levelFilter s))))
              (levelFilter s)"
  using assms by (simp_all add: updateFilterCounts_listing_def courses_array_def Let_def)

lemma updateFilterCounts_listing_labelled:
  assumes ne: "courses_array s \<noteq> []" and lower: "toLowerCase rt [] = []"
  shows "trackFilter (updateFilterCounts_listing rt s)
           = map (labelled (lit ''All Tracks'') (would_match_listing rt s Track)) (trackFilter s)"
    and "domainFilter (updateFilterCounts_listing rt s)
           = map (labelled (lit ''All Domains'') (would_match_listing rt s Domain))
               (domainFilter s)"
    and "toolFilter (updateFilterCounts_listing rt s)
           = map (labelled (lit ''All Tools'') (would_match_listing rt s Tool)) (toolFilter s)"
    and "levelFilter (updateFilterCounts_listing rt s)
           = map (labelled (lit ''All Levels'') (would_match_listing rt s Level)) (levelFilter s)"
proof -
  show "trackFilter (updateFilterCounts_listing rt s)
           = map (labelled (lit ''All Tracks'') (would_match_listing rt s Track)) (trackFilter s)"
    unfolding updateFilterCounts_listing_nonempty(1) [OF ne]
    by (rule map_updateOption_labelled) (rule would_match_listing_track [OF lower])
  show "domainFilter (updateFilterCounts_listing rt s)
           = map (labelled (lit ''All Domains'') (would_match_listing rt s Domain))
               (domainFilter s)"
    unfolding updateFilterCounts_listing_nonempty(2) [OF ne]
    by (rule map_updateOption_labelled) (rule would_match_listing_domain [OF lower])
  show "toolFilter (updateFilterCounts_listing rt s)
           = map (labelled (lit ''All Tools'') (would_match_listing rt s Tool)) (toolFilter s)"
    unfolding updateFilterCounts_listing_nonempty(3) [OF ne]
    by (rule map_updateOption_labelled) (rule would_match_listing_tool [OF lower])
  show "levelFilter (updateFilterCounts_listing rt s)
           = map (labelled (lit ''All Levels'') (would_match_listing rt s Level)) (levelFilter s)"
    unfolding updateFilterCounts_listing_nonempty(4) [OF ne]
    by (rule map_updateOption_labelled) (rule would_match_listing_level [OF lower])
qed

text \<open>
  Claim C1, amended. When the course array is not empty, \<open>updateFilterCounts\<close> leaves
  every option of the track, domain, tool and level selects as follows: the option
  without a value carries its "All" label and is enabled; every other option carries its
  value followed by a count in parentheses and is disabled exactly when that count is
  zero. The count is the number of courses that \<open>applyFilters\<close> would keep (search term,
  the other facets and, on the listing page, the rating threshold and the duration
  bucket) if the option were selected: in place of the select's value on the home page,
  in addition to the options already selected on the listing page. When the course array
  is empty, \<open>updateFilterCounts\<close> returns the page as it is: no label and no disabled flag
  changes.
\<close>

theorem updateFilterCounts_counts:
  assumes "toLowerCase rt [] = []"
  shows "(courses_array s \<noteq> [] \<longrightarrow>
          trackFilter (updateFilterCounts rt s)
            = map (labelled (lit ''All Tracks'') (would_match rt s Track)) (trackFilter s)
          \<and> domainFilter (updateFilterCounts rt s)
            = map (labelled (lit ''All Domains'') (would_match rt s Domain)) (domainFilter s)
          \<and> toolFilter (updateFilterCounts rt s)
            = map (labelled (lit ''All Tools'') (would_match rt s Tool)) (toolFilter s)
          \<and> levelFilter (updateFilterCounts rt s)
            = map (labelled (lit ''All Levels'') (would_match rt s Level)) (levelFilter s)
          \<and> trackFilter (updateFilterCounts_listing rt s)
            = map (labelled (lit ''All Tracks'') (would_match_listing rt s Track))
                (trackFilter s)
          \<and> domainFilter (updateFilterCounts_listing rt s)
            = map (labelled (lit ''All Domains'') (would_match_listing rt s Domain))
                (domainFilter s)
          \<and> toolFilter (updateFilterCounts_listing rt s)
            = map (labelled (lit ''All Tools'') (would_match_listing rt s Tool))
                (toolFilter s)
          \<and> levelFilter (updateFilterCounts_listing rt s)
            = map (labelled (lit ''All Levels'') (would_match_listing rt s Level))
                (levelFilter s))
       \<and> (courses_array s = [] \<longrightarrow>
          updateFilterCounts rt s = s \<and> updateFilterCounts_listing rt s = s)"
proof (rule conjI; rule impI)
  assume ne: "courses_array s \<noteq> []"
  show "trackFilter (updateFilterCounts rt s)
            = map (labelled (lit ''All Tracks'') (would_match rt s Track)) (trackFilter s)
          \<and> domainFilter (updateFilterCounts rt s)
            = map (labelled (lit ''All Domains'') (would_match rt s Domain)) (domainFilter s)
          \<and> toolFilter (updateFilterCounts rt s)
            = map (labelled (lit ''All Tools'') (would_match rt s Tool)) (toolFilter s)
          \<and> levelFilter (updateFilterCounts rt s)
            = map (labelled (lit ''All Levels'') (would_match rt s Level)) (levelFilter s)
          \<and> trackFilter (updateFilterCounts_listing rt s)
            = map (labelled (lit ''All Tracks'') (would_match_listing rt s Track))
                (trackFilter s)
          \<and> domainFilter (updateFilterCounts_listing rt s)
            = map (labelled (lit ''All Domains'') (would_match_listing rt s Domain))
                (domainFilter s)
          \<and> toolFilter (updateFilterCounts_listing rt s)
            = map (labelled (lit ''All Tools'') (would_match_listing rt s Tool))
                (toolFilter s)
          \<and> levelFilter (updateFilterCounts_listing rt s)
            = map (labelled (lit ''All Levels'') (would_match_listing rt s Level))
                (levelFilter s)"
    using updateFilterCounts_labelled [OF ne assms]
      updateFilterCounts_listing_labelled [OF ne assms]
    by (intro conjI)
next
  assume "courses_array s = []"
  then show "updateFilterCounts rt s = s \<and> updateFilterCounts_listing rt s = s"
    by (simp add: updateFilterCounts_def updateFilterCounts_listing_def courses_array_def)
qed

text \<open>
  On the example page, with the search term \<open>ai\<close>, the track \<open>AI\<close> and the rating 4
  selected, and on the same page without courses.
\<close>

theorem updateFilterCounts_counts_witness:
  "toLowerCase ascii_runtime [] = []
   \<and> courses_array example_page \<noteq> []
   \<and> map opt_text (trackFilter (updateFilterCounts ascii_runtime example_page))
       = map lit [''All Tracks'', ''AI (2)'', ''QC (0)'']
   \<and> map opt_disabled (trackFilter (updateFilterCounts ascii_runtime example_page))
       = [False, False, True]
   \<and> map opt_text (trackFilter (updateFilterCounts_listing ascii_runtime example_page))
       = map lit [''All Tracks'', ''AI (2)'', ''QC (2)'']
   \<and> map opt_disabled (domainFilter (updateFilterCounts_listing ascii_runtime example_page))
       = [False, False, False, True]
   \<and> courses_array no_courses_page = []
   \<and> updateFilterCounts ascii_runtime no_courses_page = no_courses_page
   \<and> updateFilterCounts_listing ascii_runtime no_courses_page = no_courses_page"
proof -
  have h1: "courses_array example_page \<noteq> []"
    by (simp add: example_courses_array example_courses_def)
  have h2: "toLowerCase ascii_runtime [] = []"
    by (simp add: ascii_runtime_def)
  have h3: "courses_array no_courses_page = []"
    by code_simp
  note inst = mp [OF conjunct1 [OF updateFilterCounts_counts [OF h2]] h1]
  note none = mp [OF conjunct2 [OF updateFilterCounts_counts [OF h2]] h3]
  have a: "map opt_text (map (labelled (lit ''All Tracks'')
              (would_match ascii_runtime example_page Track)) (trackFilter example_page))
           = map lit [''All Tracks'', ''AI (2)'', ''QC (0)'']"
    by code_simp
  have b: "map opt_disabled (map (labelled (lit ''All Tracks'')
              (would_match ascii_runtime example_page Track)) (trackFilter example_page))
           = [False, False, True]"
    by code_simp
  have c: "map opt_text (map (labelled (lit ''All Tracks'')
              (would_match_listing ascii_runtime example_page Track)) (trackFilter example_page))
           = map lit [''All Tracks'', ''AI (2)'', ''QC (2)'']"
    by code_simp
  have d: "map opt_disabled (map (labelled (lit ''All Domains'')
              (would_match_listing ascii_runtime example_page Domain))
              (domainFilter example_page))
           = [False, False, False, True]"
    by code_simp
  show ?thesis
    using h1 h2 h3 a b c d inst none by simp
qed

text \<open>
  Claim C1 as stated fails in two ways. When the course array is empty,
  \<open>updateFilterCounts\<close> returns at once, so the level options, which are part of the page
  and not generated from the courses, keep their old labels without a count and stay
  enabled although no course would match. And on the listing page the count also leaves
  out the courses below the rating threshold or outside the duration bucket, which the
  claim does not mention: with the rating 5 selected the track \<open>AI\<close> is labelled with
  the count 1, while two courses pass the search term and the selections of the facets.
\<close>

theorem updateFilterCounts_empty_counterexample:
  "\<not> (levelFilter (updateFilterCounts ascii_runtime no_courses_page)
        = map (labelled (lit ''All Levels'') (would_match ascii_runtime no_courses_page Level))
            (levelFilter no_courses_page))
   \<and> \<not> (levelFilter (updateFilterCounts_listing ascii_runtime no_courses_page)
        = map (labelled (lit ''All Levels'')
                 (would_match_listing ascii_runtime no_courses_page Level))
            (levelFilter no_courses_page))
   \<and> map opt_text (trackFilter (updateFilterCounts_listing ascii_runtime rated_page))
       = map lit [''All Tracks'', ''AI (1)'', ''QC (1)'']
   \<and> map opt_text
        (map (labelled (lit ''All Tracks'') (would_match_facets ascii_runtime rated_page Track))
           (trackFilter rated_page))
       = map lit [''All Tracks'', ''AI (2)'', ''QC (2)'']"
  by code_simp

section \<open>Pagination\<close>

lemma slice_window:
  assumes "0 \<le> a" "a \<le> b"
  shows "slice xs a b = take (nat (b - a)) (drop (nat a) xs)"
proof (cases "a \<le> int (length xs)")
  case True
  note a_le = True
  show ?thesis
  proof (cases "b \<le> int (length xs)")
    case True
    with assms a_le show ?thesis by (simp add: slice_def Let_def min_def)
  next
    case False
    with assms a_le have "slice xs a b = take (nat (int (length xs) - a)) (drop (nat a) xs)"
      by (simp add: slice_def Let_def min_def)
    moreover have "length (drop (nat a) xs) \<le> nat (int (length xs) - a)"
      using assms by simp
    moreover have "length (drop (nat a) xs) \<le> nat (b - a)"
      using assms False by simp
    ultimately show ?thesis by simp
  qed
next
  case False
  with assms have "slice xs a b = []" "drop (nat a) xs = []"
    by (simp_all add: slice_def Let_def min_def)
  then show ?thesis by simp
qed

lemma slice_prefix:
  assumes "0 \<le> n"
  shows "slice xs 0 n = take (min (nat n) (length xs)) xs"
  using slice_window [of 0 n xs] assms by (simp add: min_def)

lemma totalPagesOf_div: "totalPagesOf n = (int n + 5) div 6"
proof -
  have "\<lceil>(of_int (int n) :: rat) / of_int 6\<rceil> = - ((- int n) div 6)"
    by (simp only: ceiling_divide_eq_div)
  then show ?thesis
    by (simp add: totalPagesOf_def coursesPerPage_def)
qed

lemma pagerItem_no_edge:
  "case pagerItem cp x of PageBtn i d \<Rightarrow> True | Ellipsis \<Rightarrow> True | _ \<Rightarrow> False"
  by (cases x) simp_all


lemma renderCourses_children:
  assumes "1 \<le> currentPage s"
  shows "children (coursesContainer (renderCourses s))
         = (if filtered_array s = [] then [NoResults]
            else map Card (take (min (nat (currentPage s) * 12) (length (filtered_array s)))
                             (filtered_array s)))"
proof -
  have "0 \<le> currentPage s * 12" using assms by simp
  then have "slice (filtered_array s) 0 (currentPage s * 12)
             = take (min (nat (currentPage s * 12)) (length (filtered_array s)))
                 (filtered_array s)"
    by (rule slice_prefix)
  moreover have "nat (currentPage s * 12) = nat (currentPage s) * 12"
    using assms by (simp add: nat_mult_distrib)
  ultimately show ?thesis
    by (simp add: renderCourses_def Let_def filtered_array_def itemsPerPage_def
        createCourseCard_def [abs_def])
qed

lemma renderCourses_loadMore:
  assumes "1 \<le> currentPage s"
  shows "loadMoreContainer (renderCourses s)
         = map_option
             (\<lambda>_. if length (filtered_array s)
                        > min (nat (currentPage s) * 12) (length (filtered_array s))
                   then [LoadMoreBtn] else [])
             (loadMoreContainer s)"
proof -
  have "0 \<le> currentPage s * 12" using assms by simp
  then have "slice (filtered_array s) 0 (currentPage s * 12)
             = take (min (nat (currentPage s * 12)) (length (filtered_array s)))
                 (filtered_array s)"
    by (rule slice_prefix)
  moreover have "nat (currentPage s * 12) = nat (currentPage s) * 12"
    using assms by (simp add: nat_mult_distrib)
  ultimately show ?thesis
    by (cases "loadMoreContainer s")
       (simp_all add: renderCourses_def Let_def filtered_array_def itemsPerPage_def)
qed

lemma renderCourses_listing_children:
  assumes "1 \<le> currentPage s"
  shows "children (coursesContainer (renderCourses_listing s))
         = (if filtered_array s = [] then [NoResults]
            else map Card (take 6 (drop (nat (currentPage s - 1) * 6) (filtered_array s))))"
proof -
  have "slice (filtered_array s) ((currentPage s - 1) * 6) ((currentPage s - 1) * 6 + 6)
        = take (nat ((currentPage s - 1) * 6 + 6 - (currentPage s - 1) * 6))
            (drop (nat ((currentPage s - 1) * 6)) (filtered_array s))"
    using assms by (intro slice_window) simp_all
  moreover have "nat ((currentPage s - 1) * 6) = nat (currentPage s - 1) * 6"
    using assms by (simp add: nat_mult_distrib)
  ultimately show ?thesis
    by (simp add: renderCourses_listing_def Let_def filtered_array_def coursesPerPage_def
        createCourseCard_def [abs_def])
qed

lemma renderCourses_listing_pagination:
  "paginationControls (renderCourses_listing s)
   = map_option
       (\<lambda>_. if totalPagesOf (length (filtered_array s)) \<le> 1 then []
             else [PrevBtn (currentPage s = 1)]
                  @ map (pagerItem (currentPage s))
                      (pagesToShow (totalPagesOf (length (filtered_array s))) (currentPage s))
                  @ [NextBtn (currentPage s = totalPagesOf (length (filtered_array s)))])
       (paginationControls s)"
proof (cases "paginationControls s")
  case None
  then show ?thesis
    by (simp add: renderCourses_listing_def renderPagination_def Let_def)
next
  case (Some a)
  have "totalPagesOf 0 \<le> 1" by (simp add: totalPagesOf_div)
  with Some show ?thesis
    by (simp add: renderCourses_listing_def renderPagination_def Let_def filtered_array_def)
qed

text \<open>
  Claim C7. With the current page at least 1 (it starts at 1 and the handlers only move
  it within the pages): on the home page \<open>renderCourses\<close> shows the cards of exactly the
  first min(currentPage * 12, N) of the N filtered courses (the "no results" paragraph
  when N is 0) and, when the page has a load-more container, puts a Load More button
  there exactly when N exceeds the number shown; a click on that button adds one to the
  current page, and \<open>applyFilters\<close>, which every filter change runs, sets it to 1. On
  the listing page \<open>renderCourses\<close> shows the filtered courses from index
  (currentPage - 1) * 6 up to currentPage * 6; the pagination controls, when the page
  has them, are filled exactly when ceil(N / 6) exceeds 1, and then the first control is
  the Prev button, disabled exactly on page 1, the last is the Next button, disabled
  exactly on page ceil(N / 6), and between them are page buttons and ellipses only.
\<close>

theorem pagination_correct:
  assumes "1 \<le> currentPage s"
  shows "children (coursesContainer (renderCourses s))
           = (if filtered_array s = [] then [NoResults]
              else map Card (take (min (nat (currentPage s) * 12) (length (filtered_array s)))
                               (filtered_array s)))
       \<and> loadMoreContainer (renderCourses s)
           = map_option
               (\<lambda>_. if length (filtered_array s)
                          > min (nat (currentPage s) * 12) (length (filtered_array s))
                     then [LoadMoreBtn] else [])
               (loadMoreContainer s)
       \<and> currentPage (click_loadMoreBtn s) = currentPage s + 1
       \<and> currentPage (applyFilters rt s) = 1
       \<and> children (coursesContainer (renderCourses_listing s))
           = (if filtered_array s = [] then [NoResults]
              else map Card (take 6 (drop (nat (currentPage s - 1) * 6) (filtered_array s))))
       \<and> (case paginationControls (renderCourses_listing s) of
            None \<Rightarrow> paginationControls s = None
          | Some items \<Rightarrow>
              paginationControls s \<noteq> None
              \<and> (items \<noteq> []) = (\<lceil>(of_nat (length (filtered_array s)) :: rat) / 6\<rceil> > 1)
              \<and> (if items = [] then True
                  else hd items = PrevBtn (currentPage s = 1)
                     \<and> last items
                         = NextBtn (currentPage s
                                    = \<lceil>(of_nat (length (filtered_array s)) :: rat) / 6\<rceil>)
                     \<and> list_all (\<lambda>x. case x of PageBtn i d \<Rightarrow> True | Ellipsis \<Rightarrow> True
                                        | _ \<Rightarrow> False)
                         (butlast (tl items))))"
proof -
  have tp: "\<lceil>(of_nat (length (filtered_array s)) :: rat) / 6\<rceil>
            = totalPagesOf (length (filtered_array s))"
    by (simp add: totalPagesOf_def coursesPerPage_def)
  have mid: "\<And>cp ps. list_all (\<lambda>x. case x of PageBtn i d \<Rightarrow> True | Ellipsis \<Rightarrow> True
                                        | _ \<Rightarrow> False) (map (pagerItem cp) ps)"
    using pagerItem_no_edge by (simp add: list_all_iff)
  have pager: "(case paginationControls (renderCourses_listing s) of
            None \<Rightarrow> paginationControls s = None
          | Some items \<Rightarrow>
              paginationControls s \<noteq> None
              \<and> (items \<noteq> []) = (totalPagesOf (length (filtered_array s)) > 1)
              \<and> (if items = [] then True
                  else hd items = PrevBtn (currentPage s = 1)
                     \<and> last items
                         = NextBtn (currentPage s = totalPagesOf (length (filtered_array s)))
                     \<and> list_all (\<lambda>x. case x of PageBtn i d \<Rightarrow> True | Ellipsis \<Rightarrow> True
                                        | _ \<Rightarrow> False)
                         (butlast (tl items))))"
    unfolding renderCourses_listing_pagination
    by (cases "paginationControls s") (simp_all add: mid butlast_append)
  have click: "currentPage (click_loadMoreBtn s) = currentPage s + 1"
    by (simp add: click_loadMoreBtn_def)
  show ?thesis
    unfolding tp
    using renderCourses_children [OF assms] renderCourses_loadMore [OF assms]
      renderCourses_listing_children [OF assms] pager click applyFilters_heap(4) [of rt s]
    by (intro conjI)
qed

theorem pagination_correct_witness:
  "1 \<le> currentPage many_page
   \<and> loadMoreContainer (renderCourses many_page) = Some []
   \<and> loadMoreContainer (renderCourses (many_page\<lparr>currentPage := 1\<rparr>)) = Some [LoadMoreBtn]
   \<and> length (children (coursesContainer (renderCourses (many_page\<lparr>currentPage := 1\<rparr>)))) = 12
   \<and> children (coursesContainer (renderCourses_listing many_page))
       = map Card (example_courses @ example_courses)"
proof -
  have h: "1 \<le> currentPage many_page" "1 \<le> currentPage (many_page\<lparr>currentPage := 1\<rparr>)"
    by (simp_all add: many_page_def)
  have fa: "filtered_array many_page = concat (replicate 5 example_courses)"
    "filtered_array (many_page\<lparr>currentPage := 1\<rparr>) = concat (replicate 5 example_courses)"
    by (simp_all add: many_page_def example_page_def filtered_array_def deref_def)
  have len: "length (concat (replicate 5 example_courses)) = 15"
    by code_simp
  have win: "take 6 (drop 6 (concat (replicate 5 example_courses)))
             = example_courses @ example_courses"
    by code_simp
  have ne: "example_courses \<noteq> []"
    by (simp add: example_courses_def)
  have lm: "loadMoreContainer many_page = Some []" "currentPage many_page = 2"
    by (simp_all add: many_page_def example_page_def)
  show ?thesis
    using h pagination_correct [OF h(1), of ascii_runtime]
      pagination_correct [OF h(2), of ascii_runtime]
    by (simp add: fa len win ne lm)
qed

section \<open>Active filter chips\<close>

lemma type_lits_distinct:
  "lit ''search'' \<noteq> lit ''track''" "lit ''search'' \<noteq> lit ''domain''"
  "lit ''search'' \<noteq> lit ''tool''" "lit ''search'' \<noteq> lit ''level''"
  "lit ''search'' \<noteq> lit ''rating''" "lit ''search'' \<noteq> lit ''duration''"
  "lit ''track'' \<noteq> lit ''domain''" "lit ''track'' \<noteq> lit ''tool''"
  "lit ''track'' \<noteq> lit ''level''" "lit ''track'' \<noteq> lit ''rating''"
  "lit ''track'' \<noteq> lit ''duration''" "lit ''domain'' \<noteq> lit ''tool''"
  "lit ''domain'' \<noteq> lit ''level''" "lit ''domain'' \<noteq> lit ''rating''"
  "lit ''domain'' \<noteq> lit ''duration''" "lit ''tool'' \<noteq> lit ''level''"
  "lit ''tool'' \<noteq> lit ''rating''" "lit ''tool'' \<noteq> lit ''duration''"
  "lit ''level'' \<noteq> lit ''rating''" "lit ''level'' \<noteq> lit ''duration''"
  "lit ''rating'' \<noteq> lit ''duration''"
  by (simp_all add: lit_def)

lemmas type_lits = type_lits_distinct type_lits_distinct [symmetric]

lemma chip_label_plain:
  "chip_label (lit ''search'') v = v" "chip_label (lit ''track'') v = v"
  "chip_label (lit ''domain'') v = v" "chip_label (lit ''tool'') v = v"
  "chip_label (lit ''level'') v = v"
  "chip_label (lit ''rating'') v = ratingLabel v"
  "chip_label (lit ''duration'') v = durLabel v"
  by (simp_all add: chip_label_def type_lits)

lemma chips_entry:
  "map chip_for (entry (lit ''search'') v)
     = (if v \<noteq> [] then [createChip v (lit ''search'') v] else [])"
  "map chip_for (entry (lit ''track'') v)
     = (if v \<noteq> [] then [createChip v (lit ''track'') v] else [])"
  "map chip_for (entry (lit ''domain'') v)
     = (if v \<noteq> [] then [createChip v (lit ''domain'') v] else [])"
  "map chip_for (entry (lit ''tool'') v)
     = (if v \<noteq> [] then [createChip v (lit ''tool'') v] else [])"
  "map chip_for (entry (lit ''level'') v)
     = (if v \<noteq> [] then [createChip v (lit ''level'') v] else [])"
  by (simp_all add: entry_def chip_for_def createChip_def chip_label_plain)

lemma chips_pairs:
  "chip_for \<circ> Pair (lit ''track'') = (\<lambda>t. Chip t (lit ''track'') t)"
  "chip_for \<circ> Pair (lit ''domain'') = (\<lambda>t. Chip t (lit ''domain'') t)"
  "chip_for \<circ> Pair (lit ''tool'') = (\<lambda>t. Chip t (lit ''tool'') t)"
  "chip_for \<circ> Pair (lit ''level'') = (\<lambda>t. Chip t (lit ''level'') t)"
  by (simp_all add: chip_for_def chip_label_plain fun_eq_iff)

lemma withClearAll_chips_for: "withClearAll (map chip_for sels) = chips_for sels"
  by (simp add: withClearAll_def chips_for_def)

lemma updateActiveFilters_chips:
  "activeFiltersDiv (updateActiveFilters rt s)
   = map_option (\<lambda>_. chips_for (active_home rt s)) (activeFiltersDiv s)"
proof (cases "activeFiltersDiv s")
  case None
  then show ?thesis by (simp add: updateActiveFilters_def)
next
  case (Some a)
  have "activeFiltersDiv (updateActiveFilters rt s)
        = Some (withClearAll (map chip_for (active_home rt s)))"
    using Some
    by (simp add: updateActiveFilters_def Let_def active_home_def chips_entry)
  with Some show ?thesis by (simp add: withClearAll_chips_for)
qed

lemma updateActiveFilters_listing_chips:
  "activeFiltersDiv (updateActiveFilters_listing rt s)
   = map_option (\<lambda>_. chips_for (active_listing rt s)) (activeFiltersDiv s)"
proof (cases "activeFiltersDiv s")
  case None
  then show ?thesis by (simp add: updateActiveFilters_listing_def)
next
  case (Some a)
  have "activeFiltersDiv (updateActiveFilters_listing rt s)
        = Some (withClearAll (map chip_for (active_listing rt s)))"
    using Some
    by (simp add: updateActiveFilters_listing_def Let_def active_listing_def chips_entry
        chips_pairs ratingValueOf_def durationCategoryOf_def chip_for_def createChip_def
        chip_label_plain)
  with Some show ?thesis by (simp add: withClearAll_chips_for)
qed

lemma updateOption_keeps [simp]:
  "opt_value (updateOption a f x) = opt_value x"
  "opt_selected (updateOption a f x) = opt_selected x"
  by (simp_all add: updateOption_def Let_def)

lemma selectedValues_updateOption [simp]:
  "selectedValues (map (updateOption a f) sel) = selectedValues sel"
  by (induction sel) (simp_all add: selectedValues_Cons)

lemma select_value_first:
  "select_value sel = (case filter opt_selected sel of [] \<Rightarrow> [] | x # _ \<Rightarrow> opt_value x)"
  by (simp add: select_value_def selectedOptions_def)

lemma select_value_Cons:
  "select_value (x # xs) = (if opt_selected x then opt_value x else select_value xs)"
  by (simp add: select_value_def selectedOptions_def)

lemma select_value_updateOption [simp]:
  "select_value (map (updateOption a f) sel) = select_value sel"
  by (induction sel) (simp_all add: select_value_Cons)


lemma select_first_none:
  "\<forall>x\<in>set sel. \<not> opt_selected x \<Longrightarrow> select_value (select_first v sel) = v
     \<or> select_value (select_first v sel) = []"
proof (induction sel)
  case Nil
  then show ?case by (simp add: select_value_def selectedOptions_def)
next
  case (Cons x xs)
  then show ?case by (simp add: select_value_Cons)
qed

lemma select_value_set_cases:
  "select_value (set_select_value v sel) = v \<or> select_value (set_select_value v sel) = []"
  unfolding set_select_value_def by (rule select_first_none) simp

lemma select_value_set_empty [simp]: "select_value (set_select_value [] sel) = []"
  using select_value_set_cases [of "[]" sel] by simp

lemma selectedValues_Nil [simp]: "selectedValues [] = []"
  by (simp add: selectedValues_def selectedOptions_def)

lemma selectedValues_deselect:
  "selectedValues (deselect_value v sel) = removeAll v (selectedValues sel)"
  by (induction sel) (simp_all add: selectedValues_Cons deselect_value_def)

lemma updateFilterCounts_values [simp]:
  "select_value (trackFilter (updateFilterCounts rt s)) = select_value (trackFilter s)"
  "select_value (domainFilter (updateFilterCounts rt s)) = select_value (domainFilter s)"
  "select_value (toolFilter (updateFilterCounts rt s)) = select_value (toolFilter s)"
  "select_value (levelFilter (updateFilterCounts rt s)) = select_value (levelFilter s)"
  by (simp_all add: updateFilterCounts_def Let_def)

lemma updateFilterCounts_listing_values [simp]:
  "selectedValues (trackFilter (updateFilterCounts_listing rt s)) = selectedValues (trackFilter s)"
  "selectedValues (domainFilter (updateFilterCounts_listing rt s))
     = selectedValues (domainFilter s)"
  "selectedValues (toolFilter (updateFilterCounts_listing rt s)) = selectedValues (toolFilter s)"
  "selectedValues (levelFilter (updateFilterCounts_listing rt s))
     = selectedValues (levelFilter s)"
  by (simp_all add: updateFilterCounts_listing_def Let_def)


lemma applyFilters_decomp:
  "\<exists>h a. applyFilters rt c
     = updateActiveFilters rt (updateFilterCounts rt
         (renderCourses (c\<lparr>heap := h, filteredCourses := a, currentPage := 1\<rparr>)))"
  by (simp add: applyFilters_def Let_def split: prod.splits) blast

lemma applyFilters_listing_decomp:
  "\<exists>h a. applyFilters_listing rt c
     = updateActiveFilters_listing rt (updateFilterCounts_listing rt
         (renderCourses_listing (c\<lparr>heap := h, filteredCourses := a, currentPage := 1\<rparr>)))"
  by (simp add: applyFilters_listing_def Let_def split: prod.splits) blast


lemma applyFilters_controls [simp]:
  "searchInput (applyFilters rt c) = searchInput c"
  "select_value (trackFilter (applyFilters rt c)) = select_value (trackFilter c)"
  "select_value (domainFilter (applyFilters rt c)) = select_value (domainFilter c)"
  "select_value (toolFilter (applyFilters rt c)) = select_value (toolFilter c)"
  "select_value (levelFilter (applyFilters rt c)) = select_value (levelFilter c)"
  using applyFilters_decomp [of rt c] by auto

lemma select_values_skip [simp]:
  "ratingFilter (updateFilterCounts_listing rt s) = ratingFilter s"
  "durationFilter (updateFilterCounts_listing rt s) = durationFilter s"
  by simp_all

lemma applyFilters_listing_controls [simp]:
  "searchInput (applyFilters_listing rt c) = searchInput c"
  "selectedValues (trackFilter (applyFilters_listing rt c)) = selectedValues (trackFilter c)"
  "selectedValues (domainFilter (applyFilters_listing rt c)) = selectedValues (domainFilter c)"
  "selectedValues (toolFilter (applyFilters_listing rt c)) = selectedValues (toolFilter c)"
  "selectedValues (levelFilter (applyFilters_listing rt c)) = selectedValues (levelFilter c)"
  "ratingFilter (applyFilters_listing rt c) = ratingFilter c"
  "durationFilter (applyFilters_listing rt c) = durationFilter c"
  using applyFilters_listing_decomp [of rt c] by auto

lemma active_home_applyFilters [simp]:
  "active_home rt (applyFilters rt c) = active_home rt c"
  by (simp add: active_home_def)

lemma active_listing_applyFilters [simp]:
  "active_listing rt (applyFilters_listing rt c) = active_listing rt c"
  by (simp add: active_listing_def ratingValueOf_def durationCategoryOf_def)

lemma removeAll_entry:
  "removeAll (t, v) (entry t' x) = (if t' = t \<and> x = v then [] else entry t' x)"
  by (simp add: entry_def)

lemma removeAll_pairs:
  "removeAll (t, v) (map (Pair t') xs)
   = (if t' = t then map (Pair t') (removeAll v xs) else map (Pair t') xs)"
  by (induction xs) auto

lemma mem_entry: "(t, v) \<in> set (entry t' x) \<longleftrightarrow> t = t' \<and> v = x \<and> x \<noteq> []"
  by (auto simp: entry_def)

lemma active_home_cases:
  assumes "(t, v) \<in> set (active_home rt s)"
  obtains (search) "t = lit ''search''" "v = trim rt (searchInput s)" "v \<noteq> []"
    | (track) "t = lit ''track''" "v = select_value (trackFilter s)" "v \<noteq> []"
    | (domain) "t = lit ''domain''" "v = select_value (domainFilter s)" "v \<noteq> []"
    | (tool) "t = lit ''tool''" "v = select_value (toolFilter s)" "v \<noteq> []"
    | (level) "t = lit ''level''" "v = select_value (levelFilter s)" "v \<noteq> []"
  using assms unfolding active_home_def set_append Un_iff mem_entry by auto

lemma removeFilter_active_home:
  assumes trim: "trim rt [] = []" and mem: "(t, v) \<in> set (active_home rt s)"
  shows "active_home rt (removeFilter rt t v s) = removeAll (t, v) (active_home rt s)"
    and "searchInput (removeFilter rt t v s) = (if t = lit ''search'' then [] else searchInput s)"
proof -
  have "active_home rt (removeFilter rt t v s) = removeAll (t, v) (active_home rt s)
      \<and> searchInput (removeFilter rt t v s)
          = (if t = lit ''search'' then [] else searchInput s)"
    using mem
  proof (cases rule: active_home_cases)
    case search
    then show ?thesis
      using trim
      by (simp add: removeFilter_def active_home_def removeAll_entry type_lits entry_def)
  next
    case track
    then show ?thesis
      by (simp add: removeFilter_def active_home_def removeAll_entry type_lits entry_def)
  next
    case domain
    then show ?thesis
      by (simp add: removeFilter_def active_home_def removeAll_entry type_lits entry_def)
  next
    case tool
    then show ?thesis
      by (simp add: removeFilter_def active_home_def removeAll_entry type_lits entry_def)
  next
    case level
    then show ?thesis
      by (simp add: removeFilter_def active_home_def removeAll_entry type_lits entry_def)
  qed
  then show "active_home rt (removeFilter rt t v s) = removeAll (t, v) (active_home rt s)"
    and "searchInput (removeFilter rt t v s) = (if t = lit ''search'' then [] else searchInput s)"
    by simp_all
qed


lemma ratingValueOf_reset:
  "ratingValueOf (s\<lparr>ratingFilter := map_option (set_select_value (lit ''0'')) (ratingFilter s)\<rparr>)
     = lit ''0''
   \<or> ratingValueOf
        (s\<lparr>ratingFilter := map_option (set_select_value (lit ''0'')) (ratingFilter s)\<rparr>) = []"
  using select_value_set_cases [of "lit ''0''"]
  by (cases "ratingFilter s") (simp_all add: ratingValueOf_def)

lemma durationCategoryOf_reset:
  "durationCategoryOf
     (s\<lparr>durationFilter := map_option (set_select_value (lit ''all'')) (durationFilter s)\<rparr>)
     = lit ''all''
   \<or> durationCategoryOf
        (s\<lparr>durationFilter := map_option (set_select_value (lit ''all'')) (durationFilter s)\<rparr>)
      = []"
  using select_value_set_cases [of "lit ''all''"]
  by (cases "durationFilter s") (simp_all add: durationCategoryOf_def)

lemma rating_duration_update [simp]:
  "ratingValueOf (s\<lparr>searchInput := x\<rparr>) = ratingValueOf s"
  "ratingValueOf (s\<lparr>trackFilter := y\<rparr>) = ratingValueOf s"
  "ratingValueOf (s\<lparr>domainFilter := y\<rparr>) = ratingValueOf s"
  "ratingValueOf (s\<lparr>toolFilter := y\<rparr>) = ratingValueOf s"
  "ratingValueOf (s\<lparr>levelFilter := y\<rparr>) = ratingValueOf s"
  "ratingValueOf (s\<lparr>durationFilter := z\<rparr>) = ratingValueOf s"
  "durationCategoryOf (s\<lparr>searchInput := x\<rparr>) = durationCategoryOf s"
  "durationCategoryOf (s\<lparr>ratingFilter := z\<rparr>) = durationCategoryOf s"
  by (simp_all add: ratingValueOf_def durationCategoryOf_def)

lemma rating_duration_applyFilters [simp]:
  "ratingValueOf (applyFilters_listing rt c) = ratingValueOf c"
  "durationCategoryOf (applyFilters_listing rt c) = durationCategoryOf c"
  by (simp_all add: ratingValueOf_def durationCategoryOf_def)

lemma mem_pairs: "(t, v) \<in> set (map (Pair t') xs) \<longleftrightarrow> t = t' \<and> v \<in> set xs"
  by auto

lemma active_listing_cases:
  assumes "(t, v) \<in> set (active_listing rt s)"
  obtains (search) "t = lit ''search''" "v = trim rt (searchInput s)" "v \<noteq> []"
    | (track) "t = lit ''track''" "v \<in> set (selectedValues (trackFilter s))"
    | (domain) "t = lit ''domain''" "v \<in> set (selectedValues (domainFilter s))"
    | (tool) "t = lit ''tool''" "v \<in> set (selectedValues (toolFilter s))"
    | (level) "t = lit ''level''" "v \<in> set (selectedValues (levelFilter s))"
    | (rating) "t = lit ''rating''" "v = ratingValueOf s" "v \<noteq> []" "v \<noteq> lit ''0''"
    | (duration) "t = lit ''duration''" "v = durationCategoryOf s" "v \<noteq> []"
        "v \<noteq> lit ''all''"
  using assms unfolding active_listing_def set_append Un_iff mem_entry mem_pairs
  by (auto split: if_splits)

lemma removeAll_single:
  "removeAll (t, v) (if c then [(t', x)] else [])
   = (if c \<and> \<not> (t' = t \<and> x = v) then [(t', x)] else [])"
  by simp

lemma removeFilter_active_listing:
  assumes trim: "trim rt [] = []" and mem: "(t, v) \<in> set (active_listing rt s)"
  shows "active_listing rt (removeFilter_listing rt t v s)
           = removeAll (t, v) (active_listing rt s)"
    and "searchInput (removeFilter_listing rt t v s)
           = (if t = lit ''search'' then [] else searchInput s)"
proof -
  have "active_listing rt (removeFilter_listing rt t v s)
           = removeAll (t, v) (active_listing rt s)
      \<and> searchInput (removeFilter_listing rt t v s)
          = (if t = lit ''search'' then [] else searchInput s)"
    using mem
  proof (cases rule: active_listing_cases)
    case search
    then show ?thesis
      using trim
      by (simp add: removeFilter_listing_def active_listing_def removeAll_entry
          removeAll_pairs type_lits entry_def)
  next
    case track
    then show ?thesis
      by (simp add: removeFilter_listing_def active_listing_def removeAll_entry
          removeAll_pairs type_lits selectedValues_deselect)
  next
    case domain
    then show ?thesis
      by (simp add: removeFilter_listing_def active_listing_def removeAll_entry
          removeAll_pairs type_lits selectedValues_deselect)
  next
    case tool
    then show ?thesis
      by (simp add: removeFilter_listing_def active_listing_def removeAll_entry
          removeAll_pairs type_lits selectedValues_deselect)
  next
    case level
    then show ?thesis
      by (simp add: removeFilter_listing_def active_listing_def removeAll_entry
          removeAll_pairs type_lits selectedValues_deselect)
  next
    case rating
    then show ?thesis
      using ratingValueOf_reset [of s]
      by (auto simp add: removeFilter_listing_def active_listing_def removeAll_entry
          removeAll_pairs type_lits)
  next
    case duration
    then show ?thesis
      using durationCategoryOf_reset [of s]
      by (auto simp add: removeFilter_listing_def active_listing_def removeAll_entry
          removeAll_pairs type_lits)
  qed
  then show "active_listing rt (removeFilter_listing rt t v s)
           = removeAll (t, v) (active_listing rt s)"
    and "searchInput (removeFilter_listing rt t v s)
           = (if t = lit ''search'' then [] else searchInput s)"
    by simp_all
qed

lemma match_applyFilters [simp]:
  "home_match rt (applyFilters rt c) = home_match rt c"
  "listing_match rt (applyFilters_listing rt c) = listing_match rt c"
  by (simp_all add: home_match_def listing_match_def ratingThresholdOf_def
      durationCategoryOf_def)

lemma removeFilter_reapplies:
  "\<exists>c. removeFilter rt t v s = applyFilters rt c \<and> courses_array c = courses_array s"
  "\<exists>c. removeFilter_listing rt t v s = applyFilters_listing rt c
        \<and> courses_array c = courses_array s"
  unfolding removeFilter_def removeFilter_listing_def
  by (rule exI, rule conjI [OF refl], simp add: courses_array_def)+

lemma removeFilter_filtered:
  assumes "toLowerCase rt [] = []"
  shows "mset (filtered_array (removeFilter rt t v s))
           = mset (filter (home_match rt (removeFilter rt t v s)) (courses_array s))"
    and "mset (filtered_array (removeFilter_listing rt t v s))
           = mset (filter (listing_match rt (removeFilter_listing rt t v s)) (courses_array s))"
proof -
  obtain c where c: "removeFilter rt t v s = applyFilters rt c"
      "courses_array c = courses_array s"
    using removeFilter_reapplies(1) by blast
  show "mset (filtered_array (removeFilter rt t v s))
           = mset (filter (home_match rt (removeFilter rt t v s)) (courses_array s))"
    unfolding c(1) using applyFilters_keeps(1) [OF assms, of c] by (simp add: c(2))
  obtain d where d: "removeFilter_listing rt t v s = applyFilters_listing rt d"
      "courses_array d = courses_array s"
    using removeFilter_reapplies(2) by blast
  show "mset (filtered_array (removeFilter_listing rt t v s))
           = mset (filter (listing_match rt (removeFilter_listing rt t v s)) (courses_array s))"
    unfolding d(1) using applyFilters_keeps(2) [OF assms, of d] by (simp add: d(2))
qed

text \<open>
  Claim C9, amended. When the page has the active-filters container,
  \<open>updateActiveFilters\<close> fills it with exactly one chip per active selection, in the order
  search, tracks, domains, tools, levels, rating, duration, and appends the Clear all
  control exactly when there is more than one chip. The active selections are the
  non-empty trimmed search term and each selected track, domain, tool and level value,
  and on the listing page the rating value unless it is empty or \<open>0\<close> and the duration
  value unless it is empty or \<open>all\<close>. A click on the chip of a selection removes that
  selection and no other (the search text is cleared only by the search chip), and the
  filtered courses afterwards are those that match the remaining selections. The runtime
  is any runtime whose \<open>trim\<close> and \<open>toLowerCase\<close> map the empty string to itself.
\<close>

theorem active_filter_chips:
  assumes "trim rt [] = []" and "toLowerCase rt [] = []"
  shows "activeFiltersDiv (updateActiveFilters rt s)
           = map_option (\<lambda>_. chips_for (active_home rt s)) (activeFiltersDiv s)
       \<and> activeFiltersDiv (updateActiveFilters_listing rt s)
           = map_option (\<lambda>_. chips_for (active_listing rt s)) (activeFiltersDiv s)
       \<and> (\<forall>sel\<in>set (active_home rt s).
             active_home rt (click_chip rt (chip_for sel) s) = removeAll sel (active_home rt s)
             \<and> searchInput (click_chip rt (chip_for sel) s)
                 = (if fst sel = lit ''search'' then [] else searchInput s)
             \<and> mset (filtered_array (click_chip rt (chip_for sel) s))
                 = mset (filter (home_match rt (click_chip rt (chip_for sel) s))
                           (courses_array s)))
       \<and> (\<forall>sel\<in>set (active_listing rt s).
             active_listing rt (click_chip_listing rt (chip_for sel) s)
                 = removeAll sel (active_listing rt s)
             \<and> searchInput (click_chip_listing rt (chip_for sel) s)
                 = (if fst sel = lit ''search'' then [] else searchInput s)
             \<and> mset (filtered_array (click_chip_listing rt (chip_for sel) s))
                 = mset (filter (listing_match rt (click_chip_listing rt (chip_for sel) s))
                           (courses_array s)))"
proof (intro conjI ballI)
  show "activeFiltersDiv (updateActiveFilters rt s)
           = map_option (\<lambda>_. chips_for (active_home rt s)) (activeFiltersDiv s)"
    by (rule updateActiveFilters_chips)
  show "activeFiltersDiv (updateActiveFilters_listing rt s)
           = map_option (\<lambda>_. chips_for (active_listing rt s)) (activeFiltersDiv s)"
    by (rule updateActiveFilters_listing_chips)
next
  fix sel assume mem: "sel \<in> set (active_home rt s)"
  obtain t v where sel: "sel = (t, v)" by (cases sel)
  have click: "click_chip rt (chip_for sel) s = removeFilter rt t v s"
    by (simp add: sel chip_for_def)
  show "active_home rt (click_chip rt (chip_for sel) s) = removeAll sel (active_home rt s)"
    unfolding click using removeFilter_active_home(1) [OF assms(1)] mem sel by simp
  show "searchInput (click_chip rt (chip_for sel) s)
          = (if fst sel = lit ''search'' then [] else searchInput s)"
    unfolding click using removeFilter_active_home(2) [OF assms(1)] mem sel by simp
  show "mset (filtered_array (click_chip rt (chip_for sel) s))
          = mset (filter (home_match rt (click_chip rt (chip_for sel) s)) (courses_array s))"
    unfolding click by (rule removeFilter_filtered(1) [OF assms(2)])
next
  fix sel assume mem: "sel \<in> set (active_listing rt s)"
  obtain t v where sel: "sel = (t, v)" by (cases sel)
  have click: "click_chip_listing rt (chip_for sel) s = removeFilter_listing rt t v s"
    by (simp add: sel chip_for_def)
  show "active_listing rt (click_chip_listing rt (chip_for sel) s)
          = removeAll sel (active_listing rt s)"
    unfolding click using removeFilter_active_listing(1) [OF assms(1)] mem sel by simp
  show "searchInput (click_chip_listing rt (chip_for sel) s)
          = (if fst sel = lit ''search'' then [] else searchInput s)"
    unfolding click using removeFilter_active_listing(2) [OF assms(1)] mem sel by simp
  show "mset (filtered_array (click_chip_listing rt (chip_for sel) s))
          = mset (filter (listing_match rt (click_chip_listing rt (chip_for sel) s))
                    (courses_array s))"
    unfolding click by (rule removeFilter_filtered(2) [OF assms(2)])
qed

theorem active_filter_chips_witness:
  "trim ascii_runtime [] = [] \<and> toLowerCase ascii_runtime [] = []
   \<and> (lit ''track'', lit ''AI'') \<in> set (active_home ascii_runtime example_page)
   \<and> (lit ''rating'', lit ''4'') \<in> set (active_listing ascii_runtime example_page)
   \<and> activeFiltersDiv (updateActiveFilters ascii_runtime example_page)
       = Some [Chip (lit ''ai'') (lit ''search'') (lit ''ai''),
               Chip (lit ''AI'') (lit ''track'') (lit ''AI''), ClearAll]
   \<and> activeFiltersDiv (updateActiveFilters_listing ascii_runtime example_page)
       = Some [Chip (lit ''ai'') (lit ''search'') (lit ''ai''),
               Chip (lit ''AI'') (lit ''track'') (lit ''AI''),
               Chip (ratingLabel (lit ''4'')) (lit ''rating'') (lit ''4''), ClearAll]
   \<and> active_home ascii_runtime
        (click_chip ascii_runtime (chip_for (lit ''track'', lit ''AI'')) example_page)
       = [(lit ''search'', lit ''ai'')]
   \<and> active_listing ascii_runtime
        (click_chip_listing ascii_runtime (chip_for (lit ''rating'', lit ''4'')) example_page)
       = [(lit ''search'', lit ''ai''), (lit ''track'', lit ''AI'')]"
proof -
  have h: "trim ascii_runtime [] = []" "toLowerCase ascii_runtime [] = []"
    by (simp_all add: ascii_runtime_def ascii_trim_def)
  have ah: "active_home ascii_runtime example_page
            = [(lit ''search'', lit ''ai''), (lit ''track'', lit ''AI'')]"
    by code_simp
  have al: "active_listing ascii_runtime example_page
            = [(lit ''search'', lit ''ai''), (lit ''track'', lit ''AI''),
               (lit ''rating'', lit ''4'')]"
    by code_simp
  have ch: "chips_for [(lit ''search'', lit ''ai''), (lit ''track'', lit ''AI'')]
            = [Chip (lit ''ai'') (lit ''search'') (lit ''ai''),
               Chip (lit ''AI'') (lit ''track'') (lit ''AI''), ClearAll]"
    by code_simp
  have cl: "chips_for [(lit ''search'', lit ''ai''), (lit ''track'', lit ''AI''),
               (lit ''rating'', lit ''4'')]
            = [Chip (lit ''ai'') (lit ''search'') (lit ''ai''),
               Chip (lit ''AI'') (lit ''track'') (lit ''AI''),
               Chip (ratingLabel (lit ''4'')) (lit ''rating'') (lit ''4''), ClearAll]"
    by code_simp
  have rh: "removeAll (lit ''track'', lit ''AI'')
              [(lit ''search'', lit ''ai''), (lit ''track'', lit ''AI'')]
            = [(lit ''search'', lit ''ai'')]"
    by code_simp
  have rl: "removeAll (lit ''rating'', lit ''4'')
              [(lit ''search'', lit ''ai''), (lit ''track'', lit ''AI''),
               (lit ''rating'', lit ''4'')]
            = [(lit ''search'', lit ''ai''), (lit ''track'', lit ''AI'')]"
    by code_simp
  have div: "activeFiltersDiv example_page = Some []"
    by (simp add: example_page_def)
  note inst = active_filter_chips [OF h, of example_page]
  have m1: "(lit ''track'', lit ''AI'') \<in> set (active_home ascii_runtime example_page)"
    unfolding ah by simp
  have m2: "(lit ''rating'', lit ''4'') \<in> set (active_listing ascii_runtime example_page)"
    unfolding al by simp
  have a: "activeFiltersDiv (updateActiveFilters ascii_runtime example_page)
       = map_option (\<lambda>_. chips_for (active_home ascii_runtime example_page))
           (activeFiltersDiv example_page)"
    by (rule conjunct1 [OF inst])
  have b: "activeFiltersDiv (updateActiveFilters_listing ascii_runtime example_page)
       = map_option (\<lambda>_. chips_for (active_listing ascii_runtime example_page))
           (activeFiltersDiv example_page)"
    by (rule conjunct1 [OF conjunct2 [OF inst]])
  note home_clicks = conjunct1 [OF conjunct2 [OF conjunct2 [OF inst]]]
  note listing_clicks = conjunct2 [OF conjunct2 [OF conjunct2 [OF inst]]]
  have c: "active_home ascii_runtime
        (click_chip ascii_runtime (chip_for (lit ''track'', lit ''AI'')) example_page)
       = removeAll (lit ''track'', lit ''AI'') (active_home ascii_runtime example_page)"
    by (rule conjunct1 [OF bspec [OF home_clicks m1]])
  have d: "active_listing ascii_runtime
        (click_chip_listing ascii_runtime (chip_for (lit ''rating'', lit ''4'')) example_page)
       = removeAll (lit ''rating'', lit ''4'') (active_listing ascii_runtime example_page)"
    by (rule conjunct1 [OF bspec [OF listing_clicks m2]])
  have a': "activeFiltersDiv (updateActiveFilters ascii_runtime example_page)
       = Some [Chip (lit ''ai'') (lit ''search'') (lit ''ai''),
               Chip (lit ''AI'') (lit ''track'') (lit ''AI''), ClearAll]"
    unfolding a ah ch div by simp
  have b': "activeFiltersDiv (updateActiveFilters_listing ascii_runtime example_page)
       = Some [Chip (lit ''ai'') (lit ''search'') (lit ''ai''),
               Chip (lit ''AI'') (lit ''track'') (lit ''AI''),
               Chip (ratingLabel (lit ''4'')) (lit ''rating'') (lit ''4''), ClearAll]"
    unfolding b al cl div by simp
  have c': "active_home ascii_runtime
        (click_chip ascii_runtime (chip_for (lit ''track'', lit ''AI'')) example_page)
       = [(lit ''search'', lit ''ai'')]"
    unfolding c ah rh by (rule refl)
  have d': "active_listing ascii_runtime
        (click_chip_listing ascii_runtime (chip_for (lit ''rating'', lit ''4'')) example_page)
       = [(lit ''search'', lit ''ai''), (lit ''track'', lit ''AI'')]"
    unfolding d al rl by (rule refl)
  show ?thesis
    using h m1 m2 a' b' c' d' by (intro conjI)
qed

text \<open>
  Claim C9 as stated fails for a rating select whose value is the empty string: the
  value is not \<open>0\<close>, and no rating chip is rendered, because \<open>updateActiveFilters\<close> tests
  \<open>ratingVal && ratingVal !== '0'\<close>.
\<close>

theorem rating_chip_counterexample:
  "ratingValueOf empty_rating_page \<noteq> lit ''0''
   \<and> activeFiltersDiv (updateActiveFilters_listing ascii_runtime empty_rating_page)
       \<noteq> map_option (\<lambda>_. chips_for (stated_listing ascii_runtime empty_rating_page))
           (activeFiltersDiv empty_rating_page)"
  by code_simp

section \<open>The course array is never written\<close>

lemma array_sort_fresh:
  "array_sort cmp (h @ [xs]) (length h) = h @ [sort_by cmp xs]"
  by (simp add: array_sort_def)

lemma keeps_courses_same_heap:
  "heap s' = heap s \<Longrightarrow> courses s' = courses s \<Longrightarrow> keeps_courses s s'"
  by (simp add: keeps_courses_def courses_array_def)

lemma keeps_courses_grown:
  assumes "courses s < length (heap s)" "heap s' = heap s @ [xs]" "courses s' = courses s"
  shows "keeps_courses s s'"
  using assms by (simp add: keeps_courses_def courses_array_def)

lemma applyFilters_grows:
  "\<exists>xs. heap (applyFilters rt s) = heap s @ [xs]"
  "\<exists>xs. heap (applyFilters_listing rt s) = heap s @ [xs]"
  by (simp_all add: applyFilters_heap applyFilters_listing_heap array_sort_fresh)

lemma renderFeaturedCourses_grows:
  "heap (renderFeaturedCourses rt s) = heap s
   \<or> (\<exists>xs. heap (renderFeaturedCourses rt s) = heap s @ [xs])"
  "courses (renderFeaturedCourses rt s) = courses s"
  by (simp_all add: renderFeaturedCourses_def array_spread_def Let_def array_sort_fresh
      split: option.splits)

lemma renderCategories_frame:
  "heap (renderCategories rt s) = heap s"
  "courses (renderCategories rt s) = courses s"
  by (simp_all add: renderCategories_def Let_def split: option.splits)

text \<open>
  Claim C5. Each of the operations - \<open>applyFilters\<close> (filtering and sorting), the
  recomputation of the filter counts, and the rendering of the course cards, the
  categories and the featured courses, on the home page and on the listing page -
  leaves the course list unchanged: \<open>courses\<close> refers to the same array with the same
  records in the same order, and no array that existed before the call is written.
  \<open>applyFilters\<close> sorts the array that \<open>filter\<close> has just allocated, which is not the
  course array, and \<open>renderFeaturedCourses\<close> sorts the copy made by the spread. The
  global \<open>courses\<close> is taken to refer to an array of the store.
\<close>

theorem courses_unchanged:
  assumes "courses s < length (heap s)"
  shows "keeps_courses s (applyFilters rt s)
       \<and> keeps_courses s (applyFilters_listing rt s)
       \<and> filteredCourses (applyFilters rt s) \<noteq> courses s
       \<and> filteredCourses (applyFilters_listing rt s) \<noteq> courses s
       \<and> keeps_courses s (updateFilterCounts rt s)
       \<and> keeps_courses s (updateFilterCounts_listing rt s)
       \<and> keeps_courses s (renderCourses s)
       \<and> keeps_courses s (renderCourses_listing s)
       \<and> keeps_courses s (renderCategories rt s)
       \<and> keeps_courses s (renderFeaturedCourses rt s)"
proof (intro conjI)
  show "keeps_courses s (applyFilters rt s)"
    using applyFilters_grows(1) [of rt s] keeps_courses_grown [OF assms]
    by (auto simp: applyFilters_heap(3))
  show "keeps_courses s (applyFilters_listing rt s)"
    using applyFilters_grows(2) [of rt s] keeps_courses_grown [OF assms]
    by (auto simp: applyFilters_listing_heap(3))
  show "filteredCourses (applyFilters rt s) \<noteq> courses s"
    using assms by (simp add: applyFilters_heap(2))
  show "filteredCourses (applyFilters_listing rt s) \<noteq> courses s"
    using assms by (simp add: applyFilters_listing_heap(2))
  show "keeps_courses s (updateFilterCounts rt s)"
    by (rule keeps_courses_same_heap) simp_all
  show "keeps_courses s (updateFilterCounts_listing rt s)"
    by (rule keeps_courses_same_heap) simp_all
  show "keeps_courses s (renderCourses s)"
    by (rule keeps_courses_same_heap) simp_all
  show "keeps_courses s (renderCourses_listing s)"
    by (rule keeps_courses_same_heap) simp_all
  show "keeps_courses s (renderCategories rt s)"
    by (rule keeps_courses_same_heap) (simp_all add: renderCategories_frame)
  show "keeps_courses s (renderFeaturedCourses rt s)"
    using renderFeaturedCourses_grows [of rt s] keeps_courses_grown [OF assms]
      keeps_courses_same_heap [of "renderFeaturedCourses rt s" s]
    by auto
qed

theorem courses_unchanged_witness:
  "courses example_page < length (heap example_page)
   \<and> courses_array (applyFilters ascii_runtime example_page) = example_courses
   \<and> courses_array (applyFilters_listing ascii_runtime example_page) = example_courses
   \<and> courses_array (renderFeaturedCourses ascii_runtime example_page) = example_courses
   \<and> filteredCourses (applyFilters ascii_runtime example_page) \<noteq> 0
   \<and> featuredCoursesContainer (renderFeaturedCourses ascii_runtime example_page)
       = Some (map Card [example_courses ! 1, example_courses ! 0, example_courses ! 2])"
proof -
  have f: "featuredCoursesContainer (renderFeaturedCourses ascii_runtime example_page)
       = Some (map Card [example_courses ! 1, example_courses ! 0, example_courses ! 2])"
    by code_simp
  have h: "courses example_page < length (heap example_page)"
    by (simp add: example_page_def)
  have c: "courses example_page = 0"
    by (simp add: example_page_def)
  note inst = courses_unchanged [OF h, of ascii_runtime, unfolded keeps_courses_def]
  show ?thesis
    using h inst f by (simp add: example_courses_array c)
qed

section \<open>The domain and track pages\<close>

























section \<open>Exceptions of the filter counts\<close>

lemma negated_ok: "\<not> isl t \<Longrightarrow> \<not> isl (negated t)"
  by (cases t) (simp_all add: negated_def)

lemma guarded_ok: "\<not> isl t \<Longrightarrow> \<not> isl (guarded c t)"
  by (simp add: guarded_def)

lemma guarded_by_ok: "(\<And>x. \<not> isl (t x)) \<Longrightarrow> \<not> isl (guarded_by v t)"
  by (simp add: guarded_by_def split: option.splits)

lemma or_else_ok: "\<not> isl a \<Longrightarrow> \<not> isl b \<Longrightarrow> \<not> isl (or_else a b)"
  by (cases a) (simp_all add: or_else_def)

lemma first_reject_ok: "list_all (\<lambda>t. \<not> isl t) ts \<Longrightarrow> \<not> isl (first_reject ts)"
  by (induction ts) (auto split: sum.splits)

lemma reduce_count_ok:
  "(\<And>c. c \<in> set cs \<Longrightarrow> \<not> isl (reject c)) \<Longrightarrow> \<not> isl (reduce_count reject cs acc)"
proof (induction cs arbitrary: acc)
  case Nil
  show ?case by simp
next
  case (Cons c cs)
  have "\<not> isl (reject c)"
    using Cons.prems by simp
  then obtain b where "reject c = Inr b"
    by (cases "reject c") simp_all
  then show ?case
    using Cons by simp
qed

lemma filter_err_ok:
  "(\<And>c. c \<in> set cs \<Longrightarrow> \<not> isl (keep c))
   \<Longrightarrow> \<exists>ys. filter_err keep cs = Inr ys \<and> set ys \<subseteq> set cs"
proof (induction cs)
  case Nil
  show ?case by simp
next
  case (Cons c cs)
  have "\<not> isl (keep c)"
    using Cons.prems by simp
  then obtain b where "keep c = Inr b"
    by (cases "keep c") simp_all
  moreover obtain ys where "filter_err keep cs = Inr ys" "set ys \<subseteq> set cs"
    using Cons by auto
  ultimately show ?case
    by auto
qed

lemma forEach_err_ok:
  "(\<And>x. x \<in> set xs \<Longrightarrow> \<not> isl (f x)) \<Longrightarrow> \<not> isl (forEach_err f xs)"
proof (induction xs)
  case Nil
  show ?case by simp
next
  case (Cons x xs)
  have "\<not> isl (f x)"
    using Cons.prems by simp
  then obtain y where "f x = Inr y"
    by (cases "f x") simp_all
  moreover obtain ys where "forEach_err f xs = Inr ys"
    using Cons by (cases "forEach_err f xs") auto
  ultimately show ?case
    by simp
qed

lemma updateOption_raw_ok:
  "(\<And>v. \<not> isl (countOf v)) \<Longrightarrow> \<not> isl (updateOption_raw l countOf x)"
proof -
  assume ok: "\<And>v. \<not> isl (countOf v)"
  obtain n where "countOf (opt_value x) = Inr n"
    using ok [of "opt_value x"] by (cases "countOf (opt_value x)") simp_all
  then show ?thesis
    by (simp add: updateOption_raw_def Let_def)
qed

lemma well_formed_calls:
  assumes "well_formed c"
  shows "\<not> isl (title_includes rt c t)"
    and "\<not> isl (includes_of (raw_domains c) x)"
    and "\<not> isl (includes_of (raw_tools c) x)"
    and "\<not> isl (some_of (raw_domains c) sel)"
    and "\<not> isl (some_of (raw_tools c) sel)"
  using assms
  by (auto simp: well_formed_def is_string_def is_array_def title_includes_def
      split: jsval.splits)

lemma well_formed_either:
  assumes "well_formed c"
  shows "\<not> isl (or_else (includes_of (raw_domains c) x) (some_of (raw_domains c) sel))"
    and "\<not> isl (or_else (includes_of (raw_tools c) x) (some_of (raw_tools c) sel))"
  using assms by (simp_all add: or_else_ok well_formed_calls)

lemmas call_ok = negated_ok guarded_ok guarded_by_ok well_formed_calls well_formed_either

lemma home_counts_ok:
  assumes "list_all well_formed cs"
  shows "\<not> isl (countFor_raw rt cs term trk dmn tol lvl)"
    and "\<not> isl (countDomain_raw rt cs term a b c val)"
    and "\<not> isl (countTool_raw rt cs term a b c val)"
    and "\<not> isl (countLevel_raw rt cs term a b c val)"
  using assms
  unfolding countFor_raw_def countDomain_raw_def countTool_raw_def countLevel_raw_def
  by (auto intro!: reduce_count_ok first_reject_ok call_ok
      simp: list_all_iff well_formed_either simp del: first_reject.simps)

lemma listing_counts_ok:
  assumes "list_all well_formed cs"
  shows "\<not> isl (countByTrack_raw cs st sd sto sl val)"
    and "\<not> isl (countByDomain_raw cs st sd sto sl val)"
    and "\<not> isl (countByTool_raw cs st sd sto sl val)"
    and "\<not> isl (countByLevel_raw cs st sd sto sl val)"
  using assms
  unfolding countByTrack_raw_def countByDomain_raw_def countByTool_raw_def
    countByLevel_raw_def
  by (auto intro!: reduce_count_ok first_reject_ok call_ok
      simp: list_all_iff well_formed_either simp del: first_reject.simps)


lemma course_list_cases:
  obtains (none) "course_list e = []" "courses_binding (coursesData e) = None"
  | (empty) "course_list e = []" "courses_binding (coursesData e) = Some []"
  | (some) "course_list e \<noteq> []" "courses_binding (coursesData e) = Some (course_list e)"
  by (cases "courses_binding (coursesData e)") (auto simp: course_list_def)

lemma updateFilterCounts_raw_empty:
  assumes "course_list e = []"
  shows "updateFilterCounts_raw rt e = Inr e"
    and "updateFilterCounts_listing_raw rt num e = Inr e"
proof -
  have "courses_binding (coursesData e) = None \<or> courses_binding (coursesData e) = Some []"
    using assms by (cases e rule: course_list_cases) simp_all
  then show "updateFilterCounts_raw rt e = Inr e"
    and "updateFilterCounts_listing_raw rt num e = Inr e"
    unfolding updateFilterCounts_raw_def updateFilterCounts_listing_raw_def
    by (auto simp del: forEach_err.simps filter_err.simps)
qed


lemma nodes_case:
  "(case (a, b, c, d, e) of
      (Some i, Some t, Some dd, Some l, Some v) \<Rightarrow> f i t dd l v
    | _ \<Rightarrow> Inl TypeError)
   = (if a \<noteq> None \<and> b \<noteq> None \<and> c \<noteq> None \<and> d \<noteq> None \<and> e \<noteq> None
      then f (the a) (the b) (the c) (the d) (the e) else Inl TypeError)"
  by (cases a; cases b; cases c; cases d; cases e) simp_all

lemma updateFilterCounts_raw_missing:
  assumes "course_list e \<noteq> []" "\<not> nodes_present e"
  shows "updateFilterCounts_raw rt e = Inl TypeError"
    and "updateFilterCounts_listing_raw rt num e = Inl TypeError"
proof -
  have b: "courses_binding (coursesData e) = Some (course_list e)"
    using assms(1) by (cases e rule: course_list_cases) simp_all
  have n: "\<not> (el_searchInput e \<noteq> None \<and> el_trackFilter e \<noteq> None \<and> el_domainFilter e \<noteq> None
              \<and> el_toolFilter e \<noteq> None \<and> el_levelFilter e \<noteq> None)"
    using assms(2) by (simp add: nodes_present_def)
  show "updateFilterCounts_raw rt e = Inl TypeError"
    unfolding updateFilterCounts_raw_def b nodes_case
    using assms(1) n by (simp only: option.case length_0_conv if_False)
  show "updateFilterCounts_listing_raw rt num e = Inl TypeError"
    unfolding updateFilterCounts_listing_raw_def b nodes_case
    using assms(1) n by (simp only: option.case length_0_conv if_False)
qed


lemma seq4:
  assumes "\<not> isl a" "\<not> isl b" "\<not> isl c" "\<not> isl d"
  shows "\<not> isl (case a of Inl err \<Rightarrow> Inl err | Inr a' \<Rightarrow>
           (case b of Inl err \<Rightarrow> Inl err | Inr b' \<Rightarrow>
           (case c of Inl err \<Rightarrow> Inl err | Inr c' \<Rightarrow>
           (case d of Inl err \<Rightarrow> Inl err | Inr d' \<Rightarrow> Inr (f a' b' c' d')))))"
  using assms by (cases a; cases b; cases c; cases d) simp_all

lemma updateFilterCounts_raw_ok:
  assumes wf: "list_all well_formed (course_list e)" and present: "nodes_present e"
  shows "\<not> isl (updateFilterCounts_raw rt e)"
proof (cases "course_list e = []")
  case True
  then show ?thesis
    by (simp add: updateFilterCounts_raw_empty)
next
  case False
  have b: "courses_binding (coursesData e) = Some (course_list e)"
    using False by (cases e rule: course_list_cases) simp_all
  have n: "el_searchInput e \<noteq> None \<and> el_trackFilter e \<noteq> None \<and> el_domainFilter e \<noteq> None
              \<and> el_toolFilter e \<noteq> None \<and> el_levelFilter e \<noteq> None"
    using present by (simp add: nodes_present_def)
  show ?thesis
    unfolding updateFilterCounts_raw_def b nodes_case
    apply (simp only: option.case length_0_conv False n if_False if_True simp_thms Let_def)
    apply (intro seq4 forEach_err_ok updateOption_raw_ok home_counts_ok wf)
    done
qed


lemma seq5:
  assumes "a = Inr x" "\<not> isl (g x)"
  shows "\<not> isl (case a of Inl err \<Rightarrow> Inl err | Inr y \<Rightarrow> g y)"
  using assms by simp

lemma updateFilterCounts_listing_raw_ok:
  assumes wf: "list_all well_formed (course_list e)" and present: "nodes_present e"
  shows "\<not> isl (updateFilterCounts_listing_raw rt num e)"
proof (cases "course_list e = []")
  case True
  then show ?thesis
    by (simp add: updateFilterCounts_raw_empty)
next
  case False
  have b: "courses_binding (coursesData e) = Some (course_list e)"
    using False by (cases e rule: course_list_cases) simp_all
  have n: "el_searchInput e \<noteq> None \<and> el_trackFilter e \<noteq> None \<and> el_domainFilter e \<noteq> None
              \<and> el_toolFilter e \<noteq> None \<and> el_levelFilter e \<noteq> None"
    using present by (simp add: nodes_present_def)
  have keep: "\<not> isl (case guarded c0 (negated (title_includes rt c tm)) of
                       Inl err \<Rightarrow> Inl err
                     | Inr b \<Rightarrow> if b then Inr False else Inr (p c))"
    if "c \<in> set (course_list e)" for c c0 tm and p :: "raw_course \<Rightarrow> bool"
  proof -
    have "well_formed c"
      using wf that by (simp add: list_all_iff)
    then have "\<not> isl (guarded c0 (negated (title_includes rt c tm)))"
      by (intro call_ok)
    then show ?thesis
      by (cases "guarded c0 (negated (title_includes rt c tm))") simp_all
  qed
  have base: "\<exists>ys. filter_err
                 (\<lambda>c. case guarded c0 (negated (title_includes rt c tm)) of
                         Inl err \<Rightarrow> Inl err
                       | Inr b \<Rightarrow> if b then Inr False else Inr (p c))
                 (course_list e) = Inr ys \<and> list_all well_formed ys"
    for c0 tm and p :: "raw_course \<Rightarrow> bool"
  proof -
    have "\<exists>ys. filter_err
                 (\<lambda>c. case guarded c0 (negated (title_includes rt c tm)) of
                         Inl err \<Rightarrow> Inl err
                       | Inr b \<Rightarrow> if b then Inr False else Inr (p c))
                 (course_list e) = Inr ys \<and> set ys \<subseteq> set (course_list e)"
      by (rule filter_err_ok) (rule keep)
    then obtain ys where ys: "filter_err
                 (\<lambda>c. case guarded c0 (negated (title_includes rt c tm)) of
                         Inl err \<Rightarrow> Inl err
                       | Inr b \<Rightarrow> if b then Inr False else Inr (p c))
                 (course_list e) = Inr ys" "set ys \<subseteq> set (course_list e)"
      by (elim exE conjE)
    have "list_all well_formed ys"
      using wf ys(2) by (auto simp: list_all_iff)
    then show ?thesis
      using ys(1) by blast
  qed
  show ?thesis
    unfolding updateFilterCounts_listing_raw_def b nodes_case
    apply (simp only: option.case length_0_conv False n if_False if_True simp_thms Let_def)
    apply (rule exE [OF base])
    apply (erule conjE)
    apply (erule seq5)
    apply (intro seq4 forEach_err_ok updateOption_raw_ok listing_counts_ok)
       apply assumption+
    done
qed

text \<open>
  On typed course records and a page with all its elements, the functions over untyped
  data compute what \<open>updateFilterCounts\<close> of each page computes.
\<close>

lemma reduce_count_typed:
  assumes "\<And>c. c \<in> set cs \<Longrightarrow> \<not> isl (reject (f c))"
  shows "reduce_count reject (map f cs) acc
           = Inr (foldl (\<lambda>a c. if projr (reject (f c)) then a else a + 1) acc cs)"
  using assms
proof (induction cs arbitrary: acc)
  case Nil
  show ?case by simp
next
  case (Cons c cs)
  have "\<not> isl (reject (f c))"
    using Cons.prems by simp
  then obtain b where b: "reject (f c) = Inr b"
    by (cases "reject (f c)") simp_all
  show ?case
    using Cons b by simp
qed

lemma forEach_err_typed:
  assumes "\<And>x. x \<in> set xs \<Longrightarrow> f x = Inr (g x)"
  shows "forEach_err f xs = Inr (map g xs)"
  using assms by (induction xs) simp_all

lemma filter_err_typed:
  assumes "\<And>c. c \<in> set cs \<Longrightarrow> keep (f c) = Inr (K c)"
  shows "filter_err keep (map f cs) = Inr (map f (filter K cs))"
  using assms by (induction cs) simp_all

lemma updateOption_raw_typed:
  assumes "\<And>v. countOf v = Inr (cnt v)"
  shows "updateOption_raw l countOf x = Inr (updateOption l cnt x)"
  using assms by (simp add: updateOption_raw_def updateOption_def Let_def)

lemma Str_mem: "Str x \<in> Str ` A \<longleftrightarrow> x \<in> A"
  by auto

lemma raw_of_calls:
  "title_includes rt (raw_of c) t = Inr (str_includes (toLowerCase rt (title c)) t)"
  "includes_of (raw_domains (raw_of c)) x = Inr (x \<in> set (domains c))"
  "includes_of (raw_tools (raw_of c)) x = Inr (x \<in> set (tools c))"
  "some_of (raw_domains (raw_of c)) sel = Inr (some_in (domains c) sel)"
  "some_of (raw_tools (raw_of c)) sel = Inr (some_in (tools c) sel)"
  "raw_track (raw_of c) = Str (track c)"
  "raw_level (raw_of c) = Str (level c)"
  "selected_includes sel (Str x) \<longleftrightarrow> x \<in> set sel"
  by (auto simp: raw_of_def title_includes_def some_in_def selected_includes_def
      list_ex_iff)

lemma combinators:
  "negated (Inr b) = Inr (\<not> b)"
  "guarded c (Inr b) = Inr (c \<and> b)"
  "guarded_by v (\<lambda>x. Inr (P x)) = Inr (rejects v P)"
  "or_else (Inr a) (Inr b) = Inr (a \<or> b)"
  "first_reject [Inr a1, Inr a2, Inr a3, Inr a4] = Inr (a1 \<or> a2 \<or> a3 \<or> a4)"
  "first_reject [Inr a1, Inr a2, Inr a3, Inr a4, Inr a5] = Inr (a1 \<or> a2 \<or> a3 \<or> a4 \<or> a5)"
  by (auto simp: negated_def guarded_def guarded_by_def or_else_def rejects_def
      split: option.splits)

lemma home_counts_typed:
  "countFor_raw rt (map raw_of cs) tm trk dmn tol lvl = Inr (countFor rt cs tm trk dmn tol lvl)"
  "countDomain_raw rt (map raw_of cs) tm a b c val = Inr (countDomain rt cs tm a b c val)"
  "countTool_raw rt (map raw_of cs) tm a b c val = Inr (countTool rt cs tm a b c val)"
  "countLevel_raw rt (map raw_of cs) tm a b c val = Inr (countLevel rt cs tm a b c val)"
  unfolding countFor_raw_def countDomain_raw_def countTool_raw_def countLevel_raw_def
    countFor_def countDomain_def countTool_def countLevel_def
  by (subst reduce_count_typed;
      simp add: raw_of_calls combinators del: first_reject.simps;
      rule arg_cong [where f = "\<lambda>g. foldl g 0 cs"]; intro ext; simp)+


lemma listing_counts_typed:
  "countByTrack_raw (map raw_of cs) st sd sto sl val = Inr (countByTrack cs st sd sto sl val)"
  "countByDomain_raw (map raw_of cs) st sd sto sl val = Inr (countByDomain cs st sd sto sl val)"
  "countByTool_raw (map raw_of cs) st sd sto sl val = Inr (countByTool cs st sd sto sl val)"
  "countByLevel_raw (map raw_of cs) st sd sto sl val = Inr (countByLevel cs st sd sto sl val)"
  unfolding countByTrack_raw_def countByDomain_raw_def countByTool_raw_def
    countByLevel_raw_def countByTrack_def countByDomain_def countByTool_def countByLevel_def
  by (subst reduce_count_typed;
      simp add: raw_of_calls combinators del: first_reject.simps;
      rule arg_cong [where f = "\<lambda>g. foldl g 0 cs"]; intro ext; simp)+

lemma finite_numbers:
  "number_of num (raw_rating (raw_of c)) = Finite (rating c)"
  "number_of num (raw_weeks (raw_of c)) = Finite (weeks c)"
  "num_less (Finite r) b \<longleftrightarrow> r < b"
  "num_greater (Finite r) b \<longleftrightarrow> r > b"
  "num_between (Finite r) lo hi \<longleftrightarrow> r \<ge> lo \<and> r \<le> hi"
  by (simp_all add: number_of_def num_less_def num_greater_def num_between_def raw_of_def)

lemma passesRatingDuration_typed:
  "passesRatingDuration_raw num thr cat (raw_of c) = passesRatingDuration thr cat c"
  unfolding passesRatingDuration_raw_def passesRatingDuration_def belowThreshold_def
    finite_numbers Let_def
  by (rule refl)

lemma course_list_raw_page_of:
  "courses_binding (coursesData (raw_page_of s)) = Some (map raw_of (courses_array s))"
  by (simp add: raw_page_of_def courses_binding_def)

lemma raw_page_of_update:
  "raw_page_of s\<lparr>el_trackFilter := Some t, el_domainFilter := Some d,
                  el_toolFilter := Some l, el_levelFilter := Some v\<rparr>
     = raw_page_of (s\<lparr>trackFilter := t, domainFilter := d, toolFilter := l,
                      levelFilter := v\<rparr>)"
  by (simp add: raw_page_of_def courses_array_def)

lemma updateFilterCounts_raw_typed:
  "updateFilterCounts_raw rt (raw_page_of s) = Inr (raw_page_of (updateFilterCounts rt s))"
proof (cases "courses_array s = []")
  case True
  then show ?thesis
    by (simp add: updateFilterCounts_raw_def course_list_raw_page_of
        updateFilterCounts_def courses_array_def)
next
  case False
  have el: "el_searchInput (raw_page_of s) = Some (searchInput s)"
    "el_trackFilter (raw_page_of s) = Some (trackFilter s)"
    "el_domainFilter (raw_page_of s) = Some (domainFilter s)"
    "el_toolFilter (raw_page_of s) = Some (toolFilter s)"
    "el_levelFilter (raw_page_of s) = Some (levelFilter s)"
    by (simp_all add: raw_page_of_def)
  have typed: "updateFilterCounts rt s =
      s\<lparr>trackFilter := trackFilter (updateFilterCounts rt s),
        domainFilter := domainFilter (updateFilterCounts rt s),
        toolFilter := toolFilter (updateFilterCounts rt s),
        levelFilter := levelFilter (updateFilterCounts rt s)\<rparr>"
    by (simp add: updateFilterCounts_def Let_def)
  show ?thesis
    apply (subst typed)
    unfolding updateFilterCounts_raw_def course_list_raw_page_of el
      updateFilterCounts_nonempty [OF False]
    using False
    by (simp add: Let_def home_counts_typed raw_page_of_update
        forEach_err_typed [OF updateOption_raw_typed]
        del: forEach_err.simps)
qed


lemma base_filter_typed:
  "filter_err
     (\<lambda>c. case guarded c0 (negated (title_includes rt c tm)) of
             Inl err \<Rightarrow> Inl err
           | Inr b \<Rightarrow> if b then Inr False else Inr (passesRatingDuration_raw num thr cat c))
     (map raw_of cs)
   = Inr (map raw_of
            (filter (\<lambda>c. if c0 \<and> \<not> str_includes (toLowerCase rt (title c)) tm then False
                         else passesRatingDuration thr cat c) cs))"
  by (rule filter_err_typed)
    (simp add: raw_of_calls combinators passesRatingDuration_typed)

lemma updateFilterCounts_listing_raw_typed:
  "updateFilterCounts_listing_raw rt num (raw_page_of s)
     = Inr (raw_page_of (updateFilterCounts_listing rt s))"
proof (cases "courses_array s = []")
  case True
  then show ?thesis
    by (simp add: updateFilterCounts_listing_raw_def course_list_raw_page_of
        updateFilterCounts_listing_def courses_array_def)
next
  case False
  have el: "el_searchInput (raw_page_of s) = Some (searchInput s)"
    "el_trackFilter (raw_page_of s) = Some (trackFilter s)"
    "el_domainFilter (raw_page_of s) = Some (domainFilter s)"
    "el_toolFilter (raw_page_of s) = Some (toolFilter s)"
    "el_levelFilter (raw_page_of s) = Some (levelFilter s)"
    "el_ratingFilter (raw_page_of s) = ratingFilter s"
    "el_durationFilter (raw_page_of s) = durationFilter s"
    by (simp_all add: raw_page_of_def)
  have typed: "updateFilterCounts_listing rt s =
      s\<lparr>trackFilter := trackFilter (updateFilterCounts_listing rt s),
        domainFilter := domainFilter (updateFilterCounts_listing rt s),
        toolFilter := toolFilter (updateFilterCounts_listing rt s),
        levelFilter := levelFilter (updateFilterCounts_listing rt s)\<rparr>"
    by (simp add: updateFilterCounts_listing_def Let_def)
  show ?thesis
    apply (subst typed)
    unfolding updateFilterCounts_listing_raw_def course_list_raw_page_of el
      updateFilterCounts_listing_nonempty [OF False]
    using False
    by (simp add: Let_def base_filter_typed listing_counts_typed raw_page_of_update
        ratingThresholdOf_def durationCategoryOf_def
        forEach_err_typed [OF updateOption_raw_typed]
        del: forEach_err.simps filter_err.simps)
qed

text \<open>
  Claim C4. For a list of well-formed course records, \<open>updateFilterCounts\<close> of the home
  page and of the listing page return without an exception when the search input and
  the four facet selects exist, and the only exception they can raise at all is the one
  of a missing element, with a course list that is not empty. When the course list is
  empty or \<open>coursesData\<close> is undefined they return the page as it was, whether the
  elements exist or not: no label and no disabled flag changes.
\<close>

theorem updateFilterCounts_safe:
  assumes "list_all well_formed (course_list e)"
  shows "(nodes_present e \<longrightarrow>
            \<not> isl (updateFilterCounts_raw rt e)
            \<and> \<not> isl (updateFilterCounts_listing_raw rt num e))
       \<and> (isl (updateFilterCounts_raw rt e)
            \<longleftrightarrow> course_list e \<noteq> [] \<and> \<not> nodes_present e)
       \<and> (isl (updateFilterCounts_listing_raw rt num e)
            \<longleftrightarrow> course_list e \<noteq> [] \<and> \<not> nodes_present e)
       \<and> (course_list e = [] \<longrightarrow>
            updateFilterCounts_raw rt e = Inr e
            \<and> updateFilterCounts_listing_raw rt num e = Inr e)"
proof (intro conjI impI)
  assume "nodes_present e"
  then show "\<not> isl (updateFilterCounts_raw rt e)"
    and "\<not> isl (updateFilterCounts_listing_raw rt num e)"
    using assms by (simp_all add: updateFilterCounts_raw_ok updateFilterCounts_listing_raw_ok)
next
  show "isl (updateFilterCounts_raw rt e) \<longleftrightarrow> course_list e \<noteq> [] \<and> \<not> nodes_present e"
    using updateFilterCounts_raw_ok [OF assms, of rt]
      updateFilterCounts_raw_empty(1) [of e rt]
      updateFilterCounts_raw_missing(1) [of e rt]
    by (cases "course_list e = []"; cases "nodes_present e") simp_all
  show "isl (updateFilterCounts_listing_raw rt num e)
          \<longleftrightarrow> course_list e \<noteq> [] \<and> \<not> nodes_present e"
    using updateFilterCounts_listing_raw_ok [OF assms, of rt num]
      updateFilterCounts_raw_empty(2) [of e rt num]
      updateFilterCounts_raw_missing(2) [of e rt num]
    by (cases "course_list e = []"; cases "nodes_present e") simp_all
next
  assume "course_list e = []"
  then show "updateFilterCounts_raw rt e = Inr e"
    and "updateFilterCounts_listing_raw rt num e = Inr e"
    by (simp_all add: updateFilterCounts_raw_empty)
qed

text \<open>
  The example page: its three courses are well formed and its elements exist, and the
  track options get the labels that the typed functions compute. Without the track
  select both functions raise the exception. Without course data they return the page
  unchanged although the search input is missing.
\<close>

theorem updateFilterCounts_safe_witness:
  "list_all well_formed (course_list example_raw_page)
   \<and> nodes_present example_raw_page
   \<and> \<not> isl (updateFilterCounts_raw ascii_runtime example_raw_page)
   \<and> \<not> isl (updateFilterCounts_listing_raw ascii_runtime (\<lambda>v. NotANumber) example_raw_page)
   \<and> map_option (map opt_text)
        (el_trackFilter (projr (updateFilterCounts_raw ascii_runtime example_raw_page)))
       = Some (map lit [''All Tracks'', ''AI (2)'', ''QC (0)''])
   \<and> map_option (map opt_text)
        (el_trackFilter
           (projr (updateFilterCounts_listing_raw ascii_runtime (\<lambda>v. NotANumber)
                     example_raw_page)))
       = Some (map lit [''All Tracks'', ''AI (2)'', ''QC (2)''])
   \<and> list_all well_formed (course_list no_track_select_page)
   \<and> course_list no_track_select_page \<noteq> []
   \<and> \<not> nodes_present no_track_select_page
   \<and> isl (updateFilterCounts_raw ascii_runtime no_track_select_page)
   \<and> isl (updateFilterCounts_listing_raw ascii_runtime (\<lambda>v. NotANumber) no_track_select_page)
   \<and> list_all well_formed (course_list no_data_page)
   \<and> course_list no_data_page = []
   \<and> \<not> nodes_present no_data_page
   \<and> updateFilterCounts_raw ascii_runtime no_data_page = Inr no_data_page
   \<and> updateFilterCounts_listing_raw ascii_runtime (\<lambda>v. NotANumber) no_data_page
       = Inr no_data_page"
proof -
  have w: "list_all well_formed (course_list example_raw_page)"
    "list_all well_formed (course_list no_track_select_page)"
    "list_all well_formed (course_list no_data_page)"
    by code_simp+
  have n: "nodes_present example_raw_page" "\<not> nodes_present no_track_select_page"
    "\<not> nodes_present no_data_page"
    by code_simp+
  have c: "course_list no_track_select_page \<noteq> []" "course_list no_data_page = []"
    by code_simp+
  have l: "map_option (map opt_text)
        (el_trackFilter (projr (updateFilterCounts_raw ascii_runtime example_raw_page)))
       = Some (map lit [''All Tracks'', ''AI (2)'', ''QC (0)''])"
    "map_option (map opt_text)
        (el_trackFilter
           (projr (updateFilterCounts_listing_raw ascii_runtime (\<lambda>v. NotANumber)
                     example_raw_page)))
       = Some (map lit [''All Tracks'', ''AI (2)'', ''QC (2)''])"
    by code_simp+
  note a = updateFilterCounts_safe [OF w(1), of ascii_runtime "\<lambda>v. NotANumber"]
  note b = updateFilterCounts_safe [OF w(2), of ascii_runtime "\<lambda>v. NotANumber"]
  note d = updateFilterCounts_safe [OF w(3), of ascii_runtime "\<lambda>v. NotANumber"]
  show ?thesis
    using w n c l a b d by simp
qed

text \<open>
  The hypothesis on the records is needed: a course without a \<open>domains\<close> property makes
  both functions raise the exception, at \<open>course.domains.includes\<close>.
\<close>

lemma ill_formed_record_throws:
  "\<not> list_all well_formed (course_list broken_data_page)
   \<and> nodes_present broken_data_page
   \<and> updateFilterCounts_raw ascii_runtime broken_data_page = Inl TypeError
   \<and> updateFilterCounts_listing_raw ascii_runtime (\<lambda>v. NotANumber) broken_data_page
       = Inl TypeError"
  by code_simp

end
